theory Spec2Isabelle
  imports Complex_Main
begin

section \<open>Numerical fluxes of the finite-volume solver (fluxCalculation.c, source.c)\<close>

text \<open>
  The C type \<^verbatim>\<open>double\<close> is modelled by \<^typ>\<open>real\<close>: \<^verbatim>\<open>fmax\<close>, \<^verbatim>\<open>fmin\<close>, \<^verbatim>\<open>fabs\<close> and
  \<^verbatim>\<open>sqrt\<close> are \<^const>\<open>max\<close>, \<^const>\<open>min\<close>, \<^const>\<open>abs\<close> and \<^const>\<open>sqrt\<close>. Rounding, infinities and
  NaN are outside the model, so a statement below speaks about the formulas of the code
  in exact arithmetic; where the C code would divide by zero or take the root of a
  negative number the theorems carry the hypothesis that excludes it.

  An array \<^verbatim>\<open>double a[4]\<close> (\<^verbatim>\<open>NVAR\<close> = 4) is a record of its four cells. The index macros of
  the missing header are used by the code as \<^verbatim>\<open>RHO\<close> = 0, \<^verbatim>\<open>MX\<close> = \<^verbatim>\<open>VX\<close> = 1,
  \<^verbatim>\<open>MY\<close> = \<^verbatim>\<open>VY\<close> = 2, \<^verbatim>\<open>E\<close> = \<^verbatim>\<open>P\<close> = 3 (the kernels write \<^verbatim>\<open>fluxLoc[0..3]\<close>, the integrator
  reads \<^verbatim>\<open>fluxConv[RHO..E]\<close>), and \<^verbatim>\<open>X\<close> = 0, \<^verbatim>\<open>Y\<close> = 1.
\<close>

record vec4 =
  at0 :: real
  at1 :: real
  at2 :: real
  at3 :: real

text \<open>
  The scheme identifier \<^verbatim>\<open>iFlux\<close> is an integer compared with the enumerators of the
  missing header \<^verbatim>\<open>equation.h\<close>. Their numeric values are not in the sources, so an
  identifier is modelled by the \<^verbatim>\<open>case\<close> label of \<^verbatim>\<open>convectiveFlux\<close> it is equal to, and
  \<open>Unrecognized k\<close> stands for an integer \<open>k\<close> equal to none of the labels.
\<close>

datatype fluxId =
  GOD | ROE | HLL | HLLE | HLLC | LXF | STW | CEN | AUSMD | AUSMDV | VANLEER
  | Unrecognized int

text \<open>
  The process-wide variables read by the two files. \<open>exactRiemann\<close> is the external
  solver called by the Godunov kernel, with its arguments in the order
  \<open>rhoL rhoR vxL vxR pL pR cL cR s\<close> and its three output cells \<open>(rho, vx, p)\<close> as the
  result. \<open>navierstokes\<close> is the preprocessor symbol of the same name.
\<close>

record globals =
  gam :: real
  mu :: real
  Pr :: real
  iFlux :: fluxId
  sourceFunc :: int
  navierstokes :: bool
  exactRiemann :: "real \<Rightarrow> real \<Rightarrow> real \<Rightarrow> real \<Rightarrow> real \<Rightarrow> real \<Rightarrow> real \<Rightarrow> real \<Rightarrow> real
                   \<Rightarrow> real \<times> real \<times> real"

text \<open>Modelled from the spec: the derived constants \<open>\<gamma> - 1\<close> and \<open>1 / (\<gamma> - 1)\<close>, which the
  code reads as the variables \<^verbatim>\<open>gam1\<close> and \<^verbatim>\<open>gam1q\<close>; their initialisation is not in the
  sources.\<close>

definition gam1 :: "globals \<Rightarrow> real" where
  "gam1 c = gam c - 1"

definition gam1q :: "globals \<Rightarrow> real" where
  "gam1q c = 1 / gam1 c"

subsection \<open>The flux kernels\<close>

definition flux_god ::
  "globals \<Rightarrow> real \<Rightarrow> real \<Rightarrow> real \<Rightarrow> real \<Rightarrow> real \<Rightarrow> real \<Rightarrow> real \<Rightarrow> real \<Rightarrow> vec4 \<Rightarrow> vec4" where
  "flux_god c rhoL rhoR vxL vxR vyL vyR pL pR fluxLoc =
    (let cL = sqrt (gam c * pL / rhoL);
         cR = sqrt (gam c * pR / rhoR);
         (rho, vx, p) = exactRiemann c rhoL rhoR vxL vxR pL pR cL cR 0;
         vy = (if vx > 0 then vyL else vyR)
     in fluxLoc\<lparr>at0 := rho * vx,
                at1 := rho * vx * vx + p,
                at2 := rho * vx * vy,
                at3 := vx * (gam c / gam1 c * p + 0.5 * rho * (vx * vx + vy * vy))\<rparr>)"

text \<open>One pass of the entropy-fix loop of \<^verbatim>\<open>flux_roe\<close>: the new value of \<^verbatim>\<open>a[i]\<close>.\<close>

definition roe_fix :: "real \<Rightarrow> real \<Rightarrow> real \<Rightarrow> real" where
  "roe_fix a al ar =
    (let da = max (max 0 (a - al)) (ar - a)
     in if \<bar>a\<bar> < da then 0.5 * (a * a / da + da) else \<bar>a\<bar>)"

definition flux_roe ::
  "globals \<Rightarrow> real \<Rightarrow> real \<Rightarrow> real \<Rightarrow> real \<Rightarrow> real \<Rightarrow> real \<Rightarrow> real \<Rightarrow> real \<Rightarrow> vec4 \<Rightarrow> vec4" where
  "flux_roe c rhoL rhoR vxL vxR vyL vyR pL pR fluxLoc =
    (let mxL = rhoL * vxL;
         mxR = rhoR * vxR;
         myL = rhoL * vyL;
         myR = rhoR * vyR;
         eR = gam1q c * pR + 0.5 * rhoR * (vxR * vxR + vyR * vyR);
         eL = gam1q c * pL + 0.5 * rhoL * (vxL * vxL + vyL * vyL);
         HR = (eR + pR) / rhoR;
         HL = (eL + pL) / rhoL;
         rhoSqR = sqrt rhoR;
         rhoSqL = sqrt rhoL;
         rhoSqQsum = 1 / (rhoSqL + rhoSqR);
         vxBar = (rhoSqR * vxR + rhoSqL * vxL) * rhoSqQsum;
         vyBar = (rhoSqR * vyR + rhoSqL * vyL) * rhoSqQsum;
         Hbar = (rhoSqR * HR + rhoSqL * HL) * rhoSqQsum;
         cBar = sqrt (gam1 c * (Hbar - 0.5 * (vxBar * vxBar + vyBar * vyBar)));
         a0 = vxBar - cBar; a1 = vxBar; a2 = vxBar; a3 = vxBar + cBar;
         r1 = \<lparr>at0 = 1, at1 = a0, at2 = vyBar, at3 = Hbar - vxBar * cBar\<rparr>;
         r2 = \<lparr>at0 = 1, at1 = vxBar, at2 = vyBar,
               at3 = 0.5 * (vxBar * vxBar + vyBar * vyBar)\<rparr>;
         r3 = \<lparr>at0 = 0, at1 = 0, at2 = 1, at3 = vyBar\<rparr>;
         r4 = \<lparr>at0 = 1, at1 = a3, at2 = vyBar, at3 = Hbar + vxBar * cBar\<rparr>;
         delRho = rhoR - rhoL;
         delMx = mxR - mxL;
         delMy = myR - myL;
         delE = eR - eL;
         delEq = delE - (delMy - vyBar * delRho) * vyBar;
         cBarQ = 1 / cBar;
         gam2 = - gam1 c * cBarQ * cBarQ
                  * (delRho * (vxBar * vxBar - Hbar) + delEq - delMx * vxBar);
         gam1_loc = - 0.5 * cBarQ * (delMx - delRho * (vxBar + cBar)) - 0.5 * gam2;
         gam4 = delRho - gam1_loc - gam2;
         gam3 = delMy - vyBar * delRho;
         fR = \<lparr>at0 = mxR, at1 = mxR * vxR + pR, at2 = mxR * vyR, at3 = vxR * (eR + pR)\<rparr>;
         fL = \<lparr>at0 = mxL, at1 = mxL * vxL + pL, at2 = mxL * vyL, at3 = vxL * (eL + pL)\<rparr>;
         cL = sqrt (gam c * pL / rhoL);
         cR = sqrt (gam c * pR / rhoR);
         b0 = roe_fix a0 (vxL - cL) (vxR - cR);
         b1 = roe_fix a1 vxL vxR;
         b2 = roe_fix a2 vxL vxR;
         b3 = roe_fix a3 (vxL + cL) (vxR + cR);
         comp = (\<lambda>sel. 0.5 * (sel fR + sel fL
                   - gam1_loc * \<bar>b0\<bar> * sel r1
                   - gam2 * \<bar>b1\<bar> * sel r2
                   - gam3 * \<bar>b2\<bar> * sel r3
                   - gam4 * \<bar>b3\<bar> * sel r4))
     in fluxLoc\<lparr>at0 := comp at0, at1 := comp at1, at2 := comp at2, at3 := comp at3\<rparr>)"

text \<open>The branch shared by \<^verbatim>\<open>flux_hll\<close> and \<^verbatim>\<open>flux_hlle\<close> once the signal speeds are known.\<close>

definition hll_select :: "real \<Rightarrow> real \<Rightarrow> vec4 \<Rightarrow> vec4 \<Rightarrow> vec4 \<Rightarrow> vec4 \<Rightarrow> vec4 \<Rightarrow> vec4" where
  "hll_select alm arp uL uR fL fR fluxLoc =
    (let arpAlmQ = 1 / (arp - alm)
     in if alm > 0 then
          fluxLoc\<lparr>at0 := at0 fL, at1 := at1 fL, at2 := at2 fL, at3 := at3 fL\<rparr>
        else if arp < 0 then
          fluxLoc\<lparr>at0 := at0 fR, at1 := at1 fR, at2 := at2 fR, at3 := at3 fR\<rparr>
        else
          fluxLoc\<lparr>at0 := (arp * at0 fL - alm * at0 fR) * arpAlmQ
                          + (arp * alm) * arpAlmQ * (at0 uR - at0 uL),
                   at1 := (arp * at1 fL - alm * at1 fR) * arpAlmQ
                          + (arp * alm) * arpAlmQ * (at1 uR - at1 uL),
                   at2 := (arp * at2 fL - alm * at2 fR) * arpAlmQ
                          + (arp * alm) * arpAlmQ * (at2 uR - at2 uL),
                   at3 := (arp * at3 fL - alm * at3 fR) * arpAlmQ
                          + (arp * alm) * arpAlmQ * (at3 uR - at3 uL)\<rparr>)"

definition flux_hll ::
  "globals \<Rightarrow> real \<Rightarrow> real \<Rightarrow> real \<Rightarrow> real \<Rightarrow> real \<Rightarrow> real \<Rightarrow> real \<Rightarrow> real \<Rightarrow> vec4 \<Rightarrow> vec4" where
  "flux_hll c rhoL rhoR vxL vxR vyL vyR pL pR fluxLoc =
    (let rhoLq = 1 / rhoL;
         rhoRq = 1 / rhoR;
         rhoSqL = sqrt rhoL;
         rhoSqR = sqrt rhoR;
         rhoSqQsum = 1 / (rhoSqL + rhoSqR);
         eR = gam1q c * pR + 0.5 * rhoR * (vxR * vxR + vyR * vyR);
         eL = gam1q c * pL + 0.5 * rhoL * (vxL * vxL + vyL * vyL);
         uL = \<lparr>at0 = rhoL, at1 = rhoL * vxL, at2 = rhoL * vyL, at3 = eL\<rparr>;
         uR = \<lparr>at0 = rhoR, at1 = rhoR * vxR, at2 = rhoR * vyR, at3 = eR\<rparr>;
         fL = \<lparr>at0 = at1 uL, at1 = at1 uL * vxL + pL, at2 = at1 uL * vyL,
               at3 = vxL * (eL + pL)\<rparr>;
         fR = \<lparr>at0 = at1 uR, at1 = at1 uR * vxR + pR, at2 = at1 uR * vyR,
               at3 = vxR * (eR + pR)\<rparr>;
         cL = sqrt (gam c * pL * rhoLq);
         cR = sqrt (gam c * pR * rhoRq);
         HL = (eL + pL) * rhoLq;
         HR = (eR + pR) * rhoRq;
         uM = (rhoSqR * vxR + rhoSqL * vxL) * rhoSqQsum;
         vM = (rhoSqR * vyR + rhoSqL * vyL) * rhoSqQsum;
         HM = (rhoSqR * HR + rhoSqL * HL) * rhoSqQsum;
         cM = sqrt (gam1 c * (HM - 0.5 * (uM * uM + vM * vM)));
         arp = max (vxR + cR) (uM + cM);
         alm = min (vxL - cL) (uM - cM)
     in hll_select alm arp uL uR fL fR fluxLoc)"

definition flux_hlle ::
  "globals \<Rightarrow> real \<Rightarrow> real \<Rightarrow> real \<Rightarrow> real \<Rightarrow> real \<Rightarrow> real \<Rightarrow> real \<Rightarrow> real \<Rightarrow> vec4 \<Rightarrow> vec4" where
  "flux_hlle c rhoL rhoR vxL vxR vyL vyR pL pR fluxLoc =
    (let rhoLq = 1 / rhoL;
         rhoRq = 1 / rhoR;
         rhoSqL = sqrt rhoL;
         rhoSqR = sqrt rhoR;
         rhoSqQsum = 1 / (rhoSqL + rhoSqR);
         eR = gam1q c * pR + 0.5 * rhoR * (vxR * vxR + vyR * vyR);
         eL = gam1q c * pL + 0.5 * rhoL * (vxL * vxL + vyL * vyL);
         uL = \<lparr>at0 = rhoL, at1 = rhoL * vxL, at2 = rhoL * vyL, at3 = eL\<rparr>;
         uR = \<lparr>at0 = rhoR, at1 = rhoR * vxR, at2 = rhoR * vyR, at3 = eR\<rparr>;
         fL = \<lparr>at0 = at1 uL, at1 = at1 uL * vxL + pL, at2 = at1 uL * vyL,
               at3 = vxL * (eL + pL)\<rparr>;
         fR = \<lparr>at0 = at1 uR, at1 = at1 uR * vxR + pR, at2 = at1 uR * vyR,
               at3 = vxR * (eR + pR)\<rparr>;
         cL = sqrt (gam c * pL * rhoLq);
         cR = sqrt (gam c * pR * rhoRq);
         uM = (rhoSqR * vxR + rhoSqL * vxL) * rhoSqQsum;
         eta2 = 0.5 * rhoSqR * rhoSqL / (rhoSqR + rhoSqL) / (rhoSqR + rhoSqL);
         d = sqrt ((rhoSqR * cR * cR + rhoSqL * cL * cL) * rhoSqQsum
                   + eta2 * (vxR - vxL) * (vxR - vxL));
         arp = max (vxR + cR) (uM + d);
         alm = min (vxL - cL) (uM - d)
     in hll_select alm arp uL uR fL fR fluxLoc)"

definition flux_hllc ::
  "globals \<Rightarrow> real \<Rightarrow> real \<Rightarrow> real \<Rightarrow> real \<Rightarrow> real \<Rightarrow> real \<Rightarrow> real \<Rightarrow> real \<Rightarrow> vec4 \<Rightarrow> vec4" where
  "flux_hllc c rhoL rhoR vxL vxR vyL vyR pL pR fluxLoc =
    (let rhoLq = 1 / rhoL;
         rhoRq = 1 / rhoR;
         rhoSqL = sqrt rhoL;
         rhoSqR = sqrt rhoR;
         rhoSqQsum = 1 / (rhoSqL + rhoSqR);
         eR = gam1q c * pR + 0.5 * rhoR * (vxR * vxR + vyR * vyR);
         eL = gam1q c * pL + 0.5 * rhoL * (vxL * vxL + vyL * vyL);
         uL = \<lparr>at0 = rhoL, at1 = rhoL * vxL, at2 = rhoL * vyL, at3 = eL\<rparr>;
         uR = \<lparr>at0 = rhoR, at1 = rhoR * vxR, at2 = rhoR * vyR, at3 = eR\<rparr>;
         fL = \<lparr>at0 = at1 uL, at1 = at1 uL * vxL + pL, at2 = at1 uL * vyL,
               at3 = vxL * (eL + pL)\<rparr>;
         fR = \<lparr>at0 = at1 uR, at1 = at1 uR * vxR + pR, at2 = at1 uR * vyR,
               at3 = vxR * (eR + pR)\<rparr>;
         cL = sqrt (gam c * pL * rhoLq);
         cR = sqrt (gam c * pR * rhoRq);
         HL = (eL + pL) * rhoLq;
         HR = (eR + pR) * rhoRq;
         uM = (rhoSqR * vxR + rhoSqL * vxL) * rhoSqQsum;
         vM = (rhoSqR * vyR + rhoSqL * vyL) * rhoSqQsum;
         HM = (rhoSqR * HR + rhoSqL * HL) * rhoSqQsum;
         cM = sqrt (gam1 c * (HM - 0.5 * (uM * uM + vM * vM)));
         arp = max (vxR + cR) (uM + cM);
         alm = min (vxL - cL) (uM - cM)
     in if alm > 0 then
          fluxLoc\<lparr>at0 := at0 fL, at1 := at1 fL, at2 := at2 fL, at3 := at3 fL\<rparr>
        else if arp < 0 then
          fluxLoc\<lparr>at0 := at0 fR, at1 := at1 fR, at2 := at2 fR, at3 := at3 fR\<rparr>
        else
          (let as = (pR - pL + at1 uL * (alm - vxL) - at1 uR * (arp - vxR))
                    / (rhoL * (alm - vxL) - rhoR * (arp - vxR))
           in if alm \<le> 0 \<and> as \<ge> 0 then
                (let fac = rhoL * (alm - vxL) / (alm - as);
                     us = \<lparr>at0 = fac, at1 = as * fac, at2 = vyL * fac,
                           at3 = fac * (eL / rhoL + (as - vxL)
                                   * (as + pL / (rhoL * (alm - vxL))))\<rparr>
                 in fluxLoc\<lparr>at0 := at0 fL + alm * (at0 us - at0 uL),
                            at1 := at1 fL + alm * (at1 us - at1 uL),
                            at2 := at2 fL + alm * (at2 us - at2 uL),
                            at3 := at3 fL + alm * (at3 us - at3 uL)\<rparr>)
              else
                (let fac = rhoR * (arp - vxR) / (arp - as);
                     us = \<lparr>at0 = fac, at1 = as * fac, at2 = vyR * fac,
                           at3 = fac * (eR / rhoR + (as - vxR)
                                   * (as + pR / (rhoR * (arp - vxR))))\<rparr>
                 in fluxLoc\<lparr>at0 := at0 fR + arp * (at0 us - at0 uR),
                            at1 := at1 fR + arp * (at1 us - at1 uR),
                            at2 := at2 fR + arp * (at2 us - at2 uR),
                            at3 := at3 fR + arp * (at3 us - at3 uR)\<rparr>)))"

definition flux_lxf ::
  "globals \<Rightarrow> real \<Rightarrow> real \<Rightarrow> real \<Rightarrow> real \<Rightarrow> real \<Rightarrow> real \<Rightarrow> real \<Rightarrow> real \<Rightarrow> vec4 \<Rightarrow> vec4" where
  "flux_lxf c rhoL rhoR vxL vxR vyL vyR pL pR fluxLoc =
    (let cL = sqrt (gam c * pL / rhoL);
         cR = sqrt (gam c * pR / rhoR);
         a = max (\<bar>vxR\<bar> + cR) (\<bar>vxL\<bar> + cL);
         eL = gam1q c * pL + 0.5 * rhoL * (vxL * vxL + vyL * vyL);
         eR = gam1q c * pR + 0.5 * rhoR * (vxR * vxR + vyR * vyR);
         delU = \<lparr>at0 = rhoR - rhoL,
                 at1 = rhoR * vxR - rhoL * vxL,
                 at2 = rhoR * vyR - rhoL * vyL,
                 at3 = eR - eL\<rparr>;
         fL = \<lparr>at0 = rhoL * vxL,
               at1 = rhoL * vxL * vxL + pL,
               at2 = rhoL * vxL * vyL,
               at3 = vxL * (eL + pL)\<rparr>;
         fR = \<lparr>at0 = rhoR * vxR,
               at1 = rhoR * vxR * vxR + pR,
               at2 = rhoR * vxR * vyR,
               at3 = vxR * (eR + pR)\<rparr>
     in fluxLoc\<lparr>at0 := 0.5 * (at0 fR + at0 fL) - 0.5 * a * at0 delU,
                at1 := 0.5 * (at1 fR + at1 fL) - 0.5 * a * at1 delU,
                at2 := 0.5 * (at2 fR + at2 fL) - 0.5 * a * at2 delU,
                at3 := 0.5 * (at3 fR + at3 fL) - 0.5 * a * at3 delU\<rparr>)"

definition flux_stw ::
  "globals \<Rightarrow> real \<Rightarrow> real \<Rightarrow> real \<Rightarrow> real \<Rightarrow> real \<Rightarrow> real \<Rightarrow> real \<Rightarrow> real \<Rightarrow> vec4 \<Rightarrow> vec4" where
  "flux_stw c rhoL rhoR vxL vxR vyL vyR pL pR fluxLoc =
    (let cL = sqrt (gam c * pL / rhoL);
         cR = sqrt (gam c * pR / rhoR);
         gam2q = 0.5 / gam c;
         aL0 = vxL - cL; aL1 = vxL; aL2 = vxL; aL3 = vxL + cL;
         aR0 = vxR - cR; aR1 = vxR; aR2 = vxR; aR3 = vxR + cR;
         ap0 = max aL0 0; ap1 = max aL1 0; ap2 = max aL2 0; ap3 = max aL3 0;
         am0 = min aR0 0; am1 = min aR1 0; am2 = min aR2 0; am3 = min aR3 0;
         fp0 = rhoL * gam2q * (2 * gam1 c * ap1 + ap0 + ap3);
         fp1 = fp0 * vxL + (ap3 - ap0) * rhoL * cL * gam2q;
         fp2 = fp0 * vyL;
         fp3 = fp0 * 0.5 * (vxL * vxL + vyL * vyL)
               + (ap3 - ap0) * rhoL * cL * vxL * gam2q
               + (ap3 + ap0) * rhoL * cL * cL * gam2q * gam1q c;
         fm0 = rhoR * gam2q * (2 * gam1 c * am1 + am0 + am3);
         fm1 = fm0 * vxR + (am3 - am0) * rhoR * cR * gam2q;
         fm2 = fm0 * vyR;
         fm3 = fm0 * 0.5 * (vxR * vxR + vyR * vyR)
               + (am3 - am0) * rhoR * cR * vxR * gam2q
               + (am3 + am0) * rhoR * cR * cR * gam2q * gam1q c
     in fluxLoc\<lparr>at0 := fp0 + fm0, at1 := fp1 + fm1, at2 := fp2 + fm2, at3 := fp3 + fm3\<rparr>)"

definition flux_cen ::
  "globals \<Rightarrow> real \<Rightarrow> real \<Rightarrow> real \<Rightarrow> real \<Rightarrow> real \<Rightarrow> real \<Rightarrow> real \<Rightarrow> real \<Rightarrow> vec4 \<Rightarrow> vec4" where
  "flux_cen c rhoL rhoR vxL vxR vyL vyR pL pR fluxLoc =
    (let eL = gam1q c * pL + 0.5 * rhoL * (vxL * vxL + vyL * vyL);
         eR = gam1q c * pR + 0.5 * rhoR * (vxR * vxR + vyR * vyR);
         fL0 = rhoL * vxL;
         fL1 = fL0 * vxL + pL;
         fL2 = fL0 * vyL;
         fL3 = vxL * (eL + pL);
         fR0 = rhoR * vxR;
         fR1 = fR0 * vxR + pR;
         fR2 = fR0 * vyR;
         fR3 = vxR * (eR + pR)
     in fluxLoc\<lparr>at0 := 0.5 * (fL0 + fR0),
                at1 := 0.5 * (fL1 + fR1),
                at2 := 0.5 * (fL2 + fR2),
                at3 := 0.5 * (fL3 + fR3)\<rparr>)"

definition flux_ausmd ::
  "globals \<Rightarrow> real \<Rightarrow> real \<Rightarrow> real \<Rightarrow> real \<Rightarrow> real \<Rightarrow> real \<Rightarrow> real \<Rightarrow> real \<Rightarrow> vec4 \<Rightarrow> vec4" where
  "flux_ausmd c rhoL rhoR vxL vxR vyL vyR pL pR fluxLoc =
    (let eL = gam1q c * pL + 0.5 * rhoL * (vxL * vxL + vyL * vyL);
         eR = gam1q c * pR + 0.5 * rhoR * (vxR * vxR + vyR * vyR);
         HL = (eL + pL) / rhoL;
         HR = (eR + pR) / rhoR;
         cm = max (sqrt (gam c * pL / rhoL)) (sqrt (gam c * pR / rhoR));
         alphaL = 2 * pL / rhoL / (pL / rhoL + pR / rhoR);
         alphaR = 2 * pR / rhoR / (pL / rhoL + pR / rhoR);
         (uPlus, pPlus) =
           (if \<bar>vxL\<bar> < cm then
              (0.25 * alphaL * (vxL + cm) * (vxL + cm) / cm
                 + 0.5 * (1 - alphaL) * (vxL + \<bar>vxL\<bar>),
               0.25 * pL * (vxL + cm) * (vxL + cm) / (cm * cm) * (2 - vxL / cm))
            else
              (0.5 * (vxL + \<bar>vxL\<bar>),
               0.5 * pL * (vxL + \<bar>vxL\<bar>) / vxL));
         (uMinus, pMinus) =
           (if \<bar>vxR\<bar> < cm then
              (- 0.25 * alphaR * (vxR - cm) * (vxR - cm) / cm
                 + 0.5 * (1 - alphaR) * (vxR - \<bar>vxR\<bar>),
               0.25 * pR * (vxR - cm) * (vxR - cm) / (cm * cm) * (2 + vxR / cm))
            else
              (0.5 * (vxR - \<bar>vxR\<bar>),
               0.5 * pR * (vxR - \<bar>vxR\<bar>) / vxR));
         rhoU = uPlus * rhoL + uMinus * rhoR
     in fluxLoc\<lparr>at0 := rhoU,
                at1 := 0.5 * (rhoU * (vxR + vxL) - \<bar>rhoU\<bar> * (vxR - vxL)) + (pPlus + pMinus),
                at2 := 0.5 * (rhoU * (vyR + vyL) - \<bar>rhoU\<bar> * (vyR - vyL)),
                at3 := 0.5 * (rhoU * (HR + HL) - \<bar>rhoU\<bar> * (HR - HL))\<rparr>)"

definition flux_ausmdv ::
  "globals \<Rightarrow> real \<Rightarrow> real \<Rightarrow> real \<Rightarrow> real \<Rightarrow> real \<Rightarrow> real \<Rightarrow> real \<Rightarrow> real \<Rightarrow> vec4 \<Rightarrow> vec4" where
  "flux_ausmdv c rhoL rhoR vxL vxR vyL vyR pL pR fluxLoc =
    (let eL = gam1q c * pL + 0.5 * rhoL * (vxL * vxL + vyL * vyL);
         eR = gam1q c * pR + 0.5 * rhoR * (vxR * vxR + vyR * vyR);
         HL = (eL + pL) / rhoL;
         HR = (eR + pR) / rhoR;
         cL = sqrt (gam c * pL / rhoL);
         cR = sqrt (gam c * pR / rhoR);
         cm = max cL cR;
         alphaL = 2 * pL / rhoL / (pL / rhoL + pR / rhoR);
         alphaR = 2 * pR / rhoR / (pL / rhoL + pR / rhoR);
         (uPlus, pPlus) =
           (if \<bar>vxL\<bar> < cm then
              (if vxL > 0 then vxL + alphaL * (vxL - cm) * (vxL - cm)
               else alphaL * (vxL + cm) * (vxL + cm),
               0.25 * pL * (vxL + cm) * (vxL + cm) / (cm * cm) * (2 - vxL / cm))
            else
              (if vxL > 0 then (vxL, pL) else (0, 0)));
         (uMinus, pMinus) =
           (if \<bar>vxR\<bar> < cm then
              (if vxR > 0 then - alphaR * (vxL - cm) * (vxL - cm)
               else vxR - alphaR * (vxR + cm) * (vxR + cm),
               0.25 * pR * (vxR - cm) * (vxR - cm) / (cm * cm) * (2 + vxR / cm))
            else
              (if vxR > 0 then (0, 0) else (vxR, pR)));
         rhoU = uPlus * rhoL + uMinus * rhoR;
         s = min 1 (10 * \<bar>pR - pL\<bar> / min pR pL);
         rhoUsq0 = 0.5 * (1 + s) * (rhoL * vxL * uPlus + rhoR * vxR * uMinus);
         rhoUsq = rhoUsq0
                  + 0.25 * (1 - s) * (rhoU * (vxR + vxL) - \<bar>rhoU\<bar> * (vxR - vxL));
         flux1 = fluxLoc\<lparr>at0 := rhoU,
                         at1 := rhoUsq + (pPlus + pMinus),
                         at2 := 0.5 * (rhoU * (vyR + vyL) - \<bar>rhoU\<bar> * (vyR - vyL)),
                         at3 := 0.5 * (rhoU * (HR + HL) - \<bar>rhoU\<bar> * (HR - HL))\<rparr>;
         tmpa = (vxL - cL < 0 \<and> vxR - cR > 0);
         tmpb = (vxL + cL < 0 \<and> vxR + cR > 0);
         tmpL = \<lparr>at0 = 1, at1 = vxL, at2 = vyL, at3 = HL\<rparr>;
         tmpR = \<lparr>at0 = 1, at1 = vxR, at2 = vyR, at3 = HR\<rparr>;
         flux2 =
           (if tmpa \<and> \<not> tmpb then
              flux1\<lparr>at0 := at0 flux1 - 0.125 * ((vxR - cR) - (vxL - cL))
                                       * (rhoR * at0 tmpR - rhoL * at0 tmpL),
                    at1 := at1 flux1 - 0.125 * ((vxR - cR) - (vxL - cL))
                                       * (rhoR * at1 tmpR - rhoL * at1 tmpL),
                    at2 := at2 flux1 - 0.125 * ((vxR - cR) - (vxL - cL))
                                       * (rhoR * at2 tmpR - rhoL * at2 tmpL),
                    at3 := at3 flux1 - 0.125 * ((vxR - cR) - (vxL - cL))
                                       * (rhoR * at3 tmpR - rhoL * at3 tmpL)\<rparr>
            else flux1)
     in if \<not> tmpa \<and> tmpb then
          flux2\<lparr>at0 := at0 flux2 - 0.125 * ((vxR + cR) - (vxL + cL))
                                   * (rhoR * at0 tmpR - rhoL * at0 tmpL),
                at1 := at1 flux2 - 0.125 * ((vxR + cR) - (vxL + cL))
                                   * (rhoR * at1 tmpR - rhoL * at1 tmpL),
                at2 := at2 flux2 - 0.125 * ((vxR + cR) - (vxL + cL))
                                   * (rhoR * at2 tmpR - rhoL * at2 tmpL),
                at3 := at3 flux2 - 0.125 * ((vxR + cR) - (vxL + cL))
                                   * (rhoR * at3 tmpR - rhoL * at3 tmpL)\<rparr>
        else flux2)"

definition flux_vanleer ::
  "globals \<Rightarrow> real \<Rightarrow> real \<Rightarrow> real \<Rightarrow> real \<Rightarrow> real \<Rightarrow> real \<Rightarrow> real \<Rightarrow> real \<Rightarrow> vec4 \<Rightarrow> vec4" where
  "flux_vanleer c rhoL rhoR vxL vxR vyL vyR pL pR fluxLoc =
    (let cL = sqrt (gam c * pL / rhoL);
         cR = sqrt (gam c * pR / rhoR);
         eL = gam1q c * pL + 0.5 * rhoL * (vxL * vxL + vyL * vyL);
         eR = gam1q c * pR + 0.5 * rhoR * (vxR * vxR + vyR * vyR);
         HL = (eL + pL) / rhoL;
         HR = (eR + pR) / rhoR;
         ML = vxL / cL;
         fp =
           (if ML > 1 then
              (let fp0 = rhoL * vxL
               in \<lparr>at0 = fp0, at1 = fp0 * vxL + pL, at2 = fp0 * vyL, at3 = fp0 * HL\<rparr>)
            else if ML < 1 \<and> ML > - 1 then
              (let cx = gam1 c * vxL + 2 * cL;
                   fp0 = 0.25 * rhoL * cL * (ML + 1) * (ML + 1);
                   fp1 = fp0 * cx / gam c;
                   fp2 = fp0 * vyL
               in \<lparr>at0 = fp0, at1 = fp1, at2 = fp2,
                   at3 = 0.5 * (fp1 * cx * gam c / (gam c * gam c - 1) + fp2 * vyL)\<rparr>)
            else \<lparr>at0 = 0, at1 = 0, at2 = 0, at3 = 0\<rparr>);
         MR = vxR / cR;
         fm =
           (if MR < - 1 then
              (let fm0 = rhoR * vxR
               in \<lparr>at0 = fm0, at1 = fm0 * vxR + pR, at2 = fm0 * vyR, at3 = fm0 * HR\<rparr>)
            else if MR < 1 \<and> MR > - 1 then
              (let cx = gam1 c * vxR - 2 * cR;
                   fm0 = - 0.25 * rhoR * cR * (1 - MR) * (1 - MR);
                   fm1 = fm0 * cx / gam c;
                   fm2 = fm0 * vyR
               in \<lparr>at0 = fm0, at1 = fm1, at2 = fm2,
                   at3 = 0.5 * (fm1 * cx * gam c / (gam c * gam c - 1) + fm2 * vyR)\<rparr>)
            else \<lparr>at0 = 0, at1 = 0, at2 = 0, at3 = 0\<rparr>)
     in fluxLoc\<lparr>at0 := at0 fp + at0 fm,
                at1 := at1 fp + at1 fm,
                at2 := at2 fp + at2 fm,
                at3 := at3 fp + at3 fm\<rparr>)"

subsection \<open>The dispatch\<close>

text \<open>The \<^verbatim>\<open>switch\<close> has eleven labels and no \<^verbatim>\<open>default\<close>: an identifier equal to none of
  them falls through, and the function returns with \<^verbatim>\<open>fluxLoc\<close> as it was passed.\<close>

definition convectiveFlux ::
  "globals \<Rightarrow> real \<Rightarrow> real \<Rightarrow> real \<Rightarrow> real \<Rightarrow> real \<Rightarrow> real \<Rightarrow> real \<Rightarrow> real \<Rightarrow> vec4 \<Rightarrow> vec4" where
  "convectiveFlux c rhoL rhoR vxL vxR vyL vyR pL pR fluxLoc =
    (case iFlux c of
       GOD \<Rightarrow> flux_god c rhoL rhoR vxL vxR vyL vyR pL pR fluxLoc
     | ROE \<Rightarrow> flux_roe c rhoL rhoR vxL vxR vyL vyR pL pR fluxLoc
     | HLL \<Rightarrow> flux_hll c rhoL rhoR vxL vxR vyL vyR pL pR fluxLoc
     | HLLE \<Rightarrow> flux_hlle c rhoL rhoR vxL vxR vyL vyR pL pR fluxLoc
     | HLLC \<Rightarrow> flux_hllc c rhoL rhoR vxL vxR vyL vyR pL pR fluxLoc
     | LXF \<Rightarrow> flux_lxf c rhoL rhoR vxL vxR vyL vyR pL pR fluxLoc
     | STW \<Rightarrow> flux_stw c rhoL rhoR vxL vxR vyL vyR pL pR fluxLoc
     | CEN \<Rightarrow> flux_cen c rhoL rhoR vxL vxR vyL vyR pL pR fluxLoc
     | AUSMD \<Rightarrow> flux_ausmd c rhoL rhoR vxL vxR vyL vyR pL pR fluxLoc
     | AUSMDV \<Rightarrow> flux_ausmdv c rhoL rhoR vxL vxR vyL vyR pL pR fluxLoc
     | VANLEER \<Rightarrow> flux_vanleer c rhoL rhoR vxL vxR vyL vyR pL pR fluxLoc
     | Unrecognized k \<Rightarrow> fluxLoc)"

subsection \<open>The diffusive flux\<close>

text \<open>\<^verbatim>\<open>diffusionFlux\<close> writes cells 1 to 3 of its two output arrays; the assignments to
  \<^verbatim>\<open>f[RHO]\<close> and \<^verbatim>\<open>g[RHO]\<close> are commented out in the source, so cell 0 keeps what the caller
  put there. The result is the pair of the two arrays after the call.\<close>

definition diffusionFlux ::
  "globals \<Rightarrow> vec4 \<Rightarrow> vec4 \<Rightarrow> vec4 \<Rightarrow> vec4 \<Rightarrow> vec4 \<Rightarrow> vec4 \<times> vec4" where
  "diffusionFlux c state gradX gradY f g =
    (f\<lparr>at1 := (4 / 3 * at1 gradX - 2 / 3 * at2 gradY) * mu c,
       at2 := (at1 gradY + at2 gradX) * mu c,
       at3 := (4 / 3 * at1 state * at1 gradX - 2 / 3 * at1 state * at2 gradY
               + (at2 gradX + at1 gradY) * at2 state
               + gam c / (gam1 c * Pr c * at0 state * at0 state)
                 * (at0 state * at3 gradX - at3 state * at0 gradX)) * mu c\<rparr>,
     g\<lparr>at1 := (at1 gradY + at2 gradX) * mu c,
       at2 := (4 / 3 * at2 gradY - 2 / 3 * at1 gradX) * mu c,
       at3 := (4 / 3 * at2 state * at2 gradY - 2 / 3 * at2 state * at1 gradX
               + (at1 gradY + at2 gradX) * at1 state
               + gam c / (gam1 c * Pr c * at0 state * at0 state)
                 * (at0 state * at3 gradY - at3 state * at0 gradY)) * mu c\<rparr>)"

subsection \<open>Sides, elements and the store\<close>

text \<open>
  The structs \<^verbatim>\<open>side_t\<close> and \<^verbatim>\<open>elem_t\<close> with the fields the two files use. A pointer is an
  address (a natural number) into the store of its type; the store is total, as the C
  code dereferences without any check. The arrays \<^verbatim>\<open>xGP\<close> and \<^verbatim>\<open>wGP\<close> are reached through
  pointers and indexed without a bound, so they are functions of the index.
\<close>

record side_t =
  pVar :: vec4
  n :: "real \<times> real"
  len :: real
  flux :: vec4
  connection :: nat
  elem :: nat
  baryBaryVec :: "real \<times> real"
  baryBaryDist :: real

record elem_t =
  e_pVar :: vec4
  u_x :: vec4
  u_y :: vec4
  source :: vec4
  nGP :: int
  xGP :: "nat \<Rightarrow> real \<times> real"
  wGP :: "nat \<Rightarrow> real"

record store =
  sides :: "nat \<Rightarrow> side_t"
  elems :: "nat \<Rightarrow> elem_t"

text \<open>The global arrays \<^verbatim>\<open>side\<close> and \<^verbatim>\<open>elem\<close> of pointers; \<^verbatim>\<open>nSides\<close> and \<^verbatim>\<open>nElems\<close> are their
  lengths.\<close>

record mesh =
  side :: "nat list"
  elem_arr :: "nat list"

definition zero4 :: vec4 where
  "zero4 = \<lparr>at0 = 0, at1 = 0, at2 = 0, at3 = 0\<rparr>"

definition neg4 :: "vec4 \<Rightarrow> vec4" where
  "neg4 v = \<lparr>at0 = - at0 v, at1 = - at1 v, at2 = - at2 v, at3 = - at3 v\<rparr>"

subsection \<open>The face loop\<close>

text \<open>The rotation of a primitive state into the frame of the normal \<open>(nx, ny)\<close>
  (\<^verbatim>\<open>pVarL\<close>, \<^verbatim>\<open>pVarR\<close> of the loop body).\<close>

definition rotate_in :: "real \<times> real \<Rightarrow> vec4 \<Rightarrow> vec4" where
  "rotate_in nrm pv =
    \<lparr>at0 = at0 pv,
     at1 = fst nrm * at1 pv + snd nrm * at2 pv,
     at2 = - snd nrm * at1 pv + fst nrm * at2 pv,
     at3 = at3 pv\<rparr>"

text \<open>The rotation of the flux back into the global frame (the four assignments to
  \<^verbatim>\<open>aSide->flux\<close> after the kernel call).\<close>

definition rotate_back :: "real \<times> real \<Rightarrow> vec4 \<Rightarrow> vec4" where
  "rotate_back nrm fluxConv =
    \<lparr>at0 = at0 fluxConv,
     at1 = fst nrm * at1 fluxConv - snd nrm * at2 fluxConv,
     at2 = snd nrm * at1 fluxConv + fst nrm * at2 fluxConv,
     at3 = at3 fluxConv\<rparr>"

text \<open>The two diffusive flux arrays of a side in the viscous build: the mean state, the
  mean gradients, the correction along the line of the two barycentres, and the call of
  \<^verbatim>\<open>diffusionFlux\<close> on arrays initialised with zeros.\<close>

definition side_diffusion :: "globals \<Rightarrow> store \<Rightarrow> nat \<Rightarrow> vec4 \<times> vec4" where
  "side_diffusion c st a =
    (let aSide = sides st a;
         conn = sides st (connection aSide);
         el = elems st (elem aSide);
         cel = elems st (elem conn);
         mean = (\<lambda>sel x y. 0.5 * (sel x + sel y));
         stateMean = \<lparr>at0 = mean at0 (pVar conn) (pVar aSide),
                      at1 = mean at1 (pVar conn) (pVar aSide),
                      at2 = mean at2 (pVar conn) (pVar aSide),
                      at3 = mean at3 (pVar conn) (pVar aSide)\<rparr>;
         gradUxMean = \<lparr>at0 = mean at0 (u_x el) (u_x cel),
                       at1 = mean at1 (u_x el) (u_x cel),
                       at2 = mean at2 (u_x el) (u_x cel),
                       at3 = mean at3 (u_x el) (u_x cel)\<rparr>;
         gradUyMean = \<lparr>at0 = mean at0 (u_y el) (u_y cel),
                       at1 = mean at1 (u_y el) (u_y cel),
                       at2 = mean at2 (u_y el) (u_y cel),
                       at3 = mean at3 (u_y el) (u_y cel)\<rparr>;
         bbX = fst (baryBaryVec aSide) / baryBaryDist aSide;
         bbY = snd (baryBaryVec aSide) / baryBaryDist aSide;
         corr = (\<lambda>sel. sel gradUxMean * bbX + sel gradUyMean * bbY
                   - (sel (e_pVar cel) - sel (e_pVar el)) / baryBaryDist aSide);
         correction = \<lparr>at0 = corr at0, at1 = corr at1, at2 = corr at2, at3 = corr at3\<rparr>;
         gradUx = \<lparr>at0 = at0 gradUxMean - at0 correction * bbX,
                   at1 = at1 gradUxMean - at1 correction * bbX,
                   at2 = at2 gradUxMean - at2 correction * bbX,
                   at3 = at3 gradUxMean - at3 correction * bbX\<rparr>;
         gradUy = \<lparr>at0 = at0 gradUyMean - at0 correction * bbY,
                   at1 = at1 gradUyMean - at1 correction * bbY,
                   at2 = at2 gradUyMean - at2 correction * bbY,
                   at3 = at3 gradUyMean - at3 correction * bbY\<rparr>
     in diffusionFlux c stateMean gradUx gradUy zero4 zero4)"

text \<open>The convective flux array of a side: both states rotated with the side's own
  normal, and \<^verbatim>\<open>convectiveFlux\<close> called on \<^verbatim>\<open>fluxConv[4] = {0.0}\<close>.\<close>

definition side_convective :: "globals \<Rightarrow> store \<Rightarrow> nat \<Rightarrow> vec4" where
  "side_convective c st a =
    (let aSide = sides st a;
         pVarL = rotate_in (n aSide) (pVar aSide);
         pVarR = rotate_in (n aSide) (pVar (sides st (connection aSide)))
     in convectiveFlux c (at0 pVarL) (at0 pVarR) (at1 pVarL) (at1 pVarR)
          (at2 pVarL) (at2 pVarR) (at3 pVarL) (at3 pVarR) zero4)"

text \<open>The value of \<^verbatim>\<open>aSide->flux\<close> when the loop body reaches the assignments to the
  connection: rotated back, less the diffusive part in the viscous build, times the
  length of the side.\<close>

definition side_flux :: "globals \<Rightarrow> store \<Rightarrow> nat \<Rightarrow> vec4" where
  "side_flux c st a =
    (let aSide = sides st a;
         nx = fst (n aSide);
         ny = snd (n aSide);
         fl0 = rotate_back (n aSide) (side_convective c st a);
         fl1 = (if navierstokes c then
                  (let (fluxDiffX, fluxDiffY) = side_diffusion c st a
                   in \<lparr>at0 = at0 fl0 - (at0 fluxDiffX * nx + at0 fluxDiffY * ny),
                       at1 = at1 fl0 - (at1 fluxDiffX * nx + at1 fluxDiffY * ny),
                       at2 = at2 fl0 - (at2 fluxDiffX * nx + at2 fluxDiffY * ny),
                       at3 = at3 fl0 - (at3 fluxDiffX * nx + at3 fluxDiffY * ny)\<rparr>)
                else fl0)
     in \<lparr>at0 = at0 fl1 * len aSide,
         at1 = at1 fl1 * len aSide,
         at2 = at2 fl1 * len aSide,
         at3 = at3 fl1 * len aSide\<rparr>)"

text \<open>One pass of the loop over the sides: the flux is stored in the side, then its
  negation, read back from the side, is stored in the connection.\<close>

definition set_flux :: "nat \<Rightarrow> vec4 \<Rightarrow> store \<Rightarrow> store" where
  "set_flux a v st = st\<lparr>sides := (sides st)(a := (sides st a)\<lparr>flux := v\<rparr>)\<rparr>"

definition fluxCalculation_body :: "globals \<Rightarrow> store \<Rightarrow> nat \<Rightarrow> store" where
  "fluxCalculation_body c st a =
    (let st1 = set_flux a (side_flux c st a) st
     in set_flux (connection (sides st1 a)) (neg4 (flux (sides st1 a))) st1)"

text \<open>The loop in index order. The source runs it as an OpenMP parallel loop; the model
  is its sequential execution.\<close>

definition fluxCalculation :: "globals \<Rightarrow> mesh \<Rightarrow> store \<Rightarrow> store" where
  "fluxCalculation c m st = foldl (fluxCalculation_body c) st (side m)"

subsection \<open>The source term\<close>

definition evalSource :: "globals \<Rightarrow> int \<Rightarrow> real \<times> real \<Rightarrow> real \<Rightarrow> vec4 \<Rightarrow> vec4" where
  "evalSource c iSource x time src =
    (if iSource = 1 then
       (let freq = 1;
            amp = 0.1;
            om = pi * freq;
            a = 2 * pi;
            tmp1 = cos (om * (fst x + snd x) - a * time);
            tmp2 = sin (2 * (om * (fst x + snd x) - a * time));
            tmp3 = sin (om * (fst x + snd x) - a * time);
            s0 = (- a + 2 * om) * tmp1;
            s1 = (- a + om * (gam c * 3 - 1)) * tmp1 + amp * om * gam1 c * tmp2;
            s2 = s1;
            s3 = (if navierstokes c then
                    ((2 + gam c * 6) * om - 4 * a) * tmp1
                    + amp * (2 * om * gam c - a) * tmp2
                    + 2 * mu c * gam c * om * om / Pr c * tmp3
                  else
                    ((2 + gam c * 6) * om - 4 * a) * tmp1
                    + amp * (2 * om * gam c - a) * tmp2)
        in src\<lparr>at0 := s0 * amp, at1 := s1 * amp, at2 := s2 * amp, at3 := s3 * amp\<rparr>)
     else src)"

text \<open>One pass of the loop over the Gauss points of an element: the local array
  \<^verbatim>\<open>source\<close> and the element with its accumulator.\<close>

definition gauss_step :: "globals \<Rightarrow> real \<Rightarrow> vec4 \<times> elem_t \<Rightarrow> nat \<Rightarrow> vec4 \<times> elem_t" where
  "gauss_step c time acc iGP =
    (let aElem = snd acc;
         src = evalSource c (sourceFunc c) (xGP aElem iGP) time (fst acc);
         w = wGP aElem iGP;
         old = source aElem
     in (src, aElem\<lparr>source := \<lparr>at0 = at0 old + at0 src * w,
                               at1 = at1 old + at1 src * w,
                               at2 = at2 old + at2 src * w,
                               at3 = at3 old + at3 src * w\<rparr>\<rparr>))"

definition calcSource_elem :: "globals \<Rightarrow> real \<Rightarrow> elem_t \<Rightarrow> elem_t" where
  "calcSource_elem c time aElem =
    snd (foldl (gauss_step c time) (zero4, aElem\<lparr>source := zero4\<rparr>) [0 ..< nat (nGP aElem)])"

definition calcSource_body :: "globals \<Rightarrow> real \<Rightarrow> store \<Rightarrow> nat \<Rightarrow> store" where
  "calcSource_body c time st e = st\<lparr>elems := (elems st)(e := calcSource_elem c time (elems st e))\<rparr>"

definition calcSource :: "globals \<Rightarrow> mesh \<Rightarrow> real \<Rightarrow> store \<Rightarrow> store" where
  "calcSource c m time st = foldl (calcSource_body c time) st (elem_arr m)"

subsection \<open>A small mesh for concrete evaluation\<close>

text \<open>Two sides that are each other's connection, between two elements; only side 0 is in
  the array of sides, as one physical face is visited once.\<close>

definition ex_globals :: globals where
  "ex_globals =
    \<lparr>gam = 7 / 5, mu = 1, Pr = 1, iFlux = CEN, sourceFunc = 1, navierstokes = False,
     exactRiemann = (\<lambda>rhoL rhoR vxL vxR pL pR cL cR s. (rhoL, vxL, pL))\<rparr>"

definition ex_side0 :: side_t where
  "ex_side0 =
    \<lparr>pVar = \<lparr>at0 = 1, at1 = 2, at2 = 0, at3 = 1\<rparr>, n = (3 / 5, 4 / 5), len = 2,
     flux = \<lparr>at0 = 9, at1 = 9, at2 = 9, at3 = 9\<rparr>, connection = 1, elem = 0,
     baryBaryVec = (1, 0), baryBaryDist = 1\<rparr>"

definition ex_side1 :: side_t where
  "ex_side1 =
    \<lparr>pVar = \<lparr>at0 = 2, at1 = 0, at2 = 1, at3 = 3\<rparr>, n = (- 3 / 5, - 4 / 5), len = 2,
     flux = \<lparr>at0 = 7, at1 = 7, at2 = 7, at3 = 7\<rparr>, connection = 0, elem = 1,
     baryBaryVec = (- 1, 0), baryBaryDist = 1\<rparr>"

definition ex_elem0 :: elem_t where
  "ex_elem0 =
    \<lparr>e_pVar = \<lparr>at0 = 1, at1 = 2, at2 = 0, at3 = 1\<rparr>,
     u_x = \<lparr>at0 = 0, at1 = 1, at2 = 0, at3 = 0\<rparr>,
     u_y = \<lparr>at0 = 0, at1 = 0, at2 = 0, at3 = 0\<rparr>,
     source = \<lparr>at0 = 5, at1 = 5, at2 = 5, at3 = 5\<rparr>,
     nGP = 1, xGP = (\<lambda>i. (0, 0)), wGP = (\<lambda>i. 1)\<rparr>"

definition ex_elem1 :: elem_t where
  "ex_elem1 =
    \<lparr>e_pVar = \<lparr>at0 = 2, at1 = 0, at2 = 1, at3 = 3\<rparr>,
     u_x = \<lparr>at0 = 0, at1 = 1, at2 = 0, at3 = 0\<rparr>,
     u_y = \<lparr>at0 = 0, at1 = 0, at2 = 0, at3 = 0\<rparr>,
     source = \<lparr>at0 = 6, at1 = 6, at2 = 6, at3 = 6\<rparr>,
     nGP = 0, xGP = (\<lambda>i. (0, 0)), wGP = (\<lambda>i. 1)\<rparr>"

definition ex_store :: store where
  "ex_store =
    \<lparr>sides = (\<lambda>a. if a = 0 then ex_side0 else ex_side1),
     elems = (\<lambda>e. if e = 0 then ex_elem0 else ex_elem1)\<rparr>"

definition ex_mesh :: mesh where
  "ex_mesh = \<lparr>side = [0], elem_arr = [0, 1]\<rparr>"

subsection \<open>Notions of the specification\<close>

text \<open>The eleven \<^verbatim>\<open>case\<close> labels of \<^verbatim>\<open>convectiveFlux\<close>.\<close>

definition recognized :: "fluxId set" where
  "recognized = {GOD, ROE, HLL, HLLE, HLLC, LXF, STW, CEN, AUSMD, AUSMDV, VANLEER}"

text \<open>The exact physical flux of one primitive state, in the words of the specification:
  \<open>F(U) = (\<rho>v, \<rho>v\<^sup>2 + p, \<rho>v v\<^sub>t, v (E + p))\<close> with the total energy
  \<open>E = p / (\<gamma> - 1) + \<rho> |v|\<^sup>2 / 2\<close> of the ideal gas.\<close>

definition spec_energy :: "globals \<Rightarrow> real \<Rightarrow> real \<Rightarrow> real \<Rightarrow> real \<Rightarrow> real" where
  "spec_energy c rho v vt p = p / (gam c - 1) + 1 / 2 * rho * (v\<^sup>2 + vt\<^sup>2)"

definition spec_physical_flux :: "globals \<Rightarrow> real \<Rightarrow> real \<Rightarrow> real \<Rightarrow> real \<Rightarrow> vec4" where
  "spec_physical_flux c rho v vt p =
    \<lparr>at0 = rho * v,
     at1 = rho * v\<^sup>2 + p,
     at2 = rho * v * vt,
     at3 = v * (spec_energy c rho v vt p + p)\<rparr>"

text \<open>The quadrature sum of the source term over the first \<open>k\<close> Gauss points of an
  element: the weighted sum of the source function at the points, cell by cell.\<close>

definition quad_sum :: "globals \<Rightarrow> real \<Rightarrow> elem_t \<Rightarrow> nat \<Rightarrow> vec4" where
  "quad_sum c time aElem k =
    (let term = (\<lambda>sel i. sel (evalSource c (sourceFunc c) (xGP aElem i) time zero4)
                           * wGP aElem i)
     in \<lparr>at0 = (\<Sum>i<k. term at0 i), at1 = (\<Sum>i<k. term at1 i),
         at2 = (\<Sum>i<k. term at2 i), at3 = (\<Sum>i<k. term at3 i)\<rparr>)"

text \<open>The example mesh with a chosen normal of side 0 and chosen states on the two sides.\<close>

definition ex_face :: "real \<times> real \<Rightarrow> vec4 \<Rightarrow> vec4 \<Rightarrow> store" where
  "ex_face nrm pl pr =
    \<lparr>sides = (\<lambda>a. if a = 0 then ex_side0\<lparr>pVar := pl, n := nrm\<rparr>
                    else ex_side1\<lparr>pVar := pr\<rparr>),
     elems = (\<lambda>e. if e = 0 then ex_elem0 else ex_elem1)\<rparr>"

text \<open>The precondition of every kernel: positive density and pressure on both sides, and
  a ratio of specific heats above one.\<close>

definition admissible :: "globals \<Rightarrow> real \<Rightarrow> real \<Rightarrow> real \<Rightarrow> real \<Rightarrow> bool" where
  "admissible c rhoL rhoR pL pR \<longleftrightarrow> gam c > 1 \<and> rhoL > 0 \<and> rhoR > 0 \<and> pL > 0 \<and> pR > 0"

text \<open>The conserved variables of a primitive state, the physical sound speed, the total
  enthalpy, and the Roe average (weighted with the square roots of the densities) of a
  quantity and of the sound speed, as the specification names them.\<close>

definition spec_conserved :: "globals \<Rightarrow> real \<Rightarrow> real \<Rightarrow> real \<Rightarrow> real \<Rightarrow> vec4" where
  "spec_conserved c rho v vt p =
    \<lparr>at0 = rho, at1 = rho * v, at2 = rho * vt, at3 = spec_energy c rho v vt p\<rparr>"

definition spec_sound :: "globals \<Rightarrow> real \<Rightarrow> real \<Rightarrow> real" where
  "spec_sound c rho p = sqrt (gam c * p / rho)"

definition spec_enthalpy :: "globals \<Rightarrow> real \<Rightarrow> real \<Rightarrow> real \<Rightarrow> real \<Rightarrow> real" where
  "spec_enthalpy c rho v vt p = (spec_energy c rho v vt p + p) / rho"

definition spec_roe_mean :: "real \<Rightarrow> real \<Rightarrow> real \<Rightarrow> real \<Rightarrow> real" where
  "spec_roe_mean rhoL rhoR xL xR = (sqrt rhoL * xL + sqrt rhoR * xR) / (sqrt rhoL + sqrt rhoR)"

definition spec_roe_sound ::
  "globals \<Rightarrow> real \<Rightarrow> real \<Rightarrow> real \<Rightarrow> real \<Rightarrow> real \<Rightarrow> real \<Rightarrow> real \<Rightarrow> real \<Rightarrow> real" where
  "spec_roe_sound c rhoL rhoR vxL vxR vyL vyR pL pR =
    sqrt ((gam c - 1)
          * (spec_roe_mean rhoL rhoR (spec_enthalpy c rhoL vxL vyL pL) (spec_enthalpy c rhoR vxR vyR pR)
             - ((spec_roe_mean rhoL rhoR vxL vxR)\<^sup>2 + (spec_roe_mean rhoL rhoR vyL vyR)\<^sup>2) / 2))"

text \<open>The two signal speeds of HLL: the minimum, respectively the maximum, of the physical
  and the Roe-averaged eigenvalue.\<close>

definition spec_hll_alm ::
  "globals \<Rightarrow> real \<Rightarrow> real \<Rightarrow> real \<Rightarrow> real \<Rightarrow> real \<Rightarrow> real \<Rightarrow> real \<Rightarrow> real \<Rightarrow> real" where
  "spec_hll_alm c rhoL rhoR vxL vxR vyL vyR pL pR =
    min (vxL - spec_sound c rhoL pL)
        (spec_roe_mean rhoL rhoR vxL vxR - spec_roe_sound c rhoL rhoR vxL vxR vyL vyR pL pR)"

definition spec_hll_arp ::
  "globals \<Rightarrow> real \<Rightarrow> real \<Rightarrow> real \<Rightarrow> real \<Rightarrow> real \<Rightarrow> real \<Rightarrow> real \<Rightarrow> real \<Rightarrow> real" where
  "spec_hll_arp c rhoL rhoR vxL vxR vyL vyR pL pR =
    max (vxR + spec_sound c rhoR pR)
        (spec_roe_mean rhoL rhoR vxL vxR + spec_roe_sound c rhoL rhoR vxL vxR vyL vyR pL pR)"

text \<open>The two-wave HLL average in its usual form,
  \<open>(s\<^sub>R F\<^sub>L - s\<^sub>L F\<^sub>R + s\<^sub>L s\<^sub>R (U\<^sub>R - U\<^sub>L)) / (s\<^sub>R - s\<^sub>L)\<close>.\<close>

definition spec_hll_average :: "real \<Rightarrow> real \<Rightarrow> vec4 \<Rightarrow> vec4 \<Rightarrow> vec4 \<Rightarrow> vec4 \<Rightarrow> vec4" where
  "spec_hll_average sL sR fL fR uL uR =
    (let avg = (\<lambda>sel. (sR * sel fL - sL * sel fR + sL * sR * (sel uR - sel uL)) / (sR - sL))
     in \<lparr>at0 = avg at0, at1 = avg at1, at2 = avg at2, at3 = avg at3\<rparr>)"

subsection \<open>Reflection of states and fluxes, and the stages of the kernels\<close>

text \<open>The reflection of a flux vector: mass and energy flux change sign, the two momentum
  fluxes stay.\<close>

definition mirror4 :: "vec4 \<Rightarrow> vec4" where
  "mirror4 f = \<lparr>at0 = - at0 f, at1 = at1 f, at2 = at2 f, at3 = - at3 f\<rparr>"

text \<open>The reflection of a vector of conserved variables: the two momenta change sign.\<close>

definition flip4 :: "vec4 \<Rightarrow> vec4" where
  "flip4 u = \<lparr>at0 = at0 u, at1 = - at1 u, at2 = - at2 u, at3 = at3 u\<rparr>"

text \<open>The term \<^verbatim>\<open>d\<close> of \<^verbatim>\<open>flux_hlle\<close> (the signal-speed estimate of Einfeld), as the source
  computes it.\<close>

definition hlle_d :: "globals \<Rightarrow> real \<Rightarrow> real \<Rightarrow> real \<Rightarrow> real \<Rightarrow> real \<Rightarrow> real \<Rightarrow> real" where
  "hlle_d c rhoL rhoR vxL vxR pL pR =
    (let rhoSqL = sqrt rhoL;
         rhoSqR = sqrt rhoR;
         rhoSqQsum = 1 / (rhoSqL + rhoSqR);
         cL = sqrt (gam c * pL * (1 / rhoL));
         cR = sqrt (gam c * pR * (1 / rhoR));
         eta2 = 0.5 * rhoSqR * rhoSqL / (rhoSqR + rhoSqL) / (rhoSqR + rhoSqL)
     in sqrt ((rhoSqR * cR * cR + rhoSqL * cL * cL) * rhoSqQsum
              + eta2 * (vxR - vxL) * (vxR - vxL)))"

text \<open>The flux from the left of \<^verbatim>\<open>flux_vanleer\<close> (the array \<^verbatim>\<open>fp\<close>), a function of the left state.\<close>

definition vanleer_plus :: "globals \<Rightarrow> real \<Rightarrow> real \<Rightarrow> real \<Rightarrow> real \<Rightarrow> vec4" where
  "vanleer_plus c rhoL vxL vyL pL =
    (let cL = sqrt (gam c * pL / rhoL);
         eL = gam1q c * pL + 0.5 * rhoL * (vxL * vxL + vyL * vyL);
         HL = (eL + pL) / rhoL;
         ML = vxL / cL
     in if ML > 1 then
              (let fp0 = rhoL * vxL
               in \<lparr>at0 = fp0, at1 = fp0 * vxL + pL, at2 = fp0 * vyL, at3 = fp0 * HL\<rparr>)
            else if ML < 1 \<and> ML > - 1 then
              (let cx = gam1 c * vxL + 2 * cL;
                   fp0 = 0.25 * rhoL * cL * (ML + 1) * (ML + 1);
                   fp1 = fp0 * cx / gam c;
                   fp2 = fp0 * vyL
               in \<lparr>at0 = fp0, at1 = fp1, at2 = fp2,
                   at3 = 0.5 * (fp1 * cx * gam c / (gam c * gam c - 1) + fp2 * vyL)\<rparr>)
            else \<lparr>at0 = 0, at1 = 0, at2 = 0, at3 = 0\<rparr>)"

text \<open>The flux from the right of \<^verbatim>\<open>flux_vanleer\<close> (the array \<^verbatim>\<open>fm\<close>), a function of the right
  state.\<close>

definition vanleer_minus :: "globals \<Rightarrow> real \<Rightarrow> real \<Rightarrow> real \<Rightarrow> real \<Rightarrow> vec4" where
  "vanleer_minus c rhoR vxR vyR pR =
    (let cR = sqrt (gam c * pR / rhoR);
         eR = gam1q c * pR + 0.5 * rhoR * (vxR * vxR + vyR * vyR);
         HR = (eR + pR) / rhoR;
         MR = vxR / cR
     in if MR < - 1 then
              (let fm0 = rhoR * vxR
               in \<lparr>at0 = fm0, at1 = fm0 * vxR + pR, at2 = fm0 * vyR, at3 = fm0 * HR\<rparr>)
            else if MR < 1 \<and> MR > - 1 then
              (let cx = gam1 c * vxR - 2 * cR;
                   fm0 = - 0.25 * rhoR * cR * (1 - MR) * (1 - MR);
                   fm1 = fm0 * cx / gam c;
                   fm2 = fm0 * vyR
               in \<lparr>at0 = fm0, at1 = fm1, at2 = fm2,
                   at3 = 0.5 * (fm1 * cx * gam c / (gam c * gam c - 1) + fm2 * vyR)\<rparr>)
            else \<lparr>at0 = 0, at1 = 0, at2 = 0, at3 = 0\<rparr>)"

text \<open>The pair \<^verbatim>\<open>(uPlus, pPlus)\<close> of \<^verbatim>\<open>flux_ausmd\<close>.\<close>

definition ausmd_plus :: "real \<Rightarrow> real \<Rightarrow> real \<Rightarrow> real \<Rightarrow> real \<times> real" where
  "ausmd_plus cm alphaL vxL pL =
           (if \<bar>vxL\<bar> < cm then
              (0.25 * alphaL * (vxL + cm) * (vxL + cm) / cm
                 + 0.5 * (1 - alphaL) * (vxL + \<bar>vxL\<bar>),
               0.25 * pL * (vxL + cm) * (vxL + cm) / (cm * cm) * (2 - vxL / cm))
            else
              (0.5 * (vxL + \<bar>vxL\<bar>),
               0.5 * pL * (vxL + \<bar>vxL\<bar>) / vxL))"

text \<open>The pair \<^verbatim>\<open>(uMinus, pMinus)\<close> of \<^verbatim>\<open>flux_ausmd\<close>.\<close>

definition ausmd_minus :: "real \<Rightarrow> real \<Rightarrow> real \<Rightarrow> real \<Rightarrow> real \<times> real" where
  "ausmd_minus cm alphaR vxR pR =
           (if \<bar>vxR\<bar> < cm then
              (- 0.25 * alphaR * (vxR - cm) * (vxR - cm) / cm
                 + 0.5 * (1 - alphaR) * (vxR - \<bar>vxR\<bar>),
               0.25 * pR * (vxR - cm) * (vxR - cm) / (cm * cm) * (2 + vxR / cm))
            else
              (0.5 * (vxR - \<bar>vxR\<bar>),
               0.5 * pR * (vxR - \<bar>vxR\<bar>) / vxR))"

text \<open>The last four assignments of \<^verbatim>\<open>flux_ausmd\<close>, from the two pairs and the enthalpies.\<close>

definition ausmd_combine ::
  "real \<times> real \<Rightarrow> real \<times> real \<Rightarrow> real \<Rightarrow> real \<Rightarrow> real \<Rightarrow> real \<Rightarrow> real \<Rightarrow> real \<Rightarrow> real \<Rightarrow> real
   \<Rightarrow> vec4 \<Rightarrow> vec4" where
  "ausmd_combine up um rhoL rhoR vxL vxR vyL vyR HL HR fluxLoc =
    (let rhoU = fst up * rhoL + fst um * rhoR
     in fluxLoc\<lparr>at0 := rhoU,
                at1 := 0.5 * (rhoU * (vxR + vxL) - \<bar>rhoU\<bar> * (vxR - vxL)) + (snd up + snd um),
                at2 := 0.5 * (rhoU * (vyR + vyL) - \<bar>rhoU\<bar> * (vyR - vyL)),
                at3 := 0.5 * (rhoU * (HR + HL) - \<bar>rhoU\<bar> * (HR - HL))\<rparr>)"

text \<open>The part of \<^verbatim>\<open>flux_roe\<close> after the Roe averages: eigenvectors, jumps, wave strengths and
  the final sum, with the averages, the conserved variables, the physical fluxes and the
  four fixed eigenvalues as arguments.\<close>

definition roe_stage ::
  "real \<Rightarrow> real \<Rightarrow> real \<Rightarrow> real \<Rightarrow> real \<Rightarrow> real \<Rightarrow> real \<Rightarrow> real \<Rightarrow> real \<Rightarrow> real \<Rightarrow> real \<Rightarrow> real \<Rightarrow> real \<Rightarrow> real
   \<Rightarrow> vec4 \<Rightarrow> vec4 \<Rightarrow> real \<Rightarrow> real \<Rightarrow> real \<Rightarrow> real \<Rightarrow> vec4 \<Rightarrow> vec4" where
  "roe_stage g vxBar vyBar Hbar cBar cBarQ rhoL rhoR mxL mxR myL myR eL eR fL fR b0 b1 b2 b3 fluxLoc =
    (let a0 = vxBar - cBar; a3 = vxBar + cBar;
         r1 = \<lparr>at0 = 1, at1 = a0, at2 = vyBar, at3 = Hbar - vxBar * cBar\<rparr>;
         r2 = \<lparr>at0 = 1, at1 = vxBar, at2 = vyBar,
               at3 = 0.5 * (vxBar * vxBar + vyBar * vyBar)\<rparr>;
         r3 = \<lparr>at0 = 0, at1 = 0, at2 = 1, at3 = vyBar\<rparr>;
         r4 = \<lparr>at0 = 1, at1 = a3, at2 = vyBar, at3 = Hbar + vxBar * cBar\<rparr>;
         delRho = rhoR - rhoL;
         delMx = mxR - mxL;
         delMy = myR - myL;
         delE = eR - eL;
         delEq = delE - (delMy - vyBar * delRho) * vyBar;
         gam2 = - g * cBarQ * cBarQ
                  * (delRho * (vxBar * vxBar - Hbar) + delEq - delMx * vxBar);
         gam1_loc = - 0.5 * cBarQ * (delMx - delRho * (vxBar + cBar)) - 0.5 * gam2;
         gam4 = delRho - gam1_loc - gam2;
         gam3 = delMy - vyBar * delRho;
         comp = (\<lambda>sel. 0.5 * (sel fR + sel fL
                   - gam1_loc * \<bar>b0\<bar> * sel r1
                   - gam2 * \<bar>b1\<bar> * sel r2
                   - gam3 * \<bar>b2\<bar> * sel r3
                   - gam4 * \<bar>b3\<bar> * sel r4))
     in fluxLoc\<lparr>at0 := comp at0, at1 := comp at1, at2 := comp at2, at3 := comp at3\<rparr>)"

text \<open>The contact speed \<^verbatim>\<open>as\<close> of \<^verbatim>\<open>flux_hllc\<close>.\<close>

definition hllc_as :: "real \<Rightarrow> real \<Rightarrow> real \<Rightarrow> real \<Rightarrow> real \<Rightarrow> real \<Rightarrow> real \<Rightarrow> real \<Rightarrow> real" where
  "hllc_as alm arp rhoL rhoR vxL vxR pL pR =
     (pR - pL + rhoL * vxL * (alm - vxL) - rhoR * vxR * (arp - vxR))
       / (rhoL * (alm - vxL) - rhoR * (arp - vxR))"

text \<open>The star-state flux of \<^verbatim>\<open>flux_hllc\<close>; the source has the same formula twice, once with
  the left speed and state, once with the right ones.\<close>

definition hllc_star_flux ::
  "real \<Rightarrow> real \<Rightarrow> real \<Rightarrow> real \<Rightarrow> real \<Rightarrow> real \<Rightarrow> real \<Rightarrow> vec4 \<Rightarrow> vec4 \<Rightarrow> vec4 \<Rightarrow> vec4" where
  "hllc_star_flux s as rho vx vy p e f u fluxLoc =
     (let fac = rho * (s - vx) / (s - as);
          us = \<lparr>at0 = fac, at1 = as * fac, at2 = vy * fac,
                at3 = fac * (e / rho + (as - vx) * (as + p / (rho * (s - vx))))\<rparr>
      in fluxLoc\<lparr>at0 := at0 f + s * (at0 us - at0 u),
                 at1 := at1 f + s * (at1 us - at1 u),
                 at2 := at2 f + s * (at2 us - at2 u),
                 at3 := at3 f + s * (at3 us - at3 u)\<rparr>)"

text \<open>The inputs on which \<^verbatim>\<open>flux_hllc\<close> and its run on the reflected input do not divide by
  \<open>alm - as = 0\<close>: if the contact speed is zero, neither signal speed is.\<close>

definition hllc_regular ::
  "globals \<Rightarrow> real \<Rightarrow> real \<Rightarrow> real \<Rightarrow> real \<Rightarrow> real \<Rightarrow> real \<Rightarrow> real \<Rightarrow> real \<Rightarrow> bool" where
  "hllc_regular c rhoL rhoR vxL vxR vyL vyR pL pR \<longleftrightarrow>
     (let alm = spec_hll_alm c rhoL rhoR vxL vxR vyL vyR pL pR;
          arp = spec_hll_arp c rhoL rhoR vxL vxR vyL vyR pL pR
      in hllc_as alm arp rhoL rhoR vxL vxR pL pR \<noteq> 0 \<or> (alm \<noteq> 0 \<and> arp \<noteq> 0))"

text \<open>The kernels whose reflection symmetry needs no further condition.\<close>

definition mirror_kernels :: "fluxId set" where
  "mirror_kernels = {ROE, HLL, HLLE, LXF, STW, CEN, AUSMD, VANLEER}"

section \<open>Conservation across a face\<close>

lemma sides_set_flux:
  "sides (set_flux a v st) b = (if b = a then (sides st a)\<lparr>flux := v\<rparr> else sides st b)"
  by (simp add: set_flux_def)

lemma elems_set_flux: "elems (set_flux a v st) = elems st"
  by (simp add: set_flux_def)

lemma connection_body:
  "connection (sides (fluxCalculation_body c st a) b) = connection (sides st b)"
  by (simp add: fluxCalculation_body_def Let_def sides_set_flux)

lemma body_other:
  "b \<noteq> a \<Longrightarrow> b \<noteq> connection (sides st a) \<Longrightarrow>
   sides (fluxCalculation_body c st a) b = sides st b"
  by (simp add: fluxCalculation_body_def Let_def sides_set_flux)

lemma body_pair:
  "connection (sides st a) \<noteq> a \<Longrightarrow>
   flux (sides (fluxCalculation_body c st a) (connection (sides st a)))
     = neg4 (flux (sides (fluxCalculation_body c st a) a))"
  by (simp add: fluxCalculation_body_def Let_def sides_set_flux)

lemma connection_loop:
  "connection (sides (foldl (fluxCalculation_body c) st xs) b) = connection (sides st b)"
  by (induction xs arbitrary: st) (simp_all add: connection_body)

text \<open>A side that is neither visited nor the connection of a visited side keeps all its
  fields.\<close>

lemma loop_other:
  "b \<notin> set xs \<Longrightarrow> b \<notin> (\<lambda>a. connection (sides st a)) ` set xs \<Longrightarrow>
   sides (foldl (fluxCalculation_body c) st xs) b = sides st b"
proof (induction xs arbitrary: st)
  case Nil
  then show ?case by simp
next
  case (Cons x xs)
  have "b \<notin> (\<lambda>a. connection (sides (fluxCalculation_body c st x) a)) ` set xs"
    using Cons.prems(2) by (simp add: connection_body image_iff)
  then have "sides (foldl (fluxCalculation_body c) (fluxCalculation_body c st x) xs) b
      = sides (fluxCalculation_body c st x) b"
    using Cons.IH Cons.prems(1) by simp
  also have "\<dots> = sides st b"
    using Cons.prems by (simp add: body_other)
  finally show ?case by simp
qed

lemma loop_pairs:
  "distinct (xs @ map (\<lambda>a. connection (sides st a)) xs) \<Longrightarrow> a \<in> set xs \<Longrightarrow>
   flux (sides (foldl (fluxCalculation_body c) st xs) (connection (sides st a)))
     = neg4 (flux (sides (foldl (fluxCalculation_body c) st xs) a))"
proof (induction xs arbitrary: st)
  case Nil
  then show ?case by simp
next
  case (Cons x xs)
  let ?st1 = "fluxCalculation_body c st x"
  have d: "distinct (xs @ map (\<lambda>a. connection (sides ?st1 a)) xs)"
    using Cons.prems(1) by (simp add: connection_body)
  show ?case
  proof (cases "a = x")
    case True
    have nx: "connection (sides st x) \<noteq> x" "x \<notin> set xs"
      "x \<notin> (\<lambda>a. connection (sides ?st1 a)) ` set xs"
      "connection (sides st x) \<notin> set xs"
      "connection (sides st x) \<notin> (\<lambda>a. connection (sides ?st1 a)) ` set xs"
      using Cons.prems(1) by (auto simp: connection_body)
    show ?thesis
      using nx by (simp add: True loop_other body_pair)
  next
    case False
    then have "a \<in> set xs" using Cons.prems(2) by simp
    from Cons.IH[OF d this] show ?thesis by (simp add: connection_body)
  qed
qed

text \<open>The flux of a side depends on no accumulator, so a pass of the loop does not change
  the flux a later pass computes; the accumulator of a visited side holds, after the
  loop, the flux its own pass computed.\<close>

lemma side_convective_set_flux:
  "side_convective c (set_flux b v st) a = side_convective c st a"
  by (simp add: side_convective_def set_flux_def Let_def)

lemma side_diffusion_set_flux:
  "side_diffusion c (set_flux b v st) a = side_diffusion c st a"
  by (simp add: side_diffusion_def set_flux_def Let_def)

lemma side_flux_set_flux:
  "side_flux c (set_flux b v st) a = side_flux c st a"
  by (simp add: side_flux_def side_convective_set_flux side_diffusion_set_flux Let_def)
     (simp add: set_flux_def)

lemma side_flux_body:
  "side_flux c (fluxCalculation_body c st x) a = side_flux c st a"
  by (simp add: fluxCalculation_body_def Let_def side_flux_set_flux)

lemma body_own:
  "connection (sides st a) \<noteq> a \<Longrightarrow>
   flux (sides (fluxCalculation_body c st a) a) = side_flux c st a"
  by (simp add: fluxCalculation_body_def Let_def sides_set_flux)

lemma loop_own:
  "distinct (xs @ map (\<lambda>a. connection (sides st a)) xs) \<Longrightarrow> a \<in> set xs \<Longrightarrow>
   flux (sides (foldl (fluxCalculation_body c) st xs) a) = side_flux c st a"
proof (induction xs arbitrary: st)
  case Nil
  then show ?case by simp
next
  case (Cons x xs)
  let ?st1 = "fluxCalculation_body c st x"
  have d: "distinct (xs @ map (\<lambda>a. connection (sides ?st1 a)) xs)"
    using Cons.prems(1) by (simp add: connection_body)
  show ?case
  proof (cases "a = x")
    case True
    have nx: "connection (sides st x) \<noteq> x" "x \<notin> set xs"
      "x \<notin> (\<lambda>a. connection (sides ?st1 a)) ` set xs"
      using Cons.prems(1) by (auto simp: connection_body)
    show ?thesis
      using nx by (simp add: True loop_other body_own)
  next
    case False
    then have "a \<in> set xs" using Cons.prems(2) by simp
    from Cons.IH[OF d this] show ?thesis by (simp add: side_flux_body)
  qed
qed

text \<open>
  Claim C1. On a mesh where no two passes of the loop write the same accumulator (the
  visited sides and their connections are pairwise different, the invariant the mesh
  construction owes the integrator), after \<^verbatim>\<open>fluxCalculation\<close> the flux accumulator of
  every visited side holds the flux computed for that side, and each of the four cells
  of the accumulator of its connection holds the negative of the same cell of the side's
  own accumulator.
\<close>

theorem C1_conservation:
  assumes "distinct (side m @ map (\<lambda>a. connection (sides st a)) (side m))"
  shows "\<forall>a \<in> set (side m).
      flux (sides (fluxCalculation c m st) a) = side_flux c st a
    \<and> at0 (flux (sides (fluxCalculation c m st) (connection (sides (fluxCalculation c m st) a))))
        = - at0 (flux (sides (fluxCalculation c m st) a))
    \<and> at1 (flux (sides (fluxCalculation c m st) (connection (sides (fluxCalculation c m st) a))))
        = - at1 (flux (sides (fluxCalculation c m st) a))
    \<and> at2 (flux (sides (fluxCalculation c m st) (connection (sides (fluxCalculation c m st) a))))
        = - at2 (flux (sides (fluxCalculation c m st) a))
    \<and> at3 (flux (sides (fluxCalculation c m st) (connection (sides (fluxCalculation c m st) a))))
        = - at3 (flux (sides (fluxCalculation c m st) a))"
  using assms
  by (simp add: fluxCalculation_def connection_loop loop_pairs loop_own neg4_def)


theorem C1_conservation_witness:
  "distinct (side ex_mesh @ map (\<lambda>a. connection (sides ex_store a)) (side ex_mesh))
   \<and> flux (sides (fluxCalculation ex_globals ex_mesh ex_store) 0)
       = \<lparr>at0 = 14 / 5, at1 = 24 / 5, at2 = 24 / 5, at3 = 79 / 5\<rparr>
   \<and> flux (sides (fluxCalculation ex_globals ex_mesh ex_store) 1)
       = \<lparr>at0 = - 14 / 5, at1 = - 24 / 5, at2 = - 24 / 5, at3 = - 79 / 5\<rparr>
   \<and> flux (sides ex_store 0) = \<lparr>at0 = 9, at1 = 9, at2 = 9, at3 = 9\<rparr>
   \<and> flux (sides ex_store 1) = \<lparr>at0 = 7, at1 = 7, at2 = 7, at3 = 7\<rparr>"
proof -
  let ?f = "fluxCalculation ex_globals ex_mesh ex_store"
  have d: "distinct (side ex_mesh @ map (\<lambda>a. connection (sides ex_store a)) (side ex_mesh))"
    by (simp add: ex_mesh_def ex_store_def ex_side0_def)
  have c: "connection (sides ?f 0) = 1"
    by (simp add: fluxCalculation_def connection_loop ex_store_def ex_side0_def)
  have sf: "side_flux ex_globals ex_store 0
      = \<lparr>at0 = 14 / 5, at1 = 24 / 5, at2 = 24 / 5, at3 = 79 / 5\<rparr>"
    by (simp add: ex_store_def ex_side0_def ex_side1_def ex_globals_def side_flux_def
        side_convective_def rotate_in_def rotate_back_def convectiveFlux_def flux_cen_def
        gam1q_def gam1_def zero4_def Let_def)
  have own: "flux (sides ?f 0) = \<lparr>at0 = 14 / 5, at1 = 24 / 5, at2 = 24 / 5, at3 = 79 / 5\<rparr>"
    and neg: "at0 (flux (sides ?f 1)) = - at0 (flux (sides ?f 0))"
      "at1 (flux (sides ?f 1)) = - at1 (flux (sides ?f 0))"
      "at2 (flux (sides ?f 1)) = - at2 (flux (sides ?f 0))"
      "at3 (flux (sides ?f 1)) = - at3 (flux (sides ?f 0))"
    using C1_conservation [OF d, of ex_globals] c sf by (simp_all add: ex_mesh_def)
  have "flux (sides ?f 1) = \<lparr>at0 = - 14 / 5, at1 = - 24 / 5, at2 = - 24 / 5, at3 = - 79 / 5\<rparr>"
    using neg own by (cases "flux (sides ?f 1)") simp
  moreover have "flux (sides ex_store 0) = \<lparr>at0 = 9, at1 = 9, at2 = 9, at3 = 9\<rparr>"
    "flux (sides ex_store 1) = \<lparr>at0 = 7, at1 = 7, at2 = 7, at3 = 7\<rparr>"
    by (simp_all add: ex_store_def ex_side0_def ex_side1_def)
  ultimately show ?thesis using d own by simp
qed

section \<open>The dispatch on an identifier that matches no label\<close>

lemma unrecognized_cases: "i \<notin> recognized \<Longrightarrow> \<exists>k. i = Unrecognized k"
  by (cases i) (simp_all add: recognized_def)

lemma side_convective_unrecognized:
  "iFlux c \<notin> recognized \<Longrightarrow> side_convective c st a = zero4"
  using unrecognized_cases[of "iFlux c"]
  by (auto simp: side_convective_def convectiveFlux_def Let_def)

lemma side_flux_unrecognized:
  "iFlux c \<notin> recognized \<Longrightarrow> \<not> navierstokes c \<Longrightarrow> side_flux c st a = zero4"
  by (simp add: side_flux_def side_convective_unrecognized Let_def rotate_back_def zero4_def)

lemma side_flux_unrecognized_viscous:
  assumes "iFlux c \<notin> recognized" "navierstokes c"
  shows "side_flux c st a =
     (let (fluxDiffX, fluxDiffY) = side_diffusion c st a;
          nx = fst (n (sides st a)); ny = snd (n (sides st a)); l = len (sides st a)
      in \<lparr>at0 = 0,
          at1 = - (at1 fluxDiffX * nx + at1 fluxDiffY * ny) * l,
          at2 = - (at2 fluxDiffX * nx + at2 fluxDiffY * ny) * l,
          at3 = - (at3 fluxDiffX * nx + at3 fluxDiffY * ny) * l\<rparr>)"
  using assms
  by (simp add: side_flux_def side_convective_unrecognized Let_def rotate_back_def zero4_def
      side_diffusion_def diffusionFlux_def split: prod.splits)

lemma neg4_zero4: "neg4 zero4 = zero4"
  by (simp add: neg4_def zero4_def)

lemma body_zero:
  assumes "iFlux c \<notin> recognized" "\<not> navierstokes c"
  shows "sides (fluxCalculation_body c st a) b =
     (if b = a \<or> b = connection (sides st a) then (sides st b)\<lparr>flux := zero4\<rparr>
      else sides st b)"
  using assms
  by (simp add: fluxCalculation_body_def Let_def sides_set_flux side_flux_unrecognized
      neg4_zero4)

lemma loop_zero:
  assumes "iFlux c \<notin> recognized" "\<not> navierstokes c"
  shows "sides (foldl (fluxCalculation_body c) st xs) b =
     (if b \<in> set xs \<or> b \<in> (\<lambda>a. connection (sides st a)) ` set xs
      then (sides st b)\<lparr>flux := zero4\<rparr> else sides st b)"
proof (induction xs arbitrary: st)
  case Nil
  then show ?case by simp
next
  case (Cons x xs)
  have conn: "\<And>a. connection (sides (fluxCalculation_body c st x) a) = connection (sides st a)"
    by (simp add: connection_body)
  show ?case
    by (simp add: Cons.IH conn) (auto simp: body_zero[OF assms])
qed

text \<open>
  Claim C3, as the code has it. The claim asks for a configuration error before the face
  loop is entered. The code has no such path: with an identifier that matches no label
  the loop runs, and the accumulator of side 0 of the example mesh, which held 9 in every
  cell, holds zeros afterwards.
\<close>

theorem C3_counterexample:
  "flux (sides (fluxCalculation (ex_globals\<lparr>iFlux := Unrecognized 0\<rparr>) ex_mesh ex_store) 0)
     = zero4
   \<and> flux (sides ex_store 0) = \<lparr>at0 = 9, at1 = 9, at2 = 9, at3 = 9\<rparr>"
  by (simp add: fluxCalculation_def fluxCalculation_body_def ex_mesh_def ex_store_def
        ex_side0_def ex_side1_def ex_globals_def set_flux_def side_flux_def
        side_convective_def rotate_in_def rotate_back_def convectiveFlux_def
        zero4_def Let_def)

text \<open>
  Claim C3, amended. For every identifier outside the eleven labels, \<^verbatim>\<open>convectiveFlux\<close>
  calls no kernel: whatever the two states are, the output array is the array that was
  passed in, so no kernel is a default. Nothing stops \<^verbatim>\<open>fluxCalculation\<close> either: on a
  mesh where no two passes write the same accumulator, the loop overwrites the
  accumulator of every visited side with the flux built from a zero convective part (the
  zero vector in the build without \<^verbatim>\<open>navierstokes\<close>; minus the projection of the diffusive
  flux on the normal, times the length of the side, in the viscous build), and each cell
  of the accumulator of its connection with the negative of that.
\<close>

theorem C3_unknown_id_selects_no_kernel:
  assumes u: "iFlux c \<notin> recognized"
    and d: "distinct (side m @ map (\<lambda>a. connection (sides st a)) (side m))"
  shows "convectiveFlux c rhoL rhoR vxL vxR vyL vyR pL pR fluxLoc = fluxLoc
    \<and> (\<forall>a \<in> set (side m).
          flux (sides (fluxCalculation c m st) a)
            = (if navierstokes c then
                 (let (fluxDiffX, fluxDiffY) = side_diffusion c st a;
                      nx = fst (n (sides st a)); ny = snd (n (sides st a));
                      l = len (sides st a)
                  in \<lparr>at0 = 0,
                      at1 = - (at1 fluxDiffX * nx + at1 fluxDiffY * ny) * l,
                      at2 = - (at2 fluxDiffX * nx + at2 fluxDiffY * ny) * l,
                      at3 = - (at3 fluxDiffX * nx + at3 fluxDiffY * ny) * l\<rparr>)
               else \<lparr>at0 = 0, at1 = 0, at2 = 0, at3 = 0\<rparr>)
        \<and> at0 (flux (sides (fluxCalculation c m st) (connection (sides st a))))
            = - at0 (flux (sides (fluxCalculation c m st) a))
        \<and> at1 (flux (sides (fluxCalculation c m st) (connection (sides st a))))
            = - at1 (flux (sides (fluxCalculation c m st) a))
        \<and> at2 (flux (sides (fluxCalculation c m st) (connection (sides st a))))
            = - at2 (flux (sides (fluxCalculation c m st) a))
        \<and> at3 (flux (sides (fluxCalculation c m st) (connection (sides st a))))
            = - at3 (flux (sides (fluxCalculation c m st) a)))"
proof (intro conjI ballI)
  show "convectiveFlux c rhoL rhoR vxL vxR vyL vyR pL pR fluxLoc = fluxLoc"
    using unrecognized_cases[OF u] by (auto simp: convectiveFlux_def)
next
  fix a assume a: "a \<in> set (side m)"
  have own: "flux (sides (fluxCalculation c m st) a) = side_flux c st a"
    using d a by (simp add: fluxCalculation_def loop_own)
  show "flux (sides (fluxCalculation c m st) a)
            = (if navierstokes c then
                 (let (fluxDiffX, fluxDiffY) = side_diffusion c st a;
                      nx = fst (n (sides st a)); ny = snd (n (sides st a));
                      l = len (sides st a)
                  in \<lparr>at0 = 0,
                      at1 = - (at1 fluxDiffX * nx + at1 fluxDiffY * ny) * l,
                      at2 = - (at2 fluxDiffX * nx + at2 fluxDiffY * ny) * l,
                      at3 = - (at3 fluxDiffX * nx + at3 fluxDiffY * ny) * l\<rparr>)
               else \<lparr>at0 = 0, at1 = 0, at2 = 0, at3 = 0\<rparr>)"
  proof (cases "navierstokes c")
    case True
    then show ?thesis
      by (simp only: own side_flux_unrecognized_viscous[OF u True] if_True)
  next
    case False
    then show ?thesis
      by (simp add: own side_flux_unrecognized[OF u False] zero4_def)
  qed
  have pair: "flux (sides (fluxCalculation c m st) (connection (sides st a)))
      = neg4 (flux (sides (fluxCalculation c m st) a))"
    using d a by (simp add: fluxCalculation_def loop_pairs)
  show "at0 (flux (sides (fluxCalculation c m st) (connection (sides st a))))
            = - at0 (flux (sides (fluxCalculation c m st) a))"
       "at1 (flux (sides (fluxCalculation c m st) (connection (sides st a))))
            = - at1 (flux (sides (fluxCalculation c m st) a))"
       "at2 (flux (sides (fluxCalculation c m st) (connection (sides st a))))
            = - at2 (flux (sides (fluxCalculation c m st) a))"
       "at3 (flux (sides (fluxCalculation c m st) (connection (sides st a))))
            = - at3 (flux (sides (fluxCalculation c m st) a))"
    by (simp_all add: pair neg4_def)
qed

theorem C3_unknown_id_selects_no_kernel_witness:
  "iFlux (ex_globals\<lparr>iFlux := Unrecognized 12, navierstokes := True\<rparr>) \<notin> recognized
   \<and> distinct (side ex_mesh @ map (\<lambda>a. connection (sides ex_store a)) (side ex_mesh))
   \<and> convectiveFlux (ex_globals\<lparr>iFlux := Unrecognized 12, navierstokes := True\<rparr>)
        1 2 3 4 5 6 7 8 \<lparr>at0 = 9, at1 = 8, at2 = 7, at3 = 6\<rparr>
       = \<lparr>at0 = 9, at1 = 8, at2 = 7, at3 = 6\<rparr>
   \<and> flux (sides (fluxCalculation (ex_globals\<lparr>iFlux := Unrecognized 12, navierstokes := True\<rparr>)
         ex_mesh ex_store) 0) = \<lparr>at0 = 0, at1 = 8 / 5, at2 = - 10 / 3, at3 = - 29 / 15\<rparr>
   \<and> flux (sides (fluxCalculation (ex_globals\<lparr>iFlux := Unrecognized 12, navierstokes := True\<rparr>)
         ex_mesh ex_store) 1) = \<lparr>at0 = 0, at1 = - 8 / 5, at2 = 10 / 3, at3 = 29 / 15\<rparr>
   \<and> flux (sides ex_store 0) = \<lparr>at0 = 9, at1 = 9, at2 = 9, at3 = 9\<rparr>
   \<and> flux (sides ex_store 1) = \<lparr>at0 = 7, at1 = 7, at2 = 7, at3 = 7\<rparr>"
proof -
  let ?c = "ex_globals\<lparr>iFlux := Unrecognized 12, navierstokes := True\<rparr>"
  let ?f = "fluxCalculation ?c ex_mesh ex_store"
  have u: "iFlux ?c \<notin> recognized"
    by (simp add: recognized_def)
  have d: "distinct (side ex_mesh @ map (\<lambda>a. connection (sides ex_store a)) (side ex_mesh))"
    by (simp add: ex_mesh_def ex_store_def ex_side0_def)
  have c: "connection (sides ex_store 0) = 1"
    by (simp add: ex_store_def ex_side0_def)
  have ns: "navierstokes ?c"
    by simp
  have sd: "side_diffusion ?c ex_store 0
      = (\<lparr>at0 = 0, at1 = - 8 / 3, at2 = 1, at3 = - 11 / 18\<rparr>,
         \<lparr>at0 = 0, at1 = 1, at2 = 4 / 3, at3 = 5 / 3\<rparr>)"
    by (simp add: ex_store_def ex_side0_def ex_side1_def ex_elem0_def ex_elem1_def
        ex_globals_def side_diffusion_def diffusionFlux_def gam1_def zero4_def Let_def)
  have nl: "n (sides ex_store 0) = (3 / 5, 4 / 5)" "len (sides ex_store 0) = 2"
    by (simp_all add: ex_store_def ex_side0_def)
  note t = C3_unknown_id_selects_no_kernel [OF u d, of 1 2 3 4 5 6 7 8 "\<lparr>at0 = 9, at1 = 8, at2 = 7, at3 = 6\<rparr>"]
  have k: "convectiveFlux ?c 1 2 3 4 5 6 7 8 \<lparr>at0 = 9, at1 = 8, at2 = 7, at3 = 6\<rparr>
       = \<lparr>at0 = 9, at1 = 8, at2 = 7, at3 = 6\<rparr>"
    using t by simp
  have own: "flux (sides ?f 0) = \<lparr>at0 = 0, at1 = 8 / 5, at2 = - 10 / 3, at3 = - 29 / 15\<rparr>"
    and neg: "at0 (flux (sides ?f 1)) = - at0 (flux (sides ?f 0))"
      "at1 (flux (sides ?f 1)) = - at1 (flux (sides ?f 0))"
      "at2 (flux (sides ?f 1)) = - at2 (flux (sides ?f 0))"
      "at3 (flux (sides ?f 1)) = - at3 (flux (sides ?f 0))"
    using t c by (simp_all add: ex_mesh_def sd nl)
  have "flux (sides ?f 1) = \<lparr>at0 = 0, at1 = - 8 / 5, at2 = 10 / 3, at3 = 29 / 15\<rparr>"
    using neg own by (cases "flux (sides ?f 1)") simp
  moreover have "flux (sides ex_store 0) = \<lparr>at0 = 9, at1 = 9, at2 = 9, at3 = 9\<rparr>"
    "flux (sides ex_store 1) = \<lparr>at0 = 7, at1 = 7, at2 = 7, at3 = 7\<rparr>"
    by (simp_all add: ex_store_def ex_side0_def ex_side1_def)
  ultimately show ?thesis using u d k own by simp
qed

text \<open>
  Claim C10, as stated, fails in the viscous build: with an identifier that matches no
  label and \<^verbatim>\<open>navierstokes\<close> defined, the flux of side 0 of the example mesh is not the
  zero vector, since the diffusive part is still subtracted.
\<close>

theorem C10_counterexample:
  "iFlux (ex_globals\<lparr>iFlux := Unrecognized 0, navierstokes := True\<rparr>) \<notin> recognized
   \<and> flux (sides (fluxCalculation (ex_globals\<lparr>iFlux := Unrecognized 0, navierstokes := True\<rparr>)
         ex_mesh ex_store) 0) = \<lparr>at0 = 0, at1 = 8 / 5, at2 = - 10 / 3, at3 = - 29 / 15\<rparr>"
  by (simp add: recognized_def fluxCalculation_def fluxCalculation_body_def ex_mesh_def
        ex_store_def ex_side0_def ex_side1_def ex_elem0_def ex_elem1_def ex_globals_def
        set_flux_def side_flux_def side_convective_def side_diffusion_def diffusionFlux_def
        gam1_def rotate_in_def rotate_back_def convectiveFlux_def zero4_def Let_def)

text \<open>
  Claim C10, amended. If \<^verbatim>\<open>iFlux\<close> matches none of the eleven labels, \<^verbatim>\<open>convectiveFlux\<close>
  returns the array it was passed, so the convective flux of every side is the zero
  array \<^verbatim>\<open>fluxCalculation\<close> initialised. In the build without \<^verbatim>\<open>navierstokes\<close> the
  accumulator of every visited side and of its connection is the zero vector after the
  call; in the viscous build the flux of a side is what the diffusive part leaves: minus
  its projection on the normal, times the length.
\<close>

theorem C10_unknown_id_zero_flux:
  assumes "iFlux c \<notin> recognized"
  shows "convectiveFlux c rhoL rhoR vxL vxR vyL vyR pL pR fluxLoc = fluxLoc
    \<and> side_convective c st a = zero4
    \<and> (\<not> navierstokes c \<longrightarrow>
        (\<forall>a \<in> set (side m).
           flux (sides (fluxCalculation c m st) a) = zero4
           \<and> flux (sides (fluxCalculation c m st) (connection (sides st a))) = zero4))
    \<and> (navierstokes c \<longrightarrow>
        side_flux c st a =
          (let (fluxDiffX, fluxDiffY) = side_diffusion c st a;
               nx = fst (n (sides st a)); ny = snd (n (sides st a)); l = len (sides st a)
           in \<lparr>at0 = 0,
               at1 = - (at1 fluxDiffX * nx + at1 fluxDiffY * ny) * l,
               at2 = - (at2 fluxDiffX * nx + at2 fluxDiffY * ny) * l,
               at3 = - (at3 fluxDiffX * nx + at3 fluxDiffY * ny) * l\<rparr>))"
  using unrecognized_cases[OF assms] side_convective_unrecognized[OF assms]
    side_flux_unrecognized_viscous[OF assms]
  by (auto simp: convectiveFlux_def fluxCalculation_def loop_zero[OF assms])

theorem C10_unknown_id_zero_flux_witness:
  "iFlux (ex_globals\<lparr>iFlux := Unrecognized 0\<rparr>) \<notin> recognized
   \<and> \<not> navierstokes (ex_globals\<lparr>iFlux := Unrecognized 0\<rparr>)
   \<and> flux (sides (fluxCalculation (ex_globals\<lparr>iFlux := Unrecognized 0\<rparr>) ex_mesh ex_store) 0)
       = zero4
   \<and> flux (sides (fluxCalculation (ex_globals\<lparr>iFlux := Unrecognized 0\<rparr>) ex_mesh ex_store) 1)
       = zero4"
proof -
  have h: "iFlux (ex_globals\<lparr>iFlux := Unrecognized 0\<rparr>) \<notin> recognized"
    by (simp add: recognized_def)
  have e: "\<not> navierstokes (ex_globals\<lparr>iFlux := Unrecognized 0\<rparr>)"
    by (simp add: ex_globals_def)
  have s: "side ex_mesh = [0]" "connection (sides ex_store 0) = 1"
    by (simp_all add: ex_mesh_def ex_store_def ex_side0_def)
  show ?thesis
    using h e C10_unknown_id_zero_flux [OF h, of 1 1 1 1 1 1 1 1 zero4 ex_store 0 ex_mesh]
    by (simp add: s)
qed

section \<open>The diffusive flux and the mass equation\<close>

text \<open>
  Claim C8. \<^verbatim>\<open>diffusionFlux\<close> never writes the density cell of its two output arrays, so
  the cell keeps what the caller put there; \<^verbatim>\<open>fluxCalculation\<close>, the only caller, passes
  arrays initialised with zeros, so for every state and all gradients the density cell
  of both outputs is zero, and the density flux of a side is the convective density flux
  times the length of the side in either build: diffusion adds nothing to it.
\<close>

theorem C8_no_mass_diffusion:
  "at0 (fst (diffusionFlux c state gradX gradY f g)) = at0 f
   \<and> at0 (snd (diffusionFlux c state gradX gradY f g)) = at0 g
   \<and> at0 (fst (diffusionFlux c state gradX gradY zero4 zero4)) = 0
   \<and> at0 (snd (diffusionFlux c state gradX gradY zero4 zero4)) = 0
   \<and> at0 (fst (side_diffusion c st a)) = 0
   \<and> at0 (snd (side_diffusion c st a)) = 0
   \<and> at0 (side_flux c st a) = at0 (side_convective c st a) * len (sides st a)"
  by (simp add: diffusionFlux_def zero4_def side_diffusion_def side_flux_def Let_def
      rotate_back_def split: prod.splits)

section \<open>The Godunov kernel\<close>

text \<open>
  Claim C7. The Godunov kernel takes the star state \<open>(rho, vx, p)\<close> from the exact Riemann
  solver (called with the two sound speeds and the ray \<open>s = 0\<close>), takes the left tangential
  velocity if \<open>vx > 0\<close> and the right one otherwise, and returns the physical flux of the
  primitive state \<open>(rho, vx, vy, p)\<close>. The hypothesis \<open>\<gamma> \<noteq> 1\<close> excludes the division by
  zero in \<open>\<gamma> / (\<gamma> - 1)\<close>.
\<close>

theorem C7_godunov:
  assumes "gam c \<noteq> 1"
  shows "flux_god c rhoL rhoR vxL vxR vyL vyR pL pR fluxLoc =
    (case exactRiemann c rhoL rhoR vxL vxR pL pR
            (sqrt (gam c * pL / rhoL)) (sqrt (gam c * pR / rhoR)) 0 of
       (rho, vx, p) \<Rightarrow> spec_physical_flux c rho vx (if vx > 0 then vyL else vyR) p)"
proof -
  have e: "gam c * p / gam1 c = p / (gam c - 1) + p" for p
    using assms by (simp add: gam1_def field_simps)
  show ?thesis
    by (cases fluxLoc)
       (simp add: flux_god_def spec_physical_flux_def spec_energy_def Let_def e
          power2_eq_square split: prod.splits)
qed

theorem C7_godunov_witness:
  "gam ex_globals \<noteq> 1
   \<and> flux_god ex_globals 1 2 3 4 5 6 7 8 zero4 = spec_physical_flux ex_globals 1 3 5 7
   \<and> flux_god ex_globals 1 2 (- 3) 4 5 6 7 8 zero4 = spec_physical_flux ex_globals 1 (- 3) 6 7"
proof -
  have h: "gam ex_globals \<noteq> 1"
    by (simp add: ex_globals_def)
  show ?thesis
    using h C7_godunov [OF h, of 1 2 3 4 5 6 7 8 zero4]
      C7_godunov [OF h, of 1 2 "- 3" 4 5 6 7 8 zero4]
    by (simp add: ex_globals_def)
qed

section \<open>The source term is recomputed from scratch\<close>

lemma gauss_loop_frame:
  "\<exists>v. snd (foldl (gauss_step c t) (s, e) is) = e\<lparr>source := v\<rparr>"
proof (induction "is" arbitrary: s e)
  case Nil
  have "e = e\<lparr>source := source e\<rparr>" by simp
  then show ?case by (metis foldl_Nil snd_conv)
next
  case (Cons i "is")
  obtain s1 v1 where st: "gauss_step c t (s, e) i = (s1, e\<lparr>source := v1\<rparr>)"
    by (simp add: gauss_step_def Let_def)
  from Cons.IH[of s1 "e\<lparr>source := v1\<rparr>"] show ?case
    by (auto simp: st)
qed

lemma calcSource_elem_frame:
  "\<exists>v. calcSource_elem c t e = e\<lparr>source := v\<rparr>"
proof -
  obtain v where "snd (foldl (gauss_step c t) (zero4, e\<lparr>source := zero4\<rparr>) [0 ..< nat (nGP e)])
      = e\<lparr>source := zero4\<rparr>\<lparr>source := v\<rparr>"
    using gauss_loop_frame by blast
  then show ?thesis by (auto simp: calcSource_elem_def)
qed

lemma calcSource_elem_overwrites:
  "calcSource_elem c t (e\<lparr>source := w\<rparr>) = calcSource_elem c t e"
  by (simp add: calcSource_elem_def)

lemma calcSource_elem_idem:
  "calcSource_elem c t (calcSource_elem c t e) = calcSource_elem c t e"
proof -
  obtain v where "calcSource_elem c t e = e\<lparr>source := v\<rparr>"
    using calcSource_elem_frame by blast
  then show ?thesis by (simp add: calcSource_elem_overwrites)
qed

lemma calcSource_loop:
  "foldl (calcSource_body c t) st xs =
     st\<lparr>elems := (\<lambda>p. if p \<in> set xs then calcSource_elem c t (elems st p) else elems st p)\<rparr>"
proof (induction xs arbitrary: st)
  case Nil
  then show ?case by simp
next
  case (Cons x xs)
  show ?case
    by (simp add: Cons.IH) (auto simp: calcSource_body_def calcSource_elem_idem fun_eq_iff)
qed

lemma evalSource_zero4:
  "evalSource c k x t (evalSource c k x' t zero4) = evalSource c k x t zero4"
  by (simp add: evalSource_def Let_def zero4_def)

lemma evalSource_zero4':
  "evalSource c k x t (if j = (0::nat) then zero4 else evalSource c k x' t zero4)
     = evalSource c k x t zero4"
  by (simp add: evalSource_zero4)

lemma gauss_loop_quad:
  "foldl (gauss_step c t) (zero4, e\<lparr>source := zero4\<rparr>) [0 ..< k] =
     (if k = 0 then zero4 else evalSource c (sourceFunc c) (xGP e (k - 1)) t zero4,
      e\<lparr>source := quad_sum c t e k\<rparr>)"
proof (induction k)
  case 0
  then show ?case by (simp add: quad_sum_def zero4_def)
next
  case (Suc k)
  have "foldl (gauss_step c t) (zero4, e\<lparr>source := zero4\<rparr>) [0 ..< Suc k]
      = gauss_step c t (foldl (gauss_step c t) (zero4, e\<lparr>source := zero4\<rparr>) [0 ..< k]) k"
    by simp
  also have "\<dots> = gauss_step c t
      (if k = 0 then zero4 else evalSource c (sourceFunc c) (xGP e (k - 1)) t zero4,
       e\<lparr>source := quad_sum c t e k\<rparr>) k"
    by (simp only: Suc)
  also have "\<dots> = (evalSource c (sourceFunc c) (xGP e k) t zero4,
       e\<lparr>source := quad_sum c t e (Suc k)\<rparr>)"
    by (simp add: gauss_step_def Let_def quad_sum_def evalSource_zero4')
  finally show ?case by simp
qed

lemma calcSource_elem_quad:
  "calcSource_elem c t e = e\<lparr>source := quad_sum c t e (nat (nGP e))\<rparr>"
  by (simp add: calcSource_elem_def gauss_loop_quad)

text \<open>
  Claim C9. \<^verbatim>\<open>calcSource\<close> keeps no state between calls: a second call with the same
  arguments returns the store of the first one, and the result does not depend on what
  the accumulators of the visited elements held before the call, since each is set to
  zero and then holds the quadrature sum of the source function over the Gauss points of
  its element.
\<close>

theorem C9_calcSource_idempotent:
  "calcSource c m t (calcSource c m t st) = calcSource c m t st
   \<and> calcSource c m t
        (st\<lparr>elems := (\<lambda>p. if p \<in> set (elem_arr m) then (elems st p)\<lparr>source := junk p\<rparr>
                            else elems st p)\<rparr>)
       = calcSource c m t st
   \<and> (\<forall>p \<in> set (elem_arr m). source (elems (calcSource c m t st) p)
         = quad_sum c t (elems st p) (nat (nGP (elems st p))))"
proof (intro conjI)
  show "calcSource c m t (calcSource c m t st) = calcSource c m t st"
    by (simp add: calcSource_def calcSource_loop calcSource_elem_idem cong: if_cong)
next
  show "calcSource c m t
        (st\<lparr>elems := (\<lambda>p. if p \<in> set (elem_arr m) then (elems st p)\<lparr>source := junk p\<rparr>
                            else elems st p)\<rparr>)
       = calcSource c m t st"
    by (simp add: calcSource_def calcSource_loop calcSource_elem_overwrites cong: if_cong)
next
  show "\<forall>p \<in> set (elem_arr m). source (elems (calcSource c m t st) p)
         = quad_sum c t (elems st p) (nat (nGP (elems st p)))"
    by (simp add: calcSource_def calcSource_loop calcSource_elem_quad)
qed

theorem C9_calcSource_idempotent_witness:
  "calcSource ex_globals ex_mesh 0 (calcSource ex_globals ex_mesh 0 ex_store)
     = calcSource ex_globals ex_mesh 0 ex_store
   \<and> source (elems ex_store 0) = \<lparr>at0 = 5, at1 = 5, at2 = 5, at3 = 5\<rparr>
   \<and> source (elems (calcSource ex_globals ex_mesh 0 ex_store) 0)
       = \<lparr>at0 = 0, at1 = 3 * pi / 25, at2 = 3 * pi / 25, at3 = 6 * pi / 25\<rparr>
   \<and> source (elems (calcSource ex_globals ex_mesh 0 ex_store) 1) = zero4"
proof -
  have m: "set (elem_arr ex_mesh) = {0, 1}"
    by (auto simp: ex_mesh_def)
  have e: "elems ex_store 0 = ex_elem0" "elems ex_store (Suc 0) = ex_elem1"
    by (simp_all add: ex_store_def)
  have q0: "quad_sum ex_globals 0 ex_elem0 (nat (nGP ex_elem0))
      = \<lparr>at0 = 0, at1 = 3 * pi / 25, at2 = 3 * pi / 25, at3 = 6 * pi / 25\<rparr>"
    by (simp add: quad_sum_def ex_elem0_def ex_globals_def evalSource_def gam1_def zero4_def
        Let_def algebra_simps)
  have q1: "quad_sum ex_globals 0 ex_elem1 (nat (nGP ex_elem1)) = zero4"
    by (simp add: quad_sum_def ex_elem1_def zero4_def Let_def)
  show ?thesis
    using C9_calcSource_idempotent [of ex_globals ex_mesh 0 ex_store]
    by (simp add: m e q0 q1) (simp add: ex_elem0_def)
qed

section \<open>Rotation into the frame of the normal and back\<close>

text \<open>
  Claim C5, as stated, fails: the momentum flux of a side with the unit normal \<open>(0, 1)\<close>
  is not the momentum flux the integrator computes with the identity normal on the states
  rotated by hand. With the central kernel the first is \<open>(0, 6)\<close> and the second
  \<open>(6, 0)\<close>: the second is still expressed in the frame of the normal.
\<close>

theorem C5_counterexample:
  "(fst (0 :: real, 1 :: real))\<^sup>2 + (snd (0 :: real, 1 :: real))\<^sup>2 = 1
   \<and> side_flux ex_globals
        (ex_face (0, 1) \<lparr>at0 = 1, at1 = 2, at2 = 0, at3 = 1\<rparr>
                        \<lparr>at0 = 2, at1 = 0, at2 = 1, at3 = 3\<rparr>) 0
       = \<lparr>at0 = 2, at1 = 0, at2 = 6, at3 = 23 / 2\<rparr>
   \<and> side_flux ex_globals
        (ex_face (1, 0) (rotate_in (0, 1) \<lparr>at0 = 1, at1 = 2, at2 = 0, at3 = 1\<rparr>)
                        (rotate_in (0, 1) \<lparr>at0 = 2, at1 = 0, at2 = 1, at3 = 3\<rparr>)) 0
       = \<lparr>at0 = 2, at1 = 6, at2 = 0, at3 = 23 / 2\<rparr>
   \<and> at1 (side_flux ex_globals
        (ex_face (0, 1) \<lparr>at0 = 1, at1 = 2, at2 = 0, at3 = 1\<rparr>
                        \<lparr>at0 = 2, at1 = 0, at2 = 1, at3 = 3\<rparr>) 0)
       \<noteq> at1 (side_flux ex_globals
        (ex_face (1, 0) (rotate_in (0, 1) \<lparr>at0 = 1, at1 = 2, at2 = 0, at3 = 1\<rparr>)
                        (rotate_in (0, 1) \<lparr>at0 = 2, at1 = 0, at2 = 1, at3 = 3\<rparr>)) 0)"
  by (simp add: ex_face_def ex_side0_def ex_side1_def ex_globals_def side_flux_def
        side_convective_def rotate_in_def rotate_back_def convectiveFlux_def flux_cen_def
        gam1q_def gam1_def zero4_def Let_def)

text \<open>
  Claim C5, amended. Take a side with the unit normal \<open>(nx, ny)\<close> and a side with the
  identity normal \<open>(1, 0)\<close> whose two states are those of the first side rotated by hand,
  \<open>vx' = nx vx + ny vy\<close>, \<open>vy' = - ny vx + nx vy\<close>, density and pressure as they are. In
  either build the kernel is called on the same arguments for both sides, namely on the
  states rotated by hand; the identity rotation leaves the flux of the second side as it
  is; and the flux of the first side, rotated back, is the inverse rotation of the flux
  \<open>f\<close> of the second: density and energy flux as they are, momentum flux
  \<open>(nx f\<^sub>1 - ny f\<^sub>2, ny f\<^sub>1 + nx f\<^sub>2)\<close>. The accumulator of the first side holds this, less
  the projection of the diffusive flux on the normal in the viscous build, times the
  length of the side. The inverse rotation undoes the forward rotation on a state.
\<close>

theorem C5_rotation:
  assumes unit: "nx\<^sup>2 + ny\<^sup>2 = 1"
    and nrm: "n (sides st a) = (nx, ny)"
    and pl: "pVar (sides st a) = \<lparr>at0 = rhoL, at1 = vxL, at2 = vyL, at3 = pL\<rparr>"
    and pr: "pVar (sides st (connection (sides st a)))
             = \<lparr>at0 = rhoR, at1 = vxR, at2 = vyR, at3 = pR\<rparr>"
    and id: "n (sides st' b) = (1, 0)"
    and pl': "pVar (sides st' b)
             = \<lparr>at0 = rhoL, at1 = nx * vxL + ny * vyL, at2 = - ny * vxL + nx * vyL, at3 = pL\<rparr>"
    and pr': "pVar (sides st' (connection (sides st' b)))
             = \<lparr>at0 = rhoR, at1 = nx * vxR + ny * vyR, at2 = - ny * vxR + nx * vyR, at3 = pR\<rparr>"
  shows "side_convective c st a
           = convectiveFlux c rhoL rhoR (nx * vxL + ny * vyL) (nx * vxR + ny * vyR)
               (- ny * vxL + nx * vyL) (- ny * vxR + nx * vyR) pL pR zero4
    \<and> side_convective c st' b = side_convective c st a
    \<and> rotate_back (n (sides st' b)) (side_convective c st' b) = side_convective c st' b
    \<and> rotate_back (n (sides st a)) (side_convective c st a)
        = \<lparr>at0 = at0 (side_convective c st' b),
           at1 = nx * at1 (side_convective c st' b) - ny * at2 (side_convective c st' b),
           at2 = ny * at1 (side_convective c st' b) + nx * at2 (side_convective c st' b),
           at3 = at3 (side_convective c st' b)\<rparr>
    \<and> side_flux c st a
        = \<lparr>at0 = (at0 (side_convective c st' b)
                  - (if navierstokes c
                     then at0 (fst (side_diffusion c st a)) * nx
                          + at0 (snd (side_diffusion c st a)) * ny
                     else 0)) * len (sides st a),
           at1 = (nx * at1 (side_convective c st' b) - ny * at2 (side_convective c st' b)
                  - (if navierstokes c
                     then at1 (fst (side_diffusion c st a)) * nx
                          + at1 (snd (side_diffusion c st a)) * ny
                     else 0)) * len (sides st a),
           at2 = (ny * at1 (side_convective c st' b) + nx * at2 (side_convective c st' b)
                  - (if navierstokes c
                     then at2 (fst (side_diffusion c st a)) * nx
                          + at2 (snd (side_diffusion c st a)) * ny
                     else 0)) * len (sides st a),
           at3 = (at3 (side_convective c st' b)
                  - (if navierstokes c
                     then at3 (fst (side_diffusion c st a)) * nx
                          + at3 (snd (side_diffusion c st a)) * ny
                     else 0)) * len (sides st a)\<rparr>
    \<and> rotate_in (nx, ny) \<lparr>at0 = rho, at1 = vx, at2 = vy, at3 = p\<rparr>
        = \<lparr>at0 = rho, at1 = nx * vx + ny * vy, at2 = - ny * vx + nx * vy, at3 = p\<rparr>
    \<and> rotate_back (nx, ny) \<lparr>at0 = rho, at1 = nx * vx + ny * vy, at2 = - ny * vx + nx * vy, at3 = p\<rparr>
        = \<lparr>at0 = rho, at1 = vx, at2 = vy, at3 = p\<rparr>"
proof -
  have conv: "side_convective c st a
           = convectiveFlux c rhoL rhoR (nx * vxL + ny * vyL) (nx * vxR + ny * vyR)
               (- ny * vxL + nx * vyL) (- ny * vxR + nx * vyR) pL pR zero4"
    by (simp add: side_convective_def Let_def nrm pl pr rotate_in_def)
  have "side_convective c st' b
           = convectiveFlux c rhoL rhoR (nx * vxL + ny * vyL) (nx * vxR + ny * vyR)
               (- ny * vxL + nx * vyL) (- ny * vxR + nx * vyR) pL pR zero4"
    by (simp add: side_convective_def Let_def id pl' pr' rotate_in_def)
  then have conv': "side_convective c st' b = side_convective c st a"
    by (simp only: conv)
  have idb: "rotate_back (n (sides st' b)) (side_convective c st' b) = side_convective c st' b"
    by (simp add: id rotate_back_def)
  have rb: "rotate_back (n (sides st a)) (side_convective c st a)
        = \<lparr>at0 = at0 (side_convective c st' b),
           at1 = nx * at1 (side_convective c st' b) - ny * at2 (side_convective c st' b),
           at2 = ny * at1 (side_convective c st' b) + nx * at2 (side_convective c st' b),
           at3 = at3 (side_convective c st' b)\<rparr>"
    by (simp add: conv' nrm rotate_back_def)
  have fl: "side_flux c st a
        = \<lparr>at0 = (at0 (side_convective c st' b)
                  - (if navierstokes c
                     then at0 (fst (side_diffusion c st a)) * nx
                          + at0 (snd (side_diffusion c st a)) * ny
                     else 0)) * len (sides st a),
           at1 = (nx * at1 (side_convective c st' b) - ny * at2 (side_convective c st' b)
                  - (if navierstokes c
                     then at1 (fst (side_diffusion c st a)) * nx
                          + at1 (snd (side_diffusion c st a)) * ny
                     else 0)) * len (sides st a),
           at2 = (ny * at1 (side_convective c st' b) + nx * at2 (side_convective c st' b)
                  - (if navierstokes c
                     then at2 (fst (side_diffusion c st a)) * nx
                          + at2 (snd (side_diffusion c st a)) * ny
                     else 0)) * len (sides st a),
           at3 = (at3 (side_convective c st' b)
                  - (if navierstokes c
                     then at3 (fst (side_diffusion c st a)) * nx
                          + at3 (snd (side_diffusion c st a)) * ny
                     else 0)) * len (sides st a)\<rparr>"
    by (simp add: side_flux_def Let_def nrm rb[unfolded nrm] case_prod_beta)
  have u: "nx * nx + ny * ny = 1"
    using unit by (simp add: power2_eq_square)
  have "nx * (nx * x + ny * y) - ny * (- ny * x + nx * y) = (nx * nx + ny * ny) * x"
       "ny * (nx * x + ny * y) + nx * (- ny * x + nx * y) = (nx * nx + ny * ny) * y" for x y
    by (simp_all add: algebra_simps)
  then have rt: "rotate_back (nx, ny)
          \<lparr>at0 = rho, at1 = nx * vx + ny * vy, at2 = - ny * vx + nx * vy, at3 = p\<rparr>
        = \<lparr>at0 = rho, at1 = vx, at2 = vy, at3 = p\<rparr>"
    by (simp add: rotate_back_def u)
  have ri: "rotate_in (nx, ny) \<lparr>at0 = rho, at1 = vx, at2 = vy, at3 = p\<rparr>
        = \<lparr>at0 = rho, at1 = nx * vx + ny * vy, at2 = - ny * vx + nx * vy, at3 = p\<rparr>"
    by (simp add: rotate_in_def)
  from conv conv' idb rb fl ri rt show ?thesis
    by (intro conjI)
qed


theorem C5_rotation_witness:
  "(3 / 5 :: real)\<^sup>2 + (4 / 5 :: real)\<^sup>2 = 1
   \<and> side_convective ex_globals
        (ex_face (1, 0) \<lparr>at0 = 1, at1 = 6 / 5, at2 = - 8 / 5, at3 = 1\<rparr>
                        \<lparr>at0 = 2, at1 = 4 / 5, at2 = 3 / 5, at3 = 3\<rparr>) 0
       = \<lparr>at0 = 7 / 5, at1 = 84 / 25, at2 = - 12 / 25, at3 = 79 / 10\<rparr>
   \<and> rotate_back (3 / 5, 4 / 5)
        (side_convective ex_globals
          (ex_face (3 / 5, 4 / 5) \<lparr>at0 = 1, at1 = 2, at2 = 0, at3 = 1\<rparr>
                                  \<lparr>at0 = 2, at1 = 0, at2 = 1, at3 = 3\<rparr>) 0)
       = \<lparr>at0 = 7 / 5, at1 = 12 / 5, at2 = 12 / 5, at3 = 79 / 10\<rparr>
   \<and> side_flux ex_globals
        (ex_face (3 / 5, 4 / 5) \<lparr>at0 = 1, at1 = 2, at2 = 0, at3 = 1\<rparr>
                                \<lparr>at0 = 2, at1 = 0, at2 = 1, at3 = 3\<rparr>) 0
       = \<lparr>at0 = 14 / 5, at1 = 24 / 5, at2 = 24 / 5, at3 = 79 / 5\<rparr>
   \<and> rotate_in (3 / 5, 4 / 5) \<lparr>at0 = 1, at1 = 2, at2 = 0, at3 = 1\<rparr>
       = \<lparr>at0 = 1, at1 = 6 / 5, at2 = - 8 / 5, at3 = 1\<rparr>
   \<and> rotate_back (3 / 5, 4 / 5) \<lparr>at0 = 1, at1 = 6 / 5, at2 = - 8 / 5, at3 = 1\<rparr>
       = \<lparr>at0 = 1, at1 = 2, at2 = 0, at3 = 1\<rparr>"
proof -
  let ?st = "ex_face (3 / 5, 4 / 5) \<lparr>at0 = 1, at1 = 2, at2 = 0, at3 = 1\<rparr>
                                    \<lparr>at0 = 2, at1 = 0, at2 = 1, at3 = 3\<rparr>"
  let ?st' = "ex_face (1, 0) \<lparr>at0 = 1, at1 = 6 / 5, at2 = - 8 / 5, at3 = 1\<rparr>
                             \<lparr>at0 = 2, at1 = 4 / 5, at2 = 3 / 5, at3 = 3\<rparr>"
  have unit: "(3 / 5 :: real)\<^sup>2 + (4 / 5 :: real)\<^sup>2 = 1"
    by (simp add: power2_eq_square)
  have nrm: "n (sides ?st 0) = (3 / 5, 4 / 5)"
    by (simp add: ex_face_def)
  have pl: "pVar (sides ?st 0) = \<lparr>at0 = 1, at1 = 2, at2 = 0, at3 = 1\<rparr>"
    by (simp add: ex_face_def)
  have pr: "pVar (sides ?st (connection (sides ?st 0))) = \<lparr>at0 = 2, at1 = 0, at2 = 1, at3 = 3\<rparr>"
    by (simp add: ex_face_def ex_side0_def)
  have id: "n (sides ?st' 0) = (1, 0)"
    by (simp add: ex_face_def)
  have pl': "pVar (sides ?st' 0)
      = \<lparr>at0 = 1, at1 = 3 / 5 * 2 + 4 / 5 * 0, at2 = - (4 / 5) * 2 + 3 / 5 * 0, at3 = 1\<rparr>"
    by (simp add: ex_face_def)
  have pr': "pVar (sides ?st' (connection (sides ?st' 0)))
      = \<lparr>at0 = 2, at1 = 3 / 5 * 0 + 4 / 5 * 1, at2 = - (4 / 5) * 0 + 3 / 5 * 1, at3 = 3\<rparr>"
    by (simp add: ex_face_def ex_side0_def)
  have k: "side_convective ex_globals ?st' 0
      = \<lparr>at0 = 7 / 5, at1 = 84 / 25, at2 = - 12 / 25, at3 = 79 / 10\<rparr>"
    by (simp add: ex_face_def ex_side0_def ex_side1_def ex_globals_def side_convective_def
        rotate_in_def convectiveFlux_def flux_cen_def gam1q_def gam1_def zero4_def Let_def)
  have ns: "\<not> navierstokes ex_globals" "len (sides ?st 0) = 2"
    by (simp_all add: ex_globals_def ex_face_def ex_side0_def)
  note t = C5_rotation [OF unit nrm pl pr id pl' pr', of ex_globals 1 2 0 1]
  have rbk: "rotate_back (3 / 5, 4 / 5) (side_convective ex_globals ?st 0)
      = \<lparr>at0 = 7 / 5, at1 = 12 / 5, at2 = 12 / 5, at3 = 79 / 10\<rparr>"
    using t [THEN conjunct2, THEN conjunct2, THEN conjunct2, THEN conjunct1, unfolded k nrm]
    by simp
  have sf: "side_flux ex_globals ?st 0
      = \<lparr>at0 = 14 / 5, at1 = 24 / 5, at2 = 24 / 5, at3 = 79 / 5\<rparr>"
    using t [THEN conjunct2, THEN conjunct2, THEN conjunct2, THEN conjunct2, THEN conjunct1,
             unfolded k] ns
    by simp
  have ri: "rotate_in (3 / 5, 4 / 5) \<lparr>at0 = 1, at1 = 2, at2 = 0, at3 = 1\<rparr>
      = \<lparr>at0 = 1, at1 = 6 / 5, at2 = - 8 / 5, at3 = 1\<rparr>"
    using t [THEN conjunct2, THEN conjunct2, THEN conjunct2, THEN conjunct2, THEN conjunct2,
             THEN conjunct1]
    by simp
  have rt: "rotate_back (3 / 5, 4 / 5) \<lparr>at0 = 1, at1 = 6 / 5, at2 = - 8 / 5, at3 = 1\<rparr>
      = \<lparr>at0 = 1, at1 = 2, at2 = 0, at3 = 1\<rparr>"
    using t [THEN conjunct2, THEN conjunct2, THEN conjunct2, THEN conjunct2, THEN conjunct2,
             THEN conjunct2]
    by simp
  from unit k rbk sf ri rt show ?thesis
    by (intro conjI)
qed

section \<open>The HLL kernel\<close>

lemma roe_jensen:
  fixes a b x y :: real
  assumes "a > 0" "b > 0"
  shows "(a * x\<^sup>2 + b * y\<^sup>2) / (a + b) - ((a * x + b * y) / (a + b))\<^sup>2
         = a * b * (x - y)\<^sup>2 / (a + b)\<^sup>2"
proof -
  have s: "a + b \<noteq> 0" using assms by simp
  have "(a * x\<^sup>2 + b * y\<^sup>2) / (a + b) = (a * x\<^sup>2 + b * y\<^sup>2) * (a + b) / (a + b)\<^sup>2"
    using s by (simp add: power2_eq_square)
  then have "(a * x\<^sup>2 + b * y\<^sup>2) / (a + b) - ((a * x + b * y) / (a + b))\<^sup>2
      = ((a * x\<^sup>2 + b * y\<^sup>2) * (a + b) - (a * x + b * y)\<^sup>2) / (a + b)\<^sup>2"
    by (simp add: power_divide diff_divide_distrib)
  also have "(a * x\<^sup>2 + b * y\<^sup>2) * (a + b) - (a * x + b * y)\<^sup>2 = a * b * (x - y)\<^sup>2"
    by (simp add: power2_eq_square algebra_simps)
  finally show ?thesis .
qed

lemma spec_roe_radicand_pos:
  assumes "admissible c rhoL rhoR pL pR"
  shows "0 < (gam c - 1)
          * (spec_roe_mean rhoL rhoR (spec_enthalpy c rhoL vxL vyL pL) (spec_enthalpy c rhoR vxR vyR pR)
             - ((spec_roe_mean rhoL rhoR vxL vxR)\<^sup>2 + (spec_roe_mean rhoL rhoR vyL vyR)\<^sup>2) / 2)"
proof -
  define a b where "a = sqrt rhoL" and "b = sqrt rhoR"
  define hL hR where "hL = gam c / (gam c - 1) * pL / rhoL" and "hR = gam c / (gam c - 1) * pR / rhoR"
  have g: "gam c > 1" and pos: "rhoL > 0" "rhoR > 0" "pL > 0" "pR > 0"
    using assms by (simp_all add: admissible_def)
  have ab: "a > 0" "b > 0" using pos by (simp_all add: a_def b_def)
  have h: "hL > 0" "hR > 0" using g pos by (simp_all add: hL_def hR_def)
  have HL: "spec_enthalpy c rhoL vxL vyL pL = hL + (vxL\<^sup>2 + vyL\<^sup>2) / 2"
    using g pos by (simp add: spec_enthalpy_def spec_energy_def hL_def field_simps)
  have HR: "spec_enthalpy c rhoR vxR vyR pR = hR + (vxR\<^sup>2 + vyR\<^sup>2) / 2"
    using g pos by (simp add: spec_enthalpy_def spec_energy_def hR_def field_simps)
  have num: "a * (hL + (vxL\<^sup>2 + vyL\<^sup>2) / 2) + b * (hR + (vxR\<^sup>2 + vyR\<^sup>2) / 2)
      = (a * hL + b * hR) + ((a * vxL\<^sup>2 + b * vxR\<^sup>2) + (a * vyL\<^sup>2 + b * vyR\<^sup>2)) / 2"
    by (simp add: algebra_simps add_divide_distrib)
  have split: "(a * (hL + (vxL\<^sup>2 + vyL\<^sup>2) / 2) + b * (hR + (vxR\<^sup>2 + vyR\<^sup>2) / 2)) / (a + b)
      = (a * hL + b * hR) / (a + b)
        + ((a * vxL\<^sup>2 + b * vxR\<^sup>2) / (a + b) + (a * vyL\<^sup>2 + b * vyR\<^sup>2) / (a + b)) / 2"
    unfolding num by (simp add: add_divide_distrib algebra_simps)
  have "spec_roe_mean rhoL rhoR (spec_enthalpy c rhoL vxL vyL pL) (spec_enthalpy c rhoR vxR vyR pR)
             - ((spec_roe_mean rhoL rhoR vxL vxR)\<^sup>2 + (spec_roe_mean rhoL rhoR vyL vyR)\<^sup>2) / 2
     = (a * hL + b * hR) / (a + b)
       + (((a * vxL\<^sup>2 + b * vxR\<^sup>2) / (a + b) - ((a * vxL + b * vxR) / (a + b))\<^sup>2)
          + ((a * vyL\<^sup>2 + b * vyR\<^sup>2) / (a + b) - ((a * vyL + b * vyR) / (a + b))\<^sup>2)) / 2"
    unfolding spec_roe_mean_def HL HR a_def[symmetric] b_def[symmetric] split
    by (simp add: diff_divide_distrib add_divide_distrib)
  also have "\<dots> = (a * hL + b * hR) / (a + b)
       + (a * b * (vxL - vxR)\<^sup>2 / (a + b)\<^sup>2 + a * b * (vyL - vyR)\<^sup>2 / (a + b)\<^sup>2) / 2"
    by (simp only: roe_jensen[OF ab])
  also have "\<dots> > 0"
  proof -
    have "(a * hL + b * hR) / (a + b) > 0"
      using ab h by (simp add: add_pos_pos)
    moreover have "(a * b * (vxL - vxR)\<^sup>2 / (a + b)\<^sup>2
        + a * b * (vyL - vyR)\<^sup>2 / (a + b)\<^sup>2) / 2 \<ge> 0"
      using ab by simp
    ultimately show ?thesis by (rule add_pos_nonneg)
  qed
  finally show ?thesis using g by simp
qed


lemma code_energy:
  "gam1q c * p + 0.5 * rho * (v * v + vt * vt) = spec_energy c rho v vt p"
  by (simp add: spec_energy_def gam1q_def gam1_def power2_eq_square)

lemma code_roe_mean:
  "(sqrt rhoR * xR + sqrt rhoL * xL) * (1 / (sqrt rhoL + sqrt rhoR))
     = spec_roe_mean rhoL rhoR xL xR"
  by (simp add: spec_roe_mean_def add.commute)

lemma flux_hll_select:
  "flux_hll c rhoL rhoR vxL vxR vyL vyR pL pR fluxLoc =
     hll_select (spec_hll_alm c rhoL rhoR vxL vxR vyL vyR pL pR)
                (spec_hll_arp c rhoL rhoR vxL vxR vyL vyR pL pR)
                (spec_conserved c rhoL vxL vyL pL) (spec_conserved c rhoR vxR vyR pR)
                (spec_physical_flux c rhoL vxL vyL pL) (spec_physical_flux c rhoR vxR vyR pR)
                fluxLoc"
proof -
  have H: "(spec_energy c rho v vt p + p) * (1 / rho) = spec_enthalpy c rho v vt p" for rho v vt p
    by (simp add: spec_enthalpy_def)
  have cs: "sqrt (gam c * p * (1 / rho)) = spec_sound c rho p" for rho p
    by (simp add: spec_sound_def)
  have half: "0.5 * (x * x + y * y) = (x\<^sup>2 + y\<^sup>2) / 2" for x y :: real
    by (simp add: power2_eq_square)
  have F: "\<lparr>at0 = rho * v, at1 = rho * v * v + p, at2 = rho * v * vt,
            at3 = v * (spec_energy c rho v vt p + p)\<rparr> = spec_physical_flux c rho v vt p"
    for rho v vt p
    by (simp add: spec_physical_flux_def power2_eq_square)
  have U: "at1 (spec_conserved c rho v vt p) = rho * v" for rho v vt p
    by (simp add: spec_conserved_def)
  show ?thesis
    unfolding flux_hll_def Let_def
    by (simp only: code_energy code_roe_mean H cs half vec4.simps
        spec_conserved_def[symmetric] U F
        spec_hll_alm_def spec_hll_arp_def spec_roe_sound_def gam1_def)
qed

lemma hll_select_cases:
  "hll_select alm arp uL uR fL fR fluxLoc =
     (if alm > 0 then fL else if arp < 0 then fR else spec_hll_average alm arp fL fR uL uR)"
  by (cases fluxLoc; cases fL; cases fR)
     (simp add: hll_select_def spec_hll_average_def Let_def algebra_simps
        add_divide_distrib diff_divide_distrib)

lemma spec_hll_speeds_ordered:
  assumes "admissible c rhoL rhoR pL pR"
  shows "spec_hll_alm c rhoL rhoR vxL vxR vyL vyR pL pR
         < spec_hll_arp c rhoL rhoR vxL vxR vyL vyR pL pR"
proof -
  have "0 < spec_roe_sound c rhoL rhoR vxL vxR vyL vyR pL pR"
    unfolding spec_roe_sound_def using spec_roe_radicand_pos[OF assms] by simp
  then show ?thesis
    by (simp add: spec_hll_alm_def spec_hll_arp_def min_def max_def)
qed

text \<open>
  Claim C6. For every admissible input the HLL kernel returns the physical flux of the
  left state when the left signal speed is positive, the physical flux of the right state
  when the right signal speed is negative, and the two-wave HLL average weighted by the
  two speeds otherwise; the left speed is the minimum of \<open>vxL - cL\<close> and the Roe-averaged
  \<open>u - c\<close>, the right speed the maximum of \<open>vxR + cR\<close> and the Roe-averaged \<open>u + c\<close>.
\<close>

theorem C6_hll:
  assumes "admissible c rhoL rhoR pL pR"
  shows
    "let alm = spec_hll_alm c rhoL rhoR vxL vxR vyL vyR pL pR;
         arp = spec_hll_arp c rhoL rhoR vxL vxR vyL vyR pL pR;
         FL = spec_physical_flux c rhoL vxL vyL pL;
         FR = spec_physical_flux c rhoR vxR vyR pR;
         UL = spec_conserved c rhoL vxL vyL pL;
         UR = spec_conserved c rhoR vxR vyR pR;
         F = flux_hll c rhoL rhoR vxL vxR vyL vyR pL pR fluxLoc
     in (alm > 0 \<longrightarrow> F = FL)
        \<and> (arp < 0 \<longrightarrow> F = FR)
        \<and> (alm \<le> 0 \<and> 0 \<le> arp \<longrightarrow> F = spec_hll_average alm arp FL FR UL UR)"
  using spec_hll_speeds_ordered[OF assms, of vxL vxR vyL vyR]
  by (auto simp: Let_def flux_hll_select hll_select_cases)

theorem C6_hll_witness:
  "admissible ex_globals 1 1 (5 / 7) (5 / 7)
   \<and> spec_hll_alm ex_globals 1 1 6 1 0 0 (5 / 7) (5 / 7) = 2
   \<and> flux_hll ex_globals 1 1 6 1 0 0 (5 / 7) (5 / 7) zero4
       = spec_physical_flux ex_globals 1 6 0 (5 / 7)
   \<and> spec_hll_arp ex_globals 1 1 (- 1) (- 6) 0 0 (5 / 7) (5 / 7) = - 2
   \<and> flux_hll ex_globals 1 1 (- 1) (- 6) 0 0 (5 / 7) (5 / 7) zero4
       = spec_physical_flux ex_globals 1 (- 6) 0 (5 / 7)
   \<and> spec_hll_alm ex_globals 1 1 (5 / 2) (- (5 / 2)) 0 0 (5 / 7) (5 / 7) = - (3 / 2)
   \<and> spec_hll_arp ex_globals 1 1 (5 / 2) (- (5 / 2)) 0 0 (5 / 7) (5 / 7) = 3 / 2
   \<and> flux_hll ex_globals 1 1 (5 / 2) (- (5 / 2)) 0 0 (5 / 7) (5 / 7) zero4
       = spec_hll_average (- (3 / 2)) (3 / 2)
           (spec_physical_flux ex_globals 1 (5 / 2) 0 (5 / 7))
           (spec_physical_flux ex_globals 1 (- (5 / 2)) 0 (5 / 7))
           (spec_conserved ex_globals 1 (5 / 2) 0 (5 / 7))
           (spec_conserved ex_globals 1 (- (5 / 2)) 0 (5 / 7))"
proof -
  have adm: "admissible ex_globals 1 1 (5 / 7) (5 / 7)"
    by (simp add: admissible_def ex_globals_def)
  have r: "sqrt (9 / 4) = 3 / 2"
    by (rule real_sqrt_unique) (simp_all add: power2_eq_square)
  have cs: "spec_sound ex_globals 1 (5 / 7) = 1"
    by (simp add: spec_sound_def ex_globals_def)
  have c1: "spec_roe_sound ex_globals 1 1 6 1 0 0 (5 / 7) (5 / 7) = 3 / 2"
    by (simp add: spec_roe_sound_def spec_roe_mean_def spec_enthalpy_def spec_energy_def
        ex_globals_def power2_eq_square r)
  have c2: "spec_roe_sound ex_globals 1 1 (- 1) (- 6) 0 0 (5 / 7) (5 / 7) = 3 / 2"
    by (simp add: spec_roe_sound_def spec_roe_mean_def spec_enthalpy_def spec_energy_def
        ex_globals_def power2_eq_square r)
  have c3: "spec_roe_sound ex_globals 1 1 (5 / 2) (- (5 / 2)) 0 0 (5 / 7) (5 / 7) = 3 / 2"
    by (simp add: spec_roe_sound_def spec_roe_mean_def spec_enthalpy_def spec_energy_def
        ex_globals_def power2_eq_square r)
  have s1: "spec_hll_alm ex_globals 1 1 6 1 0 0 (5 / 7) (5 / 7) = 2"
    by (simp add: spec_hll_alm_def cs c1 spec_roe_mean_def)
  have s2: "spec_hll_arp ex_globals 1 1 (- 1) (- 6) 0 0 (5 / 7) (5 / 7) = - 2"
    by (simp add: spec_hll_arp_def cs c2 spec_roe_mean_def)
  have s3: "spec_hll_alm ex_globals 1 1 (5 / 2) (- (5 / 2)) 0 0 (5 / 7) (5 / 7) = - (3 / 2)"
    "spec_hll_arp ex_globals 1 1 (5 / 2) (- (5 / 2)) 0 0 (5 / 7) (5 / 7) = 3 / 2"
    by (simp_all add: spec_hll_alm_def spec_hll_arp_def cs c3 spec_roe_mean_def)
  show ?thesis
    using adm
      C6_hll [OF adm, of 6 1 0 0 zero4]
      C6_hll [OF adm, of "- 1" "- 6" 0 0 zero4]
      C6_hll [OF adm, of "5 / 2" "- (5 / 2)" 0 0 zero4]
    by (simp add: Let_def s1 s2 s3)
qed

section \<open>Reflection symmetry of the kernels\<close>

text \<open>Swapping the two states and negating both velocity components is the reflection of
  the Riemann problem. The lemmas below show, kernel by kernel, that the flux of the
  reflected problem is the reflected flux: mass and energy flux negated, both momentum
  fluxes unchanged.\<close>

lemma mirror_cen:
  "flux_cen c rhoR rhoL (- vxR) (- vxL) (- vyR) (- vyL) pR pL fluxLoc
     = mirror4 (flux_cen c rhoL rhoR vxL vxR vyL vyR pL pR fluxLoc)"
  by (cases fluxLoc) (simp add: flux_cen_def mirror4_def Let_def field_simps)

lemma mirror_lxf:
  "flux_lxf c rhoR rhoL (- vxR) (- vxL) (- vyR) (- vyL) pR pL fluxLoc
     = mirror4 (flux_lxf c rhoL rhoR vxL vxR vyL vyR pL pR fluxLoc)"
  by (cases fluxLoc) (simp add: flux_lxf_def mirror4_def Let_def max.commute field_simps)

lemma mirror_stw:
  assumes g: "gam c \<noteq> 0"
  shows "flux_stw c rhoR rhoL (- vxR) (- vxL) (- vyR) (- vyL) pR pL fluxLoc
     = mirror4 (flux_stw c rhoL rhoR vxL vxR vyL vyR pL pR fluxLoc)"
proof -
  have m: "max (- x - y) 0 = - min (x + y) 0" "max (- x + y) 0 = - min (x - y) 0"
    "max (- x) 0 = - min x 0" "min (- x - y) 0 = - max (x + y) 0"
    "min (- x + y) 0 = - max (x - y) 0" "min (- x) 0 = - max x 0" for x y :: real
    by (simp_all add: min_def max_def)
  show ?thesis
    unfolding flux_stw_def Let_def
    apply (simp only: m)
    apply (cases fluxLoc)
    using g apply (simp add: mirror4_def field_simps)
    done
qed

lemma hll_select_mirror:
  assumes "alm \<le> arp"
  shows "hll_select (- arp) (- alm) (flip4 uR) (flip4 uL) (mirror4 fR) (mirror4 fL) fluxLoc
         = mirror4 (hll_select alm arp uL uR fL fR fluxLoc)"
  using assms
  by (cases fluxLoc)
     (simp add: hll_select_def mirror4_def flip4_def Let_def divide_inverse algebra_simps)

lemma spec_conserved_mirror:
  "spec_conserved c rho (- v) (- vt) p = flip4 (spec_conserved c rho v vt p)"
  by (simp add: spec_conserved_def flip4_def spec_energy_def)

lemma spec_physical_flux_mirror:
  "spec_physical_flux c rho (- v) (- vt) p = mirror4 (spec_physical_flux c rho v vt p)"
  by (simp add: spec_physical_flux_def mirror4_def spec_energy_def)

lemma spec_roe_mean_mirror:
  "spec_roe_mean rhoR rhoL (- xR) (- xL) = - spec_roe_mean rhoL rhoR xL xR"
  by (simp add: spec_roe_mean_def divide_inverse algebra_simps)

lemma spec_roe_mean_swap:
  "spec_roe_mean rhoR rhoL xR xL = spec_roe_mean rhoL rhoR xL xR"
  by (simp add: spec_roe_mean_def add.commute)

lemma spec_enthalpy_mirror:
  "spec_enthalpy c rho (- v) (- vt) p = spec_enthalpy c rho v vt p"
  by (simp add: spec_enthalpy_def spec_energy_def)

lemma spec_roe_sound_mirror:
  "spec_roe_sound c rhoR rhoL (- vxR) (- vxL) (- vyR) (- vyL) pR pL
     = spec_roe_sound c rhoL rhoR vxL vxR vyL vyR pL pR"
  by (simp add: spec_roe_sound_def spec_roe_mean_mirror spec_enthalpy_mirror
      spec_roe_mean_swap[of rhoR rhoL "spec_enthalpy c rhoR vxR vyR pR"])

lemma spec_hll_speeds_mirror:
  "spec_hll_alm c rhoR rhoL (- vxR) (- vxL) (- vyR) (- vyL) pR pL
     = - spec_hll_arp c rhoL rhoR vxL vxR vyL vyR pL pR"
  "spec_hll_arp c rhoR rhoL (- vxR) (- vxL) (- vyR) (- vyL) pR pL
     = - spec_hll_alm c rhoL rhoR vxL vxR vyL vyR pL pR"
  by (simp_all add: spec_hll_alm_def spec_hll_arp_def spec_roe_sound_mirror
      spec_roe_mean_mirror min_def max_def)

lemma mirror_hll:
  assumes "admissible c rhoL rhoR pL pR"
  shows "flux_hll c rhoR rhoL (- vxR) (- vxL) (- vyR) (- vyL) pR pL fluxLoc
     = mirror4 (flux_hll c rhoL rhoR vxL vxR vyL vyR pL pR fluxLoc)"
  using spec_hll_speeds_ordered[OF assms, of vxL vxR vyL vyR]
  by (simp add: flux_hll_select spec_hll_speeds_mirror spec_conserved_mirror
      spec_physical_flux_mirror hll_select_mirror)

lemma flux_hlle_select:
  "flux_hlle c rhoL rhoR vxL vxR vyL vyR pL pR fluxLoc =
     hll_select (min (vxL - spec_sound c rhoL pL)
                     (spec_roe_mean rhoL rhoR vxL vxR - hlle_d c rhoL rhoR vxL vxR pL pR))
                (max (vxR + spec_sound c rhoR pR)
                     (spec_roe_mean rhoL rhoR vxL vxR + hlle_d c rhoL rhoR vxL vxR pL pR))
                (spec_conserved c rhoL vxL vyL pL) (spec_conserved c rhoR vxR vyR pR)
                (spec_physical_flux c rhoL vxL vyL pL) (spec_physical_flux c rhoR vxR vyR pR)
                fluxLoc"
  by (simp add: flux_hlle_def hlle_d_def Let_def spec_sound_def spec_roe_mean_def
      spec_conserved_def spec_physical_flux_def spec_energy_def gam1q_def gam1_def
      power2_eq_square add.commute mult.assoc)

lemma hlle_d_mirror:
  "hlle_d c rhoR rhoL (- vxR) (- vxL) pR pL = hlle_d c rhoL rhoR vxL vxR pL pR"
proof -
  have sq: "(vxR - vxL) * (vxR - vxL) = (vxL - vxR) * (vxL - vxR)"
    by (simp add: algebra_simps)
  show ?thesis
    by (simp add: hlle_d_def Let_def add.commute mult.commute sq)
qed

lemma hlle_d_nonneg:
  assumes "admissible c rhoL rhoR pL pR"
  shows "0 \<le> hlle_d c rhoL rhoR vxL vxR pL pR"
proof -
  have pos: "rhoL > 0" "rhoR > 0" "pL > 0" "pR > 0" "gam c > 0"
    using assms by (simp_all add: admissible_def)
  have "0 \<le> (sqrt rhoR * sqrt (gam c * pR * (1 / rhoR)) * sqrt (gam c * pR * (1 / rhoR))
            + sqrt rhoL * sqrt (gam c * pL * (1 / rhoL)) * sqrt (gam c * pL * (1 / rhoL)))
            * (1 / (sqrt rhoL + sqrt rhoR))"
    using pos by (intro mult_nonneg_nonneg add_nonneg_nonneg) (simp_all add: mult.assoc)
  moreover have "0 \<le> 0.5 * sqrt rhoR * sqrt rhoL / (sqrt rhoR + sqrt rhoL) / (sqrt rhoR + sqrt rhoL)
            * (vxR - vxL) * (vxR - vxL)"
    using pos by (simp add: mult.assoc)
  ultimately show ?thesis
    unfolding hlle_d_def Let_def by (intro real_sqrt_ge_zero add_nonneg_nonneg)
qed

lemma mirror_hlle:
  assumes "admissible c rhoL rhoR pL pR"
  shows "flux_hlle c rhoR rhoL (- vxR) (- vxL) (- vyR) (- vyL) pR pL fluxLoc
     = mirror4 (flux_hlle c rhoL rhoR vxL vxR vyL vyR pL pR fluxLoc)"
proof -
  let ?alm = "min (vxL - spec_sound c rhoL pL)
                  (spec_roe_mean rhoL rhoR vxL vxR - hlle_d c rhoL rhoR vxL vxR pL pR)"
  let ?arp = "max (vxR + spec_sound c rhoR pR)
                  (spec_roe_mean rhoL rhoR vxL vxR + hlle_d c rhoL rhoR vxL vxR pL pR)"
  have le: "?alm \<le> ?arp"
    using hlle_d_nonneg[OF assms, of vxL vxR] by (simp add: min_def max_def)
  have a: "min (- vxR - spec_sound c rhoR pR)
               (- spec_roe_mean rhoL rhoR vxL vxR - hlle_d c rhoL rhoR vxL vxR pL pR) = - ?arp"
    by (simp add: min_def max_def)
  have b: "max (- vxL + spec_sound c rhoL pL)
               (- spec_roe_mean rhoL rhoR vxL vxR + hlle_d c rhoL rhoR vxL vxR pL pR) = - ?alm"
    by (simp add: min_def max_def)
  show ?thesis
    unfolding flux_hlle_select hlle_d_mirror spec_roe_mean_mirror spec_conserved_mirror
      spec_physical_flux_mirror a b
    by (rule hll_select_mirror[OF le])
qed

lemma flux_vanleer_split:
  "flux_vanleer c rhoL rhoR vxL vxR vyL vyR pL pR fluxLoc =
     fluxLoc\<lparr>at0 := at0 (vanleer_plus c rhoL vxL vyL pL) + at0 (vanleer_minus c rhoR vxR vyR pR),
              at1 := at1 (vanleer_plus c rhoL vxL vyL pL) + at1 (vanleer_minus c rhoR vxR vyR pR),
              at2 := at2 (vanleer_plus c rhoL vxL vyL pL) + at2 (vanleer_minus c rhoR vxR vyR pR),
              at3 := at3 (vanleer_plus c rhoL vxL vyL pL) + at3 (vanleer_minus c rhoR vxR vyR pR)\<rparr>"
  by (simp add: flux_vanleer_def vanleer_plus_def vanleer_minus_def Let_def)

lemma vanleer_plus_mirror:
  "vanleer_plus c rho (- v) (- vt) p = mirror4 (vanleer_minus c rho v vt p)"
proof -
  define cs where "cs = sqrt (gam c * p / rho)"
  define M where "M = v / cs"
  have neg: "- v / cs = - M" by (simp add: M_def)
  show ?thesis
    unfolding vanleer_plus_def vanleer_minus_def Let_def cs_def[symmetric] neg M_def[symmetric]
    by (simp add: mirror4_def algebra_simps add_divide_distrib diff_divide_distrib)
qed

lemma vanleer_minus_mirror:
  "vanleer_minus c rho (- v) (- vt) p = mirror4 (vanleer_plus c rho v vt p)"
proof -
  define cs where "cs = sqrt (gam c * p / rho)"
  define M where "M = v / cs"
  have neg: "- v / cs = - M" by (simp add: M_def)
  show ?thesis
    unfolding vanleer_plus_def vanleer_minus_def Let_def cs_def[symmetric] neg M_def[symmetric]
    by (simp add: mirror4_def algebra_simps add_divide_distrib diff_divide_distrib)
qed

lemma mirror_vanleer:
  "flux_vanleer c rhoR rhoL (- vxR) (- vxL) (- vyR) (- vyL) pR pL fluxLoc
     = mirror4 (flux_vanleer c rhoL rhoR vxL vxR vyL vyR pL pR fluxLoc)"
  by (cases fluxLoc)
     (simp add: flux_vanleer_split vanleer_plus_mirror vanleer_minus_mirror mirror4_def)

lemma flux_ausmd_split:
  "flux_ausmd c rhoL rhoR vxL vxR vyL vyR pL pR fluxLoc =
    ausmd_combine
      (ausmd_plus (max (spec_sound c rhoL pL) (spec_sound c rhoR pR))
                  (2 * pL / rhoL / (pL / rhoL + pR / rhoR)) vxL pL)
      (ausmd_minus (max (spec_sound c rhoL pL) (spec_sound c rhoR pR))
                  (2 * pR / rhoR / (pL / rhoL + pR / rhoR)) vxR pR)
      rhoL rhoR vxL vxR vyL vyR
      (spec_enthalpy c rhoL vxL vyL pL) (spec_enthalpy c rhoR vxR vyR pR) fluxLoc"
  by (simp only: flux_ausmd_def ausmd_combine_def ausmd_plus_def ausmd_minus_def Let_def
      spec_sound_def spec_enthalpy_def code_energy case_prod_beta)

lemma ausmd_plus_mirror:
  "ausmd_plus cm alpha (- v) p = (- fst (ausmd_minus cm alpha v p), snd (ausmd_minus cm alpha v p))"
  by (simp add: ausmd_plus_def ausmd_minus_def algebra_simps add_divide_distrib diff_divide_distrib)

lemma ausmd_minus_mirror:
  "ausmd_minus cm alpha (- v) p = (- fst (ausmd_plus cm alpha v p), snd (ausmd_plus cm alpha v p))"
  by (simp add: ausmd_plus_def ausmd_minus_def algebra_simps add_divide_distrib diff_divide_distrib)

lemma ausmd_combine_mirror:
  "ausmd_combine (- fst um, snd um) (- fst up, snd up) rhoR rhoL (- vxR) (- vxL)
      (- vyR) (- vyL) HR HL fluxLoc
   = mirror4 (ausmd_combine up um rhoL rhoR vxL vxR vyL vyR HL HR fluxLoc)"
proof -
  define rhoU where "rhoU = fst up * rhoL + fst um * rhoR"
  have r: "- fst um * rhoR + - fst up * rhoL = - rhoU"
    by (simp add: rhoU_def)
  show ?thesis
    unfolding ausmd_combine_def Let_def fst_conv snd_conv r rhoU_def[symmetric]
    by (cases fluxLoc) (simp add: mirror4_def algebra_simps)
qed

lemma mirror_ausmd:
  "flux_ausmd c rhoR rhoL (- vxR) (- vxL) (- vyR) (- vyL) pR pL fluxLoc
     = mirror4 (flux_ausmd c rhoL rhoR vxL vxR vyL vyR pL pR fluxLoc)"
  unfolding flux_ausmd_split spec_enthalpy_mirror ausmd_plus_mirror ausmd_minus_mirror
    max.commute[of "spec_sound c rhoR pR"] add.commute[of "pR / rhoR"]
  by (rule ausmd_combine_mirror)

lemma flux_roe_stage:
  "flux_roe c rhoL rhoR vxL vxR vyL vyR pL pR fluxLoc =
    (let vxBar = spec_roe_mean rhoL rhoR vxL vxR;
         vyBar = spec_roe_mean rhoL rhoR vyL vyR;
         Hbar = spec_roe_mean rhoL rhoR (spec_enthalpy c rhoL vxL vyL pL)
                  (spec_enthalpy c rhoR vxR vyR pR);
         cBar = spec_roe_sound c rhoL rhoR vxL vxR vyL vyR pL pR;
         cL = spec_sound c rhoL pL;
         cR = spec_sound c rhoR pR
     in roe_stage (gam1 c) vxBar vyBar Hbar cBar (1 / cBar) rhoL rhoR
          (rhoL * vxL) (rhoR * vxR) (rhoL * vyL) (rhoR * vyR)
          (spec_energy c rhoL vxL vyL pL) (spec_energy c rhoR vxR vyR pR)
          (spec_physical_flux c rhoL vxL vyL pL) (spec_physical_flux c rhoR vxR vyR pR)
          (roe_fix (vxBar - cBar) (vxL - cL) (vxR - cR))
          (roe_fix vxBar vxL vxR) (roe_fix vxBar vxL vxR)
          (roe_fix (vxBar + cBar) (vxL + cL) (vxR + cR)) fluxLoc)"
proof -
  have H: "(spec_energy c rho v vt p + p) / rho = spec_enthalpy c rho v vt p" for rho v vt p
    by (simp add: spec_enthalpy_def)
  have half: "0.5 * (x * x + y * y) = (x\<^sup>2 + y\<^sup>2) / 2" for x y :: real
    by (simp add: power2_eq_square)
  have F: "\<lparr>at0 = rho * v, at1 = rho * v * v + p, at2 = rho * v * vt,
            at3 = v * (spec_energy c rho v vt p + p)\<rparr> = spec_physical_flux c rho v vt p"
    for rho v vt p
    by (simp add: spec_physical_flux_def power2_eq_square)
  have cB: "sqrt (gam1 c * (spec_roe_mean rhoL rhoR (spec_enthalpy c rhoL vxL vyL pL)
                  (spec_enthalpy c rhoR vxR vyR pR)
             - 0.5 * (spec_roe_mean rhoL rhoR vxL vxR * spec_roe_mean rhoL rhoR vxL vxR
                + spec_roe_mean rhoL rhoR vyL vyR * spec_roe_mean rhoL rhoR vyL vyR)))
        = spec_roe_sound c rhoL rhoR vxL vxR vyL vyR pL pR"
    by (simp add: spec_roe_sound_def gam1_def power2_eq_square)
  show ?thesis
    unfolding flux_roe_def roe_stage_def Let_def
    by (simp only: code_energy code_roe_mean H F cB spec_sound_def)
qed

lemma roe_fix_mirror: "roe_fix (- a) (- ar) (- al) = roe_fix a al ar"
proof -
  have "max (max 0 (- a - - ar)) (- al - - a) = max (max 0 (a - al)) (ar - a)"
    by (simp add: max_def)
  then show ?thesis
    by (simp add: roe_fix_def Let_def)
qed

lemma roe_stage_mirror:
  assumes q: "cBar * cBarQ = 1"
  shows "roe_stage g (- vxBar) (- vyBar) Hbar cBar cBarQ rhoR rhoL (- mxR) (- mxL) (- myR) (- myL)
           eR eL (mirror4 fR) (mirror4 fL) b3 b1 b2 b0 fluxLoc
         = mirror4 (roe_stage g vxBar vyBar Hbar cBar cBarQ rhoL rhoR mxL mxR myL myR
              eL eR fL fR b0 b1 b2 b3 fluxLoc)"
proof -
  have q': "cBar * (cBarQ * x) = x" for x
    using q by (simp flip: mult.assoc)
  show ?thesis
    by (cases fluxLoc)
       (simp add: roe_stage_def mirror4_def Let_def field_simps q q')
qed

lemma spec_energy_mirror: "spec_energy c rho (- v) (- vt) p = spec_energy c rho v vt p"
  by (simp add: spec_energy_def)

lemma roe_fix_mirror_sum:
  "roe_fix (- a - b) (- vr - cr) (- vl - cl) = roe_fix (a + b) (vl + cl) (vr + cr)"
  "roe_fix (- a + b) (- vr + cr) (- vl + cl) = roe_fix (a - b) (vl - cl) (vr - cr)"
  using roe_fix_mirror[of "a + b" "vr + cr" "vl + cl"] roe_fix_mirror[of "a - b" "vr - cr" "vl - cl"]
  by simp_all

lemma mirror_roe:
  assumes "admissible c rhoL rhoR pL pR"
  shows "flux_roe c rhoR rhoL (- vxR) (- vxL) (- vyR) (- vyL) pR pL fluxLoc
     = mirror4 (flux_roe c rhoL rhoR vxL vxR vyL vyR pL pR fluxLoc)"
proof -
  have "0 < spec_roe_sound c rhoL rhoR vxL vxR vyL vyR pL pR"
    unfolding spec_roe_sound_def using spec_roe_radicand_pos[OF assms] by simp
  then have q: "spec_roe_sound c rhoL rhoR vxL vxR vyL vyR pL pR
      * (1 / spec_roe_sound c rhoL rhoR vxL vxR vyL vyR pL pR) = 1"
    by simp
  show ?thesis
    unfolding flux_roe_stage Let_def spec_roe_mean_mirror spec_enthalpy_mirror
      spec_roe_sound_mirror spec_energy_mirror spec_physical_flux_mirror
      spec_roe_mean_swap[of rhoR rhoL "spec_enthalpy c rhoR vxR vyR pR"]
      mult_minus_right roe_fix_mirror_sum roe_fix_mirror
    by (rule roe_stage_mirror[OF q])
qed

lemma flux_hllc_cases:
  "flux_hllc c rhoL rhoR vxL vxR vyL vyR pL pR fluxLoc =
    (let alm = spec_hll_alm c rhoL rhoR vxL vxR vyL vyR pL pR;
         arp = spec_hll_arp c rhoL rhoR vxL vxR vyL vyR pL pR;
         as = hllc_as alm arp rhoL rhoR vxL vxR pL pR;
         FL = spec_physical_flux c rhoL vxL vyL pL;
         FR = spec_physical_flux c rhoR vxR vyR pR;
         UL = spec_conserved c rhoL vxL vyL pL;
         UR = spec_conserved c rhoR vxR vyR pR
     in if alm > 0 then FL
        else if arp < 0 then FR
        else if alm \<le> 0 \<and> as \<ge> 0
          then hllc_star_flux alm as rhoL vxL vyL pL (spec_energy c rhoL vxL vyL pL) FL UL fluxLoc
          else hllc_star_flux arp as rhoR vxR vyR pR (spec_energy c rhoR vxR vyR pR) FR UR fluxLoc)"
proof -
  have H: "(spec_energy c rho v vt p + p) * (1 / rho) = spec_enthalpy c rho v vt p" for rho v vt p
    by (simp add: spec_enthalpy_def)
  have cs: "sqrt (gam c * p * (1 / rho)) = spec_sound c rho p" for rho p
    by (simp add: spec_sound_def)
  have half: "0.5 * (x * x + y * y) = (x\<^sup>2 + y\<^sup>2) / 2" for x y :: real
    by (simp add: power2_eq_square)
  have F: "\<lparr>at0 = rho * v, at1 = rho * v * v + p, at2 = rho * v * vt,
            at3 = v * (spec_energy c rho v vt p + p)\<rparr> = spec_physical_flux c rho v vt p"
    for rho v vt p
    by (simp add: spec_physical_flux_def power2_eq_square)
  have U: "at1 (spec_conserved c rho v vt p) = rho * v" for rho v vt p
    by (simp add: spec_conserved_def)
  have full: "fluxLoc\<lparr>at0 := at0 f, at1 := at1 f, at2 := at2 f, at3 := at3 f\<rparr> = f" for f
    by (cases fluxLoc; cases f) simp
  show ?thesis
    unfolding flux_hllc_def Let_def
    by (simp only: code_energy code_roe_mean H cs half vec4.simps
        spec_conserved_def[symmetric] U F full hllc_as_def hllc_star_flux_def Let_def
        spec_hll_alm_def spec_hll_arp_def spec_roe_sound_def gam1_def)
qed

lemma hllc_as_mirror:
  "hllc_as (- arp) (- alm) rhoR rhoL (- vxR) (- vxL) pR pL
     = - hllc_as alm arp rhoL rhoR vxL vxR pL pR"
proof -
  have n: "pL - pR + rhoR * - vxR * (- arp - - vxR) - rhoL * - vxL * (- alm - - vxL)
      = - (pR - pL + rhoL * vxL * (alm - vxL) - rhoR * vxR * (arp - vxR))"
    by (simp add: algebra_simps)
  have d: "rhoR * (- arp - - vxR) - rhoL * (- alm - - vxL)
      = rhoL * (alm - vxL) - rhoR * (arp - vxR)"
    by (simp add: algebra_simps)
  show ?thesis
    by (simp only: hllc_as_def n d divide_minus_left)
qed

lemma hllc_star_flux_mirror:
  "hllc_star_flux (- s) (- as) rho (- vx) (- vy) p e (mirror4 f) (flip4 u) fluxLoc
     = mirror4 (hllc_star_flux s as rho vx vy p e f u fluxLoc)"
proof -
  have fac: "rho * (- s - - vx) / (- s - - as) = rho * (s - vx) / (s - as)"
  proof -
    have "rho * (- s - - vx) = - (rho * (s - vx))" "- s - - as = - (s - as)"
      by (simp_all add: algebra_simps)
    then show ?thesis by (simp only: minus_divide_divide)
  qed
  have pr: "p / (rho * (- s - - vx)) = - (p / (rho * (s - vx)))"
  proof -
    have "rho * (- s - - vx) = - (rho * (s - vx))" by (simp add: algebra_simps)
    then show ?thesis by (simp only: divide_minus_right)
  qed
  define fc where "fc = rho * (s - vx) / (s - as)"
  define pq where "pq = p / (rho * (s - vx))"
  show ?thesis
    unfolding hllc_star_flux_def Let_def fac pr fc_def[symmetric] pq_def[symmetric]
    by (cases fluxLoc) (simp add: mirror4_def flip4_def algebra_simps)
qed

lemma hllc_star_at_zero:
  assumes "s \<noteq> 0" "s \<noteq> vx" "rho \<noteq> 0"
  shows "hllc_star_flux s 0 rho vx vy p (spec_energy c rho vx vy p)
           (spec_physical_flux c rho vx vy p) (spec_conserved c rho vx vy p) fluxLoc
         = \<lparr>at0 = 0, at1 = rho * vx * vx + p - s * rho * vx, at2 = 0, at3 = 0\<rparr>"
proof -
  define e where "e = spec_energy c rho vx vy p"
  define fc where "fc = rho * (s - vx) / (s - 0)"
  define pq where "pq = p / (rho * (s - vx))"
  have sfc: "s * fc = rho * (s - vx)"
    using assms by (simp add: fc_def)
  have rpq: "rho * (s - vx) * pq = p"
    using assms by (simp add: pq_def)
  have re: "rho * (s - vx) * (e / rho) = (s - vx) * e"
    using assms by simp
  have c0: "rho * vx + s * (fc - rho) = 0"
  proof -
    have "rho * vx + s * (fc - rho) = rho * vx + s * fc - s * rho"
      by (simp add: algebra_simps)
    also have "\<dots> = rho * vx + rho * (s - vx) - s * rho"
      by (simp only: sfc)
    finally show ?thesis by (simp add: algebra_simps)
  qed
  have c1: "rho * vx\<^sup>2 + p + s * (0 * fc - rho * vx) = rho * vx * vx + p - s * rho * vx"
    by (simp add: power2_eq_square)
  have c2: "rho * vx * vy + s * (vy * fc - rho * vy) = 0"
  proof -
    have "rho * vx * vy + s * (vy * fc - rho * vy) = rho * vx * vy + vy * (s * fc) - s * rho * vy"
      by (simp add: algebra_simps)
    also have "\<dots> = rho * vx * vy + vy * (rho * (s - vx)) - s * rho * vy"
      by (simp only: sfc)
    finally show ?thesis by (simp add: algebra_simps)
  qed
  have c3: "vx * (e + p) + s * (fc * (e / rho + (0 - vx) * (0 + pq)) - e) = 0"
  proof -
    have "s * (fc * (e / rho + (0 - vx) * (0 + pq)) - e)
        = (s * fc) * (e / rho) - vx * ((s * fc) * pq) - s * e"
      by (simp add: algebra_simps)
    also have "\<dots> = (s - vx) * e - vx * p - s * e"
      by (simp only: sfc rpq re)
    finally show ?thesis by (simp add: algebra_simps)
  qed
  show ?thesis
    unfolding hllc_star_flux_def Let_def spec_physical_flux_def spec_conserved_def
      e_def[symmetric] fc_def[symmetric] pq_def[symmetric] vec4.simps
    by (cases fluxLoc) (simp only: c0 c1 c2 c3 vec4.simps vec4.update_convs)
qed

lemma mirror_hllc:
  assumes adm: "admissible c rhoL rhoR pL pR"
    and tie: "hllc_as (spec_hll_alm c rhoL rhoR vxL vxR vyL vyR pL pR)
                (spec_hll_arp c rhoL rhoR vxL vxR vyL vyR pL pR) rhoL rhoR vxL vxR pL pR = 0
              \<longrightarrow> spec_hll_alm c rhoL rhoR vxL vxR vyL vyR pL pR \<noteq> 0
                \<and> spec_hll_arp c rhoL rhoR vxL vxR vyL vyR pL pR \<noteq> 0"
  shows "flux_hllc c rhoR rhoL (- vxR) (- vxL) (- vyR) (- vyL) pR pL fluxLoc
     = mirror4 (flux_hllc c rhoL rhoR vxL vxR vyL vyR pL pR fluxLoc)"
proof -
  define alm where "alm = spec_hll_alm c rhoL rhoR vxL vxR vyL vyR pL pR"
  define arp where "arp = spec_hll_arp c rhoL rhoR vxL vxR vyL vyR pL pR"
  define as where "as = hllc_as alm arp rhoL rhoR vxL vxR pL pR"
  have pos: "gam c > 1" "rhoL > 0" "rhoR > 0" "pL > 0" "pR > 0"
    using adm by (simp_all add: admissible_def)
  have lt: "alm < arp"
    unfolding alm_def arp_def by (rule spec_hll_speeds_ordered[OF adm])
  have cL: "spec_sound c rhoL pL > 0" and cR: "spec_sound c rhoR pR > 0"
    using pos by (simp_all add: spec_sound_def)
  have aL: "alm < vxL" using cL by (simp add: alm_def spec_hll_alm_def min_def)
  have aR: "vxR < arp" using cR by (simp add: arp_def spec_hll_arp_def max_def)
  have orig: "flux_hllc c rhoL rhoR vxL vxR vyL vyR pL pR fluxLoc =
     (if alm > 0 then spec_physical_flux c rhoL vxL vyL pL
      else if arp < 0 then spec_physical_flux c rhoR vxR vyR pR
      else if as \<ge> 0
        then hllc_star_flux alm as rhoL vxL vyL pL (spec_energy c rhoL vxL vyL pL)
               (spec_physical_flux c rhoL vxL vyL pL) (spec_conserved c rhoL vxL vyL pL) fluxLoc
        else hllc_star_flux arp as rhoR vxR vyR pR (spec_energy c rhoR vxR vyR pR)
               (spec_physical_flux c rhoR vxR vyR pR) (spec_conserved c rhoR vxR vyR pR) fluxLoc)"
    by (simp add: flux_hllc_cases Let_def alm_def arp_def as_def)
  have mirr: "flux_hllc c rhoR rhoL (- vxR) (- vxL) (- vyR) (- vyL) pR pL fluxLoc =
     (if - arp > 0 then mirror4 (spec_physical_flux c rhoR vxR vyR pR)
      else if - alm < 0 then mirror4 (spec_physical_flux c rhoL vxL vyL pL)
      else if - as \<ge> 0
        then mirror4 (hllc_star_flux arp as rhoR vxR vyR pR (spec_energy c rhoR vxR vyR pR)
               (spec_physical_flux c rhoR vxR vyR pR) (spec_conserved c rhoR vxR vyR pR) fluxLoc)
        else mirror4 (hllc_star_flux alm as rhoL vxL vyL pL (spec_energy c rhoL vxL vyL pL)
               (spec_physical_flux c rhoL vxL vyL pL) (spec_conserved c rhoL vxL vyL pL) fluxLoc))"
    by (simp add: flux_hllc_cases Let_def spec_hll_speeds_mirror hllc_as_mirror
        spec_physical_flux_mirror spec_conserved_mirror spec_energy_mirror
        hllc_star_flux_mirror
        alm_def[symmetric] arp_def[symmetric] as_def[symmetric])
  show ?thesis
  proof (cases "as = 0 \<and> alm \<le> 0 \<and> 0 \<le> arp")
    case True
    then have nz: "alm \<noteq> 0" "arp \<noteq> 0"
      using tie by (simp_all add: alm_def arp_def as_def)
    have den: "rhoL * (alm - vxL) - rhoR * (arp - vxR) < 0"
    proof -
      have "rhoL * (alm - vxL) < 0" using pos aL by (simp add: mult_pos_neg)
      moreover have "rhoR * (arp - vxR) > 0" using pos aR by simp
      ultimately show ?thesis by linarith
    qed
    have num: "pR - pL + rhoL * vxL * (alm - vxL) - rhoR * vxR * (arp - vxR) = 0"
      using True den by (simp add: as_def hllc_as_def)
    have L: "hllc_star_flux alm 0 rhoL vxL vyL pL (spec_energy c rhoL vxL vyL pL)
               (spec_physical_flux c rhoL vxL vyL pL) (spec_conserved c rhoL vxL vyL pL) fluxLoc
        = \<lparr>at0 = 0, at1 = rhoL * vxL * vxL + pL - alm * rhoL * vxL, at2 = 0, at3 = 0\<rparr>"
      using nz aL pos by (intro hllc_star_at_zero) simp_all
    have R: "hllc_star_flux arp 0 rhoR vxR vyR pR (spec_energy c rhoR vxR vyR pR)
               (spec_physical_flux c rhoR vxR vyR pR) (spec_conserved c rhoR vxR vyR pR) fluxLoc
        = \<lparr>at0 = 0, at1 = rhoR * vxR * vxR + pR - arp * rhoR * vxR, at2 = 0, at3 = 0\<rparr>"
      using nz aR pos by (intro hllc_star_at_zero) simp_all
    have eq: "rhoL * vxL * vxL + pL - alm * rhoL * vxL = rhoR * vxR * vxR + pR - arp * rhoR * vxR"
      using num by (simp add: algebra_simps)
    show ?thesis
      using True nz by (simp add: orig mirr L R eq)
  next
    case False
    then show ?thesis
      using lt by (auto simp: orig mirr)
  qed
qed

lemma mirror_god:
  assumes "exactRiemann c rhoR rhoL (- vxR) (- vxL) pR pL
             (sqrt (gam c * pR / rhoR)) (sqrt (gam c * pL / rhoL)) 0
           = (case exactRiemann c rhoL rhoR vxL vxR pL pR
                     (sqrt (gam c * pL / rhoL)) (sqrt (gam c * pR / rhoR)) 0 of
                (rho, vx, p) \<Rightarrow> (rho, - vx, p))"
  shows "flux_god c rhoR rhoL (- vxR) (- vxL) (- vyR) (- vyL) pR pL fluxLoc
     = mirror4 (flux_god c rhoL rhoR vxL vxR vyL vyR pL pR fluxLoc)"
  using assms
  by (cases fluxLoc)
     (auto simp: flux_god_def mirror4_def Let_def split: prod.splits)

text \<open>The AUSMDV kernel is not symmetric: in the subsonic branch with \<open>vxR > 0\<close> its
  \<^verbatim>\<open>uMinus\<close> reads \<^verbatim>\<open>vxL\<close>. At the input below the mass flux is 0, and \<open>-3/4\<close> on the
  reflected input.\<close>

lemma ausmdv_not_mirror_symmetric:
  "admissible ex_globals 1 1 (5 / 7) (5 / 7)
   \<and> at0 (flux_ausmdv ex_globals 1 1 0 (1 / 2) 0 0 (5 / 7) (5 / 7) zero4) = 0
   \<and> at0 (flux_ausmdv ex_globals 1 1 (- (1 / 2)) (- 0) (- 0) (- 0) (5 / 7) (5 / 7) zero4) = - (3 / 4)"
  by (simp add: admissible_def ex_globals_def flux_ausmdv_def zero4_def Let_def)

text \<open>
  Claim C4, as stated, fails for every kernel: the momentum components are not negated.
  For the central kernel at the admissible input below the normal momentum flux is 11
  and the tangential momentum flux 4, on the input and on the reflected input alike.
\<close>

theorem C4_counterexample:
  "admissible ex_globals 1 2 1 2
   \<and> iFlux ex_globals = CEN
   \<and> at1 (convectiveFlux ex_globals 1 2 1 3 2 1 1 2 zero4) = 11
   \<and> at1 (convectiveFlux ex_globals 2 1 (- 3) (- 1) (- 1) (- 2) 2 1 zero4) = 11
   \<and> at2 (convectiveFlux ex_globals 1 2 1 3 2 1 1 2 zero4) = 4
   \<and> at2 (convectiveFlux ex_globals 2 1 (- 3) (- 1) (- 1) (- 2) 2 1 zero4) = 4"
  by (simp add: admissible_def ex_globals_def convectiveFlux_def flux_cen_def zero4_def Let_def)

text \<open>
  Claim C4, amended. For every admissible input and each of the kernels Roe, HLL, HLLE,
  local Lax-Friedrichs, Steger-Warming, central, AUSMD and van Leer, and for HLLC on the
  inputs where it does not divide by zero, swapping the left and right states and
  negating both velocity components negates the mass (and energy) component of the flux
  and leaves both momentum components unchanged.
\<close>

theorem C4_mirror_symmetry:
  assumes "admissible c rhoL rhoR pL pR"
    and "iFlux c \<in> mirror_kernels
         \<or> (iFlux c = HLLC \<and> hllc_regular c rhoL rhoR vxL vxR vyL vyR pL pR)"
  shows "convectiveFlux c rhoR rhoL (- vxR) (- vxL) (- vyR) (- vyL) pR pL fluxLoc
         = mirror4 (convectiveFlux c rhoL rhoR vxL vxR vyL vyR pL pR fluxLoc)"
proof -
  have g: "gam c \<noteq> 0" using assms(1) by (simp add: admissible_def)
  from assms(2) show ?thesis
  proof
    assume "iFlux c \<in> mirror_kernels"
    then show ?thesis
      using assms(1) g
      by (auto simp: mirror_kernels_def convectiveFlux_def mirror_roe mirror_hll mirror_hlle
          mirror_lxf mirror_stw mirror_cen mirror_ausmd mirror_vanleer)
  next
    assume h: "iFlux c = HLLC \<and> hllc_regular c rhoL rhoR vxL vxR vyL vyR pL pR"
    then have "flux_hllc c rhoR rhoL (- vxR) (- vxL) (- vyR) (- vyL) pR pL fluxLoc
        = mirror4 (flux_hllc c rhoL rhoR vxL vxR vyL vyR pL pR fluxLoc)"
      by (intro mirror_hllc[OF assms(1)]) (auto simp: hllc_regular_def Let_def)
    then show ?thesis using h by (simp add: convectiveFlux_def)
  qed
qed

theorem C4_mirror_symmetry_witness:
  "admissible ex_globals 1 2 1 2
   \<and> iFlux ex_globals \<in> mirror_kernels
   \<and> convectiveFlux ex_globals 2 1 (- 3) (- 1) (- 1) (- 2) 2 1 zero4
       = mirror4 (convectiveFlux ex_globals 1 2 1 3 2 1 1 2 zero4)
   \<and> at0 (convectiveFlux ex_globals 1 2 1 3 2 1 1 2 zero4) = 7 / 2
   \<and> admissible (ex_globals\<lparr>iFlux := HLLC\<rparr>) 1 1 (5 / 7) (5 / 7)
   \<and> hllc_regular (ex_globals\<lparr>iFlux := HLLC\<rparr>) 1 1 6 1 0 0 (5 / 7) (5 / 7)
   \<and> convectiveFlux (ex_globals\<lparr>iFlux := HLLC\<rparr>) 1 1 (- 1) (- 6) (- 0) (- 0) (5 / 7) (5 / 7) zero4
       = mirror4 (convectiveFlux (ex_globals\<lparr>iFlux := HLLC\<rparr>) 1 1 6 1 0 0 (5 / 7) (5 / 7) zero4)"
proof -
  let ?c = "ex_globals\<lparr>iFlux := HLLC\<rparr>"
  have adm: "admissible ex_globals 1 2 1 2"
    by (simp add: admissible_def ex_globals_def)
  have k: "iFlux ex_globals \<in> mirror_kernels"
    by (simp add: mirror_kernels_def ex_globals_def)
  have v: "at0 (convectiveFlux ex_globals 1 2 1 3 2 1 1 2 zero4) = 7 / 2"
    by (simp add: ex_globals_def convectiveFlux_def flux_cen_def zero4_def Let_def)
  have adm': "admissible ?c 1 1 (5 / 7) (5 / 7)"
    by (simp add: admissible_def ex_globals_def)
  have r: "sqrt (9 / 4) = 3 / 2"
    by (rule real_sqrt_unique) (simp_all add: power2_eq_square)
  have cs: "spec_sound ?c 1 (5 / 7) = 1"
    by (simp add: spec_sound_def ex_globals_def)
  have c1: "spec_roe_sound ?c 1 1 6 1 0 0 (5 / 7) (5 / 7) = 3 / 2"
    by (simp add: spec_roe_sound_def spec_roe_mean_def spec_enthalpy_def spec_energy_def
        ex_globals_def power2_eq_square r)
  have s: "spec_hll_alm ?c 1 1 6 1 0 0 (5 / 7) (5 / 7) = 2"
    "spec_hll_arp ?c 1 1 6 1 0 0 (5 / 7) (5 / 7) = 5"
    by (simp_all add: spec_hll_alm_def spec_hll_arp_def cs c1 spec_roe_mean_def)
  have reg: "hllc_regular ?c 1 1 6 1 0 0 (5 / 7) (5 / 7)"
    by (simp add: hllc_regular_def Let_def s)
  have h: "iFlux ?c = HLLC \<and> hllc_regular ?c 1 1 6 1 0 0 (5 / 7) (5 / 7)"
    using reg by simp
  show ?thesis
    using adm k v adm' reg
      C4_mirror_symmetry [OF adm disjI1 [OF k], where vxL = 1 and vxR = 3 and vyL = 2
        and vyR = 1 and fluxLoc = zero4]
      C4_mirror_symmetry [OF adm' disjI2 [OF h], of zero4]
    by simp
qed

section \<open>Consistency of the kernels\<close>

text \<open>When the two states are equal, each kernel but one returns the physical flux of
  the common state for every admissible input; the van Leer kernel does so away from the
  sonic points \<open>|v| = c\<close>. The Godunov kernel does if the external solver returns the
  common state.\<close>

lemma consistent_cen:
  "flux_cen c rho rho v v vt vt p p fluxLoc = spec_physical_flux c rho v vt p"
  by (cases fluxLoc)
     (simp add: flux_cen_def spec_physical_flux_def spec_energy_def gam1q_def gam1_def Let_def
        power2_eq_square)

lemma consistent_lxf:
  "flux_lxf c rho rho v v vt vt p p fluxLoc = spec_physical_flux c rho v vt p"
  by (cases fluxLoc)
     (simp add: flux_lxf_def spec_physical_flux_def spec_energy_def gam1q_def gam1_def Let_def
        power2_eq_square)

lemma spec_hll_average_same:
  assumes "sL \<noteq> sR"
  shows "spec_hll_average sL sR f f u u = f"
proof -
  have "(sR * x - sL * x + sL * sR * (y - y)) / (sR - sL) = x" for x y :: real
  proof -
    have "sR * x - sL * x + sL * sR * (y - y) = (sR - sL) * x" by (simp add: algebra_simps)
    then show ?thesis using assms by simp
  qed
  then show ?thesis by (cases f) (simp add: spec_hll_average_def Let_def)
qed

lemma consistent_hll:
  assumes "admissible c rho rho p p"
  shows "flux_hll c rho rho v v vt vt p p fluxLoc = spec_physical_flux c rho v vt p"
  using spec_hll_speeds_ordered[OF assms, of v v vt vt]
  by (simp add: flux_hll_select hll_select_cases spec_hll_average_same)

lemma spec_sound_pos:
  assumes "gam c > 1" "rho > 0" "p > 0"
  shows "spec_sound c rho p > 0"
  using assms by (simp add: spec_sound_def)

lemma spec_roe_mean_same:
  assumes "rho > 0"
  shows "spec_roe_mean rho rho x x = x"
proof -
  have "sqrt rho * x + sqrt rho * x = (sqrt rho + sqrt rho) * x" by (simp add: algebra_simps)
  moreover have "sqrt rho + sqrt rho \<noteq> 0" using assms by simp
  ultimately show ?thesis unfolding spec_roe_mean_def by simp
qed

lemma consistent_hlle:
  assumes "admissible c rho rho p p"
  shows "flux_hlle c rho rho v v vt vt p p fluxLoc = spec_physical_flux c rho v vt p"
proof -
  have pos: "gam c > 1" "rho > 0" "p > 0" using assms by (simp_all add: admissible_def)
  have cs: "spec_sound c rho p > 0" using pos by (rule spec_sound_pos)
  have d: "0 \<le> hlle_d c rho rho v v p p" by (rule hlle_d_nonneg[OF assms])
  have "min (v - spec_sound c rho p) (spec_roe_mean rho rho v v - hlle_d c rho rho v v p p)
      < max (v + spec_sound c rho p) (spec_roe_mean rho rho v v + hlle_d c rho rho v v p p)"
    using cs d by (simp add: min_def max_def)
  then show ?thesis
    by (simp add: flux_hlle_select hll_select_cases spec_hll_average_same)
qed


lemma roe_stage_same:
  "roe_stage g vxBar vyBar Hbar cBar cBarQ rho rho mx mx my my e e f f b0 b1 b2 b3 fluxLoc = f"
  by (cases fluxLoc; cases f) (simp add: roe_stage_def Let_def)

lemma consistent_roe:
  "flux_roe c rho rho v v vt vt p p fluxLoc = spec_physical_flux c rho v vt p"
  by (simp add: flux_roe_stage Let_def roe_stage_same)

lemma hllc_star_same:
  assumes "s \<noteq> v" "rho \<noteq> 0"
  shows "hllc_star_flux s v rho v vt p (spec_energy c rho v vt p)
           (spec_physical_flux c rho v vt p) (spec_conserved c rho v vt p) fluxLoc
         = spec_physical_flux c rho v vt p"
  using assms
  by (cases fluxLoc)
     (simp add: hllc_star_flux_def Let_def spec_conserved_def spec_physical_flux_def)

lemma hllc_as_same:
  assumes "alm \<noteq> arp" "rho \<noteq> 0"
  shows "hllc_as alm arp rho rho v v p p = v"
proof -
  have n: "p - p + rho * v * (alm - v) - rho * v * (arp - v) = v * (rho * (alm - arp))"
    by (simp add: algebra_simps)
  have d: "rho * (alm - v) - rho * (arp - v) = rho * (alm - arp)"
    by (simp add: algebra_simps)
  have "rho * (alm - arp) \<noteq> 0" using assms by simp
  then show ?thesis unfolding hllc_as_def n d by simp
qed

lemma consistent_hllc:
  assumes "admissible c rho rho p p"
  shows "flux_hllc c rho rho v v vt vt p p fluxLoc = spec_physical_flux c rho v vt p"
proof -
  define alm where "alm = spec_hll_alm c rho rho v v vt vt p p"
  define arp where "arp = spec_hll_arp c rho rho v v vt vt p p"
  have pos: "gam c > 1" "rho > 0" "p > 0" using assms by (simp_all add: admissible_def)
  have cs: "spec_sound c rho p > 0" using pos by (rule spec_sound_pos)
  have lt: "alm < arp" unfolding alm_def arp_def by (rule spec_hll_speeds_ordered[OF assms])
  have a: "alm \<noteq> v" using cs by (simp add: alm_def spec_hll_alm_def min_def)
  have b: "arp \<noteq> v" using cs by (simp add: arp_def spec_hll_arp_def max_def)
  have as: "hllc_as alm arp rho rho v v p p = v"
    using lt pos by (intro hllc_as_same) simp_all
  show ?thesis
    using a b pos
    by (simp add: flux_hllc_cases Let_def alm_def[symmetric] arp_def[symmetric] as
        hllc_star_same)
qed

lemma consistent_god:
  assumes "gam c \<noteq> 1"
    and "exactRiemann c rho rho v v p p (sqrt (gam c * p / rho)) (sqrt (gam c * p / rho)) 0
         = (rho, v, p)"
  shows "flux_god c rho rho v v vt vt p p fluxLoc = spec_physical_flux c rho v vt p"
proof -
  have e: "gam c * p / gam1 c = p / (gam c - 1) + p"
    using assms(1) by (simp add: gam1_def field_simps)
  show ?thesis
    by (cases fluxLoc)
       (simp add: flux_god_def assms(2) spec_physical_flux_def spec_energy_def Let_def e
          power2_eq_square)
qed

lemma ausmd_same:
  assumes "cm > 0"
  shows "fst (ausmd_plus cm 1 v p) + fst (ausmd_minus cm 1 v p) = v"
    and "snd (ausmd_plus cm 1 v p) + snd (ausmd_minus cm 1 v p) = p"
proof -
  show "fst (ausmd_plus cm 1 v p) + fst (ausmd_minus cm 1 v p) = v"
    using assms by (simp add: ausmd_plus_def ausmd_minus_def field_simps)
  show "snd (ausmd_plus cm 1 v p) + snd (ausmd_minus cm 1 v p) = p"
  proof (cases "\<bar>v\<bar> < cm")
    case True
    then show ?thesis
      using assms by (simp add: ausmd_plus_def ausmd_minus_def field_simps)
  next
    case False
    then have "v \<noteq> 0" using assms by auto
    then show ?thesis
      using False by (simp add: ausmd_plus_def ausmd_minus_def field_simps)
  qed
qed

lemma consistent_ausmd:
  assumes "admissible c rho rho p p"
  shows "flux_ausmd c rho rho v v vt vt p p fluxLoc = spec_physical_flux c rho v vt p"
proof -
  have pos: "gam c > 1" "rho > 0" "p > 0" using assms by (simp_all add: admissible_def)
  have cs: "spec_sound c rho p > 0" using pos by (rule spec_sound_pos)
  have alpha: "2 * p / rho / (p / rho + p / rho) = 1"
    using pos by simp
  define up where "up = ausmd_plus (spec_sound c rho p) 1 v p"
  define um where "um = ausmd_minus (spec_sound c rho p) 1 v p"
  have u: "fst up * rho + fst um * rho = v * rho"
    using ausmd_same(1)[OF cs, of v p] by (simp add: up_def um_def flip: distrib_right)
  have pp: "snd up + snd um = p"
    using ausmd_same(2)[OF cs, of v p] by (simp add: up_def um_def)
  have H: "rho * (v * spec_enthalpy c rho v vt p) = p * v + v * spec_energy c rho v vt p"
    using pos by (simp add: spec_enthalpy_def field_simps)
  show ?thesis
    unfolding flux_ausmd_split alpha max.idem up_def[symmetric] um_def[symmetric]
      ausmd_combine_def Let_def u pp
    using H
    by (cases fluxLoc) (simp add: spec_physical_flux_def power2_eq_square algebra_simps)
qed

lemma sound_square:
  assumes "gam c > 1" "rho > 0" "p > 0"
  shows "spec_sound c rho p * spec_sound c rho p = gam c * p / rho"
proof -
  show ?thesis
    using assms by (simp add: spec_sound_def)
qed

lemma stw_same:
  fixes g h :: real
  assumes gh: "2 * g * h = 1"
    and p_def: "p = 2 * h * rho * (cs * cs)"
    and fp: "fp0 = rho * h * (2 * (g - 1) * max v 0 + max (v - cs) 0 + max (v + cs) 0)"
    and fm: "fm0 = rho * h * (2 * (g - 1) * min v 0 + min (v - cs) 0 + min (v + cs) 0)"
  shows "fp0 + fm0 = rho * v"
    and "fp0 * v + (max (v + cs) 0 - max (v - cs) 0) * rho * cs * h
         + (fm0 * v + (min (v + cs) 0 - min (v - cs) 0) * rho * cs * h) = rho * v\<^sup>2 + p"
    and "fp0 * vt + fm0 * vt = rho * v * vt"
    and "fp0 * 0.5 * (v * v + vt * vt)
           + (max (v + cs) 0 - max (v - cs) 0) * rho * cs * v * h
           + (max (v + cs) 0 + max (v - cs) 0) * rho * cs * cs * h * k
         + (fm0 * 0.5 * (v * v + vt * vt)
           + (min (v + cs) 0 - min (v - cs) 0) * rho * cs * v * h
           + (min (v + cs) 0 + min (v - cs) 0) * rho * cs * cs * h * k)
         = v * (p * k + 1 / 2 * rho * (v\<^sup>2 + vt\<^sup>2) + p)"
proof -
  have s: "max x 0 + min x 0 = x" for x :: real
    by (simp add: max_def min_def)
  have "fp0 + fm0 = rho * h * (2 * (g - 1) * (max v 0 + min v 0)
      + (max (v - cs) 0 + min (v - cs) 0) + (max (v + cs) 0 + min (v + cs) 0))"
    by (simp add: fp fm algebra_simps)
  also have "\<dots> = rho * v * (2 * g * h)"
    by (simp only: s) (simp add: algebra_simps)
  also have "\<dots> = rho * v"
    by (simp only: gh mult_1_right)
  finally show mass: "fp0 + fm0 = rho * v" .
  have "fp0 * v + (max (v + cs) 0 - max (v - cs) 0) * rho * cs * h
         + (fm0 * v + (min (v + cs) 0 - min (v - cs) 0) * rho * cs * h)
      = (fp0 + fm0) * v + ((max (v + cs) 0 + min (v + cs) 0)
          - (max (v - cs) 0 + min (v - cs) 0)) * rho * cs * h"
    by (simp add: algebra_simps)
  also have "\<dots> = rho * v * v + (v + cs - (v - cs)) * rho * cs * h"
    by (simp only: s mass)
  also have "\<dots> = rho * v\<^sup>2 + p"
    by (simp add: p_def power2_eq_square algebra_simps)
  finally show "fp0 * v + (max (v + cs) 0 - max (v - cs) 0) * rho * cs * h
         + (fm0 * v + (min (v + cs) 0 - min (v - cs) 0) * rho * cs * h) = rho * v\<^sup>2 + p" .
  have "fp0 * vt + fm0 * vt = (fp0 + fm0) * vt"
    by (simp add: algebra_simps)
  then show "fp0 * vt + fm0 * vt = rho * v * vt"
    by (simp only: mass)
  have "fp0 * 0.5 * (v * v + vt * vt)
           + (max (v + cs) 0 - max (v - cs) 0) * rho * cs * v * h
           + (max (v + cs) 0 + max (v - cs) 0) * rho * cs * cs * h * k
         + (fm0 * 0.5 * (v * v + vt * vt)
           + (min (v + cs) 0 - min (v - cs) 0) * rho * cs * v * h
           + (min (v + cs) 0 + min (v - cs) 0) * rho * cs * cs * h * k)
      = (fp0 + fm0) * 0.5 * (v * v + vt * vt)
        + ((max (v + cs) 0 + min (v + cs) 0) - (max (v - cs) 0 + min (v - cs) 0))
            * rho * cs * v * h
        + ((max (v + cs) 0 + min (v + cs) 0) + (max (v - cs) 0 + min (v - cs) 0))
            * rho * cs * cs * h * k"
    by (simp add: algebra_simps)
  also have "\<dots> = rho * v * 0.5 * (v * v + vt * vt) + (v + cs - (v - cs)) * rho * cs * v * h
        + (v + cs + (v - cs)) * rho * cs * cs * h * k"
    by (simp only: s mass)
  also have "\<dots> = v * (p * k + 1 / 2 * rho * (v\<^sup>2 + vt\<^sup>2) + p)"
    by (simp add: p_def power2_eq_square algebra_simps)
  finally show "fp0 * 0.5 * (v * v + vt * vt)
           + (max (v + cs) 0 - max (v - cs) 0) * rho * cs * v * h
           + (max (v + cs) 0 + max (v - cs) 0) * rho * cs * cs * h * k
         + (fm0 * 0.5 * (v * v + vt * vt)
           + (min (v + cs) 0 - min (v - cs) 0) * rho * cs * v * h
           + (min (v + cs) 0 + min (v - cs) 0) * rho * cs * cs * h * k)
         = v * (p * k + 1 / 2 * rho * (v\<^sup>2 + vt\<^sup>2) + p)" .
qed

lemma consistent_stw:
  assumes "admissible c rho rho p p"
  shows "flux_stw c rho rho v v vt vt p p fluxLoc = spec_physical_flux c rho v vt p"
proof -
  have pos: "gam c > 1" "rho > 0" "p > 0" using assms by (simp_all add: admissible_def)
  have gh: "2 * gam c * (0.5 / gam c) = 1" using pos by simp
  have pd: "p = 2 * (0.5 / gam c) * rho * (spec_sound c rho p * spec_sound c rho p)"
    using pos by (simp add: sound_square[OF pos])
  have k: "p * gam1q c = p / (gam c - 1)"
    by (simp add: gam1q_def gam1_def)
  note s = stw_same(1)[OF gh pd refl refl] stw_same(2)[OF gh pd refl refl]
    stw_same(3)[OF gh pd refl refl, where vt = vt]
    stw_same(4)[OF gh pd refl refl, where vt = vt and k = "gam1q c", unfolded k]
  show ?thesis
    unfolding flux_stw_def Let_def spec_sound_def[symmetric] gam1_def
      spec_physical_flux_def spec_energy_def
    by (cases fluxLoc) (simp only: s vec4.simps vec4.update_convs)
qed

lemma vanleer_subsonic:
  fixes g :: real
  assumes g: "g > 1" and cs: "cs > 0" and rho: "rho > 0"
    and v: "v = M * cs" and p: "p = rho * (cs * cs) / g"
    and fp0: "fp0 = 0.25 * rho * cs * (M + 1) * (M + 1)"
    and fm0: "fm0 = - 0.25 * rho * cs * (1 - M) * (1 - M)"
    and cxp: "cxp = (g - 1) * v + 2 * cs"
    and cxm: "cxm = (g - 1) * v - 2 * cs"
  shows "fp0 + fm0 = rho * v"
    and "fp0 * cxp / g + fm0 * cxm / g = rho * v\<^sup>2 + p"
    and "fp0 * vt + fm0 * vt = rho * v * vt"
    and "0.5 * (fp0 * cxp / g * cxp * g / (g * g - 1) + fp0 * vt * vt)
         + 0.5 * (fm0 * cxm / g * cxm * g / (g * g - 1) + fm0 * vt * vt)
         = v * (p / (g - 1) + 1 / 2 * rho * (v\<^sup>2 + vt\<^sup>2) + p)"
proof -
  have g0: "g \<noteq> 0" "g - 1 \<noteq> 0" "g + 1 \<noteq> 0" using g by simp_all
  have gg: "g * g - 1 = (g - 1) * (g + 1)" by (simp add: algebra_simps)
  show mass: "fp0 + fm0 = rho * v"
    by (simp add: fp0 fm0 v field_simps)
  show "fp0 * cxp / g + fm0 * cxm / g = rho * v\<^sup>2 + p"
    using g0 by (simp add: fp0 fm0 cxp cxm v p field_simps power2_eq_square)
  have "fp0 * vt + fm0 * vt = (fp0 + fm0) * vt" by (simp add: algebra_simps)
  then show "fp0 * vt + fm0 * vt = rho * v * vt" by (simp only: mass)
  have key: "fp0 * cxp * cxp + fm0 * cxm * cxm
      = rho * cs * cs * cs * (g + 1) * M * ((g - 1) * M * M + 2)"
    by (simp add: fp0 fm0 cxp cxm v field_simps)
  have a: "fp0 * cxp / g * cxp * g / (g * g - 1) = fp0 * cxp * cxp / (g * g - 1)"
    "fm0 * cxm / g * cxm * g / (g * g - 1) = fm0 * cxm * cxm / (g * g - 1)"
    using g0 by simp_all
  have "0.5 * (fp0 * cxp / g * cxp * g / (g * g - 1) + fp0 * vt * vt)
         + 0.5 * (fm0 * cxm / g * cxm * g / (g * g - 1) + fm0 * vt * vt)
      = 0.5 * ((fp0 * cxp * cxp + fm0 * cxm * cxm) / (g * g - 1)) + 0.5 * ((fp0 + fm0) * vt * vt)"
    unfolding a by (simp add: algebra_simps add_divide_distrib)
  also have "\<dots> = 0.5 * (rho * cs * cs * cs * (g + 1) * M * ((g - 1) * M * M + 2)
        / ((g - 1) * (g + 1))) + 0.5 * (rho * v * vt * vt)"
    by (simp only: key mass gg)
  also have "\<dots> = 0.5 * (rho * cs * cs * cs * M * ((g - 1) * M * M + 2) / (g - 1))
        + 0.5 * (rho * v * vt * vt)"
    using g0 by simp
  also have "\<dots> = v * (p / (g - 1) + 1 / 2 * rho * (v\<^sup>2 + vt\<^sup>2) + p)"
    using g0 by (simp add: v p field_simps power2_eq_square)
  finally show "0.5 * (fp0 * cxp / g * cxp * g / (g * g - 1) + fp0 * vt * vt)
         + 0.5 * (fm0 * cxm / g * cxm * g / (g * g - 1) + fm0 * vt * vt)
         = v * (p / (g - 1) + 1 / 2 * rho * (v\<^sup>2 + vt\<^sup>2) + p)" .
qed


lemma consistent_vanleer:
  assumes adm: "admissible c rho rho p p" and ns: "\<bar>v\<bar> \<noteq> spec_sound c rho p"
  shows "flux_vanleer c rho rho v v vt vt p p fluxLoc = spec_physical_flux c rho v vt p"
proof -
  define cs where "cs = spec_sound c rho p"
  define M where "M = v / cs"
  have pos: "gam c > 1" "rho > 0" "p > 0" using adm by (simp_all add: admissible_def)
  have cs: "cs > 0" unfolding cs_def using pos by (rule spec_sound_pos)
  have v: "v = M * cs" using cs by (simp add: M_def)
  have p: "p = rho * (cs * cs) / gam c"
    using pos by (simp add: cs_def sound_square[OF pos])
  have M1: "M \<noteq> 1" "M \<noteq> - 1"
    using ns cs by (auto simp: M_def cs_def[symmetric] field_simps)
  have H: "rho * v * ((gam1q c * p + 0.5 * rho * (v * v + vt * vt) + p) / rho)
      = v * (spec_energy c rho v vt p + p)"
    using pos by (simp add: spec_energy_def gam1q_def gam1_def power2_eq_square)
  have plus: "vanleer_plus c rho v vt p =
      (if M > 1 then \<lparr>at0 = rho * v, at1 = rho * v * v + p, at2 = rho * v * vt,
                         at3 = v * (spec_energy c rho v vt p + p)\<rparr>
       else if M < 1 \<and> M > - 1 then
         \<lparr>at0 = 0.25 * rho * cs * (M + 1) * (M + 1),
          at1 = 0.25 * rho * cs * (M + 1) * (M + 1) * ((gam c - 1) * v + 2 * cs) / gam c,
          at2 = 0.25 * rho * cs * (M + 1) * (M + 1) * vt,
          at3 = 0.5 * (0.25 * rho * cs * (M + 1) * (M + 1) * ((gam c - 1) * v + 2 * cs) / gam c
                        * ((gam c - 1) * v + 2 * cs) * gam c / (gam c * gam c - 1)
                      + 0.25 * rho * cs * (M + 1) * (M + 1) * vt * vt)\<rparr>
       else \<lparr>at0 = 0, at1 = 0, at2 = 0, at3 = 0\<rparr>)"
    unfolding vanleer_plus_def Let_def spec_sound_def[symmetric] cs_def[symmetric]
      M_def[symmetric] gam1_def H
    by (rule refl)
  have minus: "vanleer_minus c rho v vt p =
      (if M < - 1 then \<lparr>at0 = rho * v, at1 = rho * v * v + p, at2 = rho * v * vt,
                         at3 = v * (spec_energy c rho v vt p + p)\<rparr>
       else if M < 1 \<and> M > - 1 then
         \<lparr>at0 = - 0.25 * rho * cs * (1 - M) * (1 - M),
          at1 = - 0.25 * rho * cs * (1 - M) * (1 - M) * ((gam c - 1) * v - 2 * cs) / gam c,
          at2 = - 0.25 * rho * cs * (1 - M) * (1 - M) * vt,
          at3 = 0.5 * (- 0.25 * rho * cs * (1 - M) * (1 - M) * ((gam c - 1) * v - 2 * cs) / gam c
                        * ((gam c - 1) * v - 2 * cs) * gam c / (gam c * gam c - 1)
                      + - 0.25 * rho * cs * (1 - M) * (1 - M) * vt * vt)\<rparr>
       else \<lparr>at0 = 0, at1 = 0, at2 = 0, at3 = 0\<rparr>)"
    unfolding vanleer_minus_def Let_def spec_sound_def[symmetric] cs_def[symmetric]
      M_def[symmetric] gam1_def H
    by (rule refl)
  note sub = vanleer_subsonic[OF pos(1) cs pos(2) v p refl refl refl refl]
  consider "M > 1" | "M < - 1" | "M < 1 \<and> M > - 1"
    using M1 by linarith
  then show ?thesis
  proof cases
    case 1
    then show ?thesis
      by (cases fluxLoc)
         (simp add: flux_vanleer_split plus minus spec_physical_flux_def power2_eq_square)
  next
    case 2
    then show ?thesis
      by (cases fluxLoc)
         (simp add: flux_vanleer_split plus minus spec_physical_flux_def power2_eq_square)
  next
    case 3
    then have br: "(M > 1) = False" "(M < - 1) = False" "(M < 1 \<and> M > - 1) = True"
      by auto
    have "flux_vanleer c rho rho v v vt vt p p fluxLoc
        = \<lparr>at0 = rho * v, at1 = rho * v\<^sup>2 + p, at2 = rho * v * vt,
           at3 = v * (p / (gam c - 1) + 1 / 2 * rho * (v\<^sup>2 + vt\<^sup>2) + p)\<rparr>"
      unfolding flux_vanleer_split plus minus br if_True if_False
      by (cases fluxLoc) (simp only: vec4.simps
          vec4.update_convs sub(1) sub(2) sub(3)[where vt = vt] sub(4)[where vt = vt])
    then show ?thesis
      by (simp add: spec_physical_flux_def spec_energy_def)
  qed
qed

lemma consistent_ausmdv:
  assumes adm: "admissible c rho rho p p"
  shows "flux_ausmdv c rho rho v v vt vt p p fluxLoc = spec_physical_flux c rho v vt p"
proof -
  define cs where "cs = spec_sound c rho p"
  define H where "H = (gam1q c * p + 0.5 * rho * (v * v + vt * vt) + p) / rho"
  have pos: "gam c > 1" "rho > 0" "p > 0" using adm by (simp_all add: admissible_def)
  have cs: "cs > 0" unfolding cs_def using pos by (rule spec_sound_pos)
  have alpha: "2 * p / rho / (p / rho + p / rho) = 1"
    using pos by simp
  have sw: "min 1 (10 * \<bar>p - p\<bar> / min p p) = 0"
    by simp
  have fa: "(v - cs < 0 \<and> v - cs > 0) = False" "(v + cs < 0 \<and> v + cs > 0) = False"
    by auto
  have pp: "0.25 * p * (v + cs) * (v + cs) / (cs * cs) * (2 - v / cs)
      + 0.25 * p * (v - cs) * (v - cs) / (cs * cs) * (2 + v / cs) = p"
    using cs by (simp add: field_simps)
  have rH: "rho * v * H = v * (spec_energy c rho v vt p + p)"
    using pos by (simp add: H_def spec_energy_def gam1q_def gam1_def power2_eq_square)
  have form: "flux_ausmdv c rho rho v v vt vt p p fluxLoc =
    (let up = (if \<bar>v\<bar> < cs then
              (if v > 0 then v + 1 * (v - cs) * (v - cs)
               else 1 * (v + cs) * (v + cs),
               0.25 * p * (v + cs) * (v + cs) / (cs * cs) * (2 - v / cs))
            else
              (if v > 0 then (v, p) else (0, 0)));
         um = (if \<bar>v\<bar> < cs then
              (if v > 0 then - 1 * (v - cs) * (v - cs)
               else v - 1 * (v + cs) * (v + cs),
               0.25 * p * (v - cs) * (v - cs) / (cs * cs) * (2 + v / cs))
            else
              (if v > 0 then (0, 0) else (v, p)));
         rhoU = fst up * rho + fst um * rho
     in fluxLoc\<lparr>at0 := rhoU,
                at1 := 0.5 * (1 + 0) * (rho * v * fst up + rho * v * fst um)
                        + 0.25 * (1 - 0) * (rhoU * (v + v) - \<bar>rhoU\<bar> * (v - v))
                        + (snd up + snd um),
                at2 := 0.5 * (rhoU * (vt + vt) - \<bar>rhoU\<bar> * (vt - vt)),
                at3 := 0.5 * (rhoU * (H + H) - \<bar>rhoU\<bar> * (H - H))\<rparr>)"
    unfolding flux_ausmdv_def Let_def spec_sound_def[symmetric] cs_def[symmetric]
      H_def[symmetric] alpha max.idem sw fa case_prod_beta
    by (simp only: simp_thms if_False)
  have u: "fst (if \<bar>v\<bar> < cs then
              (if v > 0 then v + 1 * (v - cs) * (v - cs)
               else 1 * (v + cs) * (v + cs),
               0.25 * p * (v + cs) * (v + cs) / (cs * cs) * (2 - v / cs))
            else
              (if v > 0 then (v, p) else (0, 0)))
         + fst (if \<bar>v\<bar> < cs then
              (if v > 0 then - 1 * (v - cs) * (v - cs)
               else v - 1 * (v + cs) * (v + cs),
               0.25 * p * (v - cs) * (v - cs) / (cs * cs) * (2 + v / cs))
            else
              (if v > 0 then (0, 0) else (v, p))) = v"
    by (simp add: algebra_simps)
  have q: "snd (if \<bar>v\<bar> < cs then
              (if v > 0 then v + 1 * (v - cs) * (v - cs)
               else 1 * (v + cs) * (v + cs),
               0.25 * p * (v + cs) * (v + cs) / (cs * cs) * (2 - v / cs))
            else
              (if v > 0 then (v, p) else (0, 0)))
         + snd (if \<bar>v\<bar> < cs then
              (if v > 0 then - 1 * (v - cs) * (v - cs)
               else v - 1 * (v + cs) * (v + cs),
               0.25 * p * (v - cs) * (v - cs) / (cs * cs) * (2 + v / cs))
            else
              (if v > 0 then (0, 0) else (v, p))) = p"
    using pp by (simp del: mult_1)
  define up where "up = (if \<bar>v\<bar> < cs then
              (if v > 0 then v + 1 * (v - cs) * (v - cs)
               else 1 * (v + cs) * (v + cs),
               0.25 * p * (v + cs) * (v + cs) / (cs * cs) * (2 - v / cs))
            else
              (if v > 0 then (v, p) else (0, 0)))"
  define um where "um = (if \<bar>v\<bar> < cs then
              (if v > 0 then - 1 * (v - cs) * (v - cs)
               else v - 1 * (v + cs) * (v + cs),
               0.25 * p * (v - cs) * (v - cs) / (cs * cs) * (2 + v / cs))
            else
              (if v > 0 then (0, 0) else (v, p)))"
  have u': "fst up + fst um = v" and q': "snd up + snd um = p"
    using u q by (simp_all only: up_def um_def)
  have ru: "fst up * rho + fst um * rho = rho * v"
    using u' by (simp add: algebra_simps flip: distrib_left)
  have rv: "rho * v * fst up + rho * v * fst um = rho * v * v"
    using u' by (simp flip: distrib_left)
  show ?thesis
    unfolding form up_def[symmetric] um_def[symmetric] Let_def ru rv q'
    using rH
    by (cases fluxLoc) (simp add: spec_physical_flux_def power2_eq_square algebra_simps)
qed

lemma consistent_kernels:
  assumes adm: "admissible c rho rho p p"
    and k: "iFlux c \<in> recognized" "iFlux c \<noteq> GOD"
    and ns: "iFlux c = VANLEER \<longrightarrow> \<bar>v\<bar> \<noteq> spec_sound c rho p"
  shows "convectiveFlux c rho rho v v vt vt p p fluxLoc = spec_physical_flux c rho v vt p"
  using k ns
  by (cases "iFlux c")
     (simp_all add: convectiveFlux_def recognized_def consistent_roe consistent_hll[OF adm]
        consistent_hlle[OF adm] consistent_hllc[OF adm] consistent_lxf consistent_stw[OF adm]
        consistent_cen consistent_ausmd[OF adm] consistent_ausmdv[OF adm]
        consistent_vanleer[OF adm])

text \<open>The uniform flow of the specification (\<open>\<rho> = 1\<close>, \<open>v = 2\<close>, \<open>v\<^sub>t = 0\<close>, \<open>p = 1\<close>,
  \<open>\<gamma> = 1.4\<close>) is supersonic, so all ten kernels that do not call the external solver
  return \<open>(2, 5, 0, 11)\<close>.\<close>

lemma uniform_flow:
  assumes g: "gam c = 7 / 5" and k: "iFlux c \<in> recognized" "iFlux c \<noteq> GOD"
  shows "convectiveFlux c 1 1 2 2 0 0 1 1 fluxLoc = \<lparr>at0 = 2, at1 = 5, at2 = 0, at3 = 11\<rparr>"
proof -
  have adm: "admissible c 1 1 1 1"
    by (simp add: admissible_def g)
  have "sqrt (7 / 5) < sqrt 4"
    by (rule real_sqrt_less_mono) simp
  then have ns: "\<bar>2 :: real\<bar> \<noteq> spec_sound c 1 1"
    by (simp add: spec_sound_def g)
  have "convectiveFlux c 1 1 2 2 0 0 1 1 fluxLoc = spec_physical_flux c 1 2 0 1"
    using ns by (intro consistent_kernels[OF adm k]) simp
  then show ?thesis
    by (simp add: spec_physical_flux_def spec_energy_def g)
qed

text \<open>
  Claim C2 asks that every kernel returns the physical flux of the common state when the
  left and the right state are equal. The van Leer kernel does not at a sonic state: its
  branches test \<open>M > 1\<close> and \<open>-1 < M < 1\<close> for the flux from the left, \<open>M < -1\<close> and
  \<open>-1 < M < 1\<close> for the flux from the right, so at \<open>M = 1\<close> both parts take the last branch
  and the kernel returns the zero vector. With \<open>\<gamma> = 7/5\<close>, \<open>\<rho> = 7/5\<close>, \<open>p = 1\<close> the sound speed
  is 1, and the state with normal velocity 1 is admissible; its physical flux is not zero.
\<close>

theorem C2_vanleer_sonic_state:
  "admissible (ex_globals\<lparr>iFlux := VANLEER\<rparr>) (7 / 5) (7 / 5) 1 1
   \<and> convectiveFlux (ex_globals\<lparr>iFlux := VANLEER\<rparr>) (7 / 5) (7 / 5) 1 1 0 0 1 1 zero4 = zero4
   \<and> spec_physical_flux (ex_globals\<lparr>iFlux := VANLEER\<rparr>) (7 / 5) 1 0 1
       = \<lparr>at0 = 7 / 5, at1 = 12 / 5, at2 = 0, at3 = 21 / 5\<rparr>"
  by (simp add: admissible_def convectiveFlux_def flux_vanleer_def ex_globals_def zero4_def
      spec_physical_flux_def spec_energy_def Let_def)

end
